theory Spec2Isabelle
  imports Main "HOL-Library.Sublist" "HOL-Library.Multiset"
begin

section \<open>JavaScript values used by the two programs\<close>

text \<open>
  A JavaScript string is a sequence of UTF-16 code units. \<open>String.prototype.trim\<close> and
  the regular expressions of the source look at code units beyond one byte (U+00A0,
  U+2028, U+FEFF, ...), so a string is a list of code units, each a natural number.
  \<open>js\<close> turns an ASCII literal into such a string.
\<close>

type_synonym jsstring = "nat list"

definition js :: "string \<Rightarrow> jsstring" where
  "js s = map of_char s"

text \<open>
  \<open>WhiteSpace\<close> and \<open>LineTerminator\<close> of ECMAScript: the code units that
  \<open>trim\<close> removes from both ends.
\<close>

definition is_white_space :: "nat \<Rightarrow> bool" where
  "is_white_space c \<longleftrightarrow>
     c = 9 \<or> c = 10 \<or> c = 11 \<or> c = 12 \<or> c = 13 \<or> c = 32 \<or> c = 160 \<or> c = 5760 \<or>
     (8192 \<le> c \<and> c \<le> 8202) \<or> c = 8232 \<or> c = 8233 \<or> c = 8239 \<or> c = 8287 \<or>
     c = 12288 \<or> c = 65279"

definition trim :: "jsstring \<Rightarrow> jsstring" where
  "trim s = rev (dropWhile is_white_space (rev (dropWhile is_white_space s)))"

text \<open>A string is truthy when it is not empty; \<open>null\<close> and \<open>undefined\<close> are falsy.\<close>

definition truthy_string :: "jsstring \<Rightarrow> bool" where
  "truthy_string s \<longleftrightarrow> s \<noteq> []"

definition truthy :: "jsstring option \<Rightarrow> bool" where
  "truthy v = (case v of None \<Rightarrow> False | Some s \<Rightarrow> truthy_string s)"

text \<open>\<open>s.split('\n')\<close>: the pieces between newlines; the empty string gives one empty piece.\<close>

fun split_on :: "nat \<Rightarrow> jsstring \<Rightarrow> jsstring list" where
  "split_on c [] = [[]]"
| "split_on c (x # xs) =
     (if x = c then [] # split_on c xs
      else (case split_on c xs of
              [] \<Rightarrow> [[x]]
            | l # ls \<Rightarrow> (x # l) # ls))"

text \<open>\<open>Array.prototype.pop\<close>: the last element, \<open>undefined\<close> (here \<open>None\<close>) on an empty array.\<close>

definition pop :: "'a list \<Rightarrow> 'a option" where
  "pop xs = (if xs = [] then None else Some (last xs))"

text \<open>\<open>lines.join('\n')\<close>, to write a text as the list of its lines.\<close>

fun join_lines :: "jsstring list \<Rightarrow> jsstring" where
  "join_lines [] = []"
| "join_lines [l] = l"
| "join_lines (l # ls) = l @ 10 # join_lines ls"

text \<open>
  A value thrown and caught. Every value thrown in the two programs is an \<open>Error\<close>
  object: the programs' own \<open>throw new Error(...)\<close>, and the rejections and exceptions of
  the runtime and the libraries (\<open>fs\<close>, \<open>JSON.parse\<close>, execa, axios, the store's driver).
  The programs look at a caught error through \<open>String(error && error.stack)\<close> and
  \<open>error.response\<close> only; an \<open>Error\<close> object is truthy, so the first is the text of its
  \<open>stack\<close> property. \<open>response\<close> is the text of \<open>error.response.data\<close> when
  \<open>error.response\<close> is truthy (axios sets it when the server answered with a status
  outside 2xx).
\<close>

datatype thrown = Error (stack: jsstring) (response: "jsstring option")

text \<open>\<open>String(error && error.stack)\<close>\<close>

definition describe :: "thrown \<Rightarrow> jsstring" where
  "describe error = stack error"

text \<open>
  \<open>new Error(message)\<close>: on V8 the stack text is the line \<open>Error: message\<close> followed by
  the frames of the call stack, which the runtime supplies.
\<close>

definition new_Error :: "jsstring \<Rightarrow> jsstring \<Rightarrow> thrown" where
  "new_Error frames message = Error (js ''Error: '' @ message @ frames) None"

text \<open>
  A parsed JSON document, as \<open>JSON.parse\<close> returns it and as the store keeps it. Numbers
  are carried as integers; nothing modelled here computes with them.
\<close>

datatype json =
    JNull
  | JBool bool
  | JNum int
  | JStr jsstring
  | JArr "json list"
  | JObj "(jsstring \<times> json) list"

text \<open>
  Matching an ASCII letter of a pattern under the \<open>i\<close> flag (without the \<open>u\<close> flag):
  both sides are canonicalised by upper-casing, and a code unit outside ASCII never
  canonicalises to an ASCII one, so only the two ASCII cases of the letter match.
\<close>

definition ascii_upper :: "nat \<Rightarrow> nat" where
  "ascii_upper c = (if 97 \<le> c \<and> c \<le> 122 then c - 32 else c)"

fun starts_with_ci :: "jsstring \<Rightarrow> jsstring \<Rightarrow> bool" where
  "starts_with_ci [] s = True"
| "starts_with_ci (p # ps) [] = False"
| "starts_with_ci (p # ps) (c # cs) = (ascii_upper c = ascii_upper p \<and> starts_with_ci ps cs)"

text \<open>
  \<open>path.join(dir, name)\<close>, \<open>path.extname(name)\<close> and \<open>path.basename(name, ext)\<close> of
  Node (POSIX), for a directory \<open>dir\<close> without a trailing slash and a \<open>name\<close> that is
  a single path component: the programs apply them to the entries that \<open>glob\<close> lists in
  one directory. The extension starts at the last dot, unless that dot is the first
  character or the name is \<open>..\<close>.
\<close>

definition path_join :: "jsstring \<Rightarrow> jsstring \<Rightarrow> jsstring" where
  "path_join dir name = dir @ js ''/'' @ name"

definition path_extname :: "jsstring \<Rightarrow> jsstring" where
  "path_extname name =
     (let ext = rev (takeWhile (\<lambda>c. c \<noteq> 46) (rev name))
      in if 46 \<notin> set name \<or> length ext + 1 = length name \<or> name = js ''..'' then []
         else drop (length name - length ext - 1) name)"

definition path_basename :: "jsstring \<Rightarrow> jsstring \<Rightarrow> jsstring" where
  "path_basename name ext =
     (if ext \<noteq> [] \<and> ext = name then []
      else if ext \<noteq> [] \<and> suffix ext name then take (length name - length ext) name
      else name)"

section \<open>The job store\<close>

text \<open>
  A document of the \<open>songs\<close> collection. \<open>song_id\<close> is the \<open>_id\<close> field. The import
  sets \<open>url\<close>, \<open>eventId\<close> and \<open>addedAt\<close>; the dispatcher sets \<open>renderResult\<close>,
  \<open>renderError\<close> and \<open>renderedAt\<close>, which are absent (\<open>None\<close>) until then. The
  collection is the list of its documents in insertion order.
\<close>

record song =
  song_id :: nat
  url :: jsstring
  eventId :: jsstring
  addedAt :: nat
  renderResult :: "json option"
  renderError :: "jsstring option"
  renderedAt :: "nat option"

type_synonym collection = "song list"

text \<open>
  \<open>collection.updateOne(filter, update)\<close> changes the first document that matches
  the filter and leaves the collection as it is when none matches.
\<close>

fun updateOne :: "(song \<Rightarrow> bool) \<Rightarrow> (song \<Rightarrow> song) \<Rightarrow> collection \<Rightarrow> collection" where
  "updateOne match update [] = []"
| "updateOne match update (d # ds) =
     (if match d then update d # ds else d # updateOne match update ds)"

text \<open>
  The query operator \<open>{ 'renderResult.uploadedAt': { $exists: false } }\<close> of the
  store. The dotted path exists in a document when \<open>renderResult\<close> is an embedded
  document with the key \<open>uploadedAt\<close>, or an array one of whose elements is such a
  document; a missing \<open>renderResult\<close> and any other value have no such path.
\<close>

fun has_key :: "jsstring \<Rightarrow> json \<Rightarrow> bool" where
  "has_key k (JObj kvs) = (k \<in> set (map fst kvs))"
| "has_key k v = False"

fun field_exists :: "jsstring \<Rightarrow> json \<Rightarrow> bool" where
  "field_exists k (JObj kvs) = (k \<in> set (map fst kvs))"
| "field_exists k (JArr vs) = list_ex (has_key k) vs"
| "field_exists k v = False"

definition uploadedAt_exists :: "song \<Rightarrow> bool" where
  "uploadedAt_exists d =
     (case renderResult d of
        None \<Rightarrow> False
      | Some r \<Rightarrow> field_exists (js ''uploadedAt'') r)"

section \<open>The \<open>import\<close> command\<close>

text \<open>
  \<^verbatim>\<open>
  const operations = JSON.parse(fs.readFileSync(args.file, 'utf8')).map(
    url => ({
      updateOne: {
        filter: { url },
        update: { $setOnInsert: { url, eventId: eventId, addedAt: new Date() } },
        upsert: true
      }
    })
  )
  \<close>
  One operation per entry of the file, each entry a string (the file is a list of
  URLs); \<open>clock i\<close> is the time \<open>new Date()\<close> reads for the \<open>i\<close>-th of them.
\<close>

record operation =
  filter_url :: jsstring
  insert_eventId :: jsstring
  insert_addedAt :: nat

fun operations_from :: "jsstring \<Rightarrow> (nat \<Rightarrow> nat) \<Rightarrow> nat \<Rightarrow> jsstring list \<Rightarrow> operation list" where
  "operations_from eid clock i [] = []"
| "operations_from eid clock i (u # us) =
     \<lparr>filter_url = u, insert_eventId = eid, insert_addedAt = clock i\<rparr>
       # operations_from eid clock (Suc i) us"

text \<open>
  The store gives an inserted document an \<open>_id\<close> that no document of the collection
  has.
\<close>

definition fresh_id :: "collection \<Rightarrow> nat" where
  "fresh_id c = Suc (fold max (map song_id c) 0)"

text \<open>
  An \<open>updateOne\<close> operation with \<open>upsert: true\<close> and only \<open>$setOnInsert\<close> in its
  update: a document that matches the filter is left as it is; when none matches, a
  document with the fields of \<open>$setOnInsert\<close> is inserted.
\<close>

definition upsert :: "operation \<Rightarrow> collection \<Rightarrow> collection" where
  "upsert op c =
     (if list_ex (\<lambda>d. url d = filter_url op) c
      then updateOne (\<lambda>d. url d = filter_url op) (\<lambda>d. d) c
      else c @ [\<lparr>song_id = fresh_id c, url = filter_url op, eventId = insert_eventId op,
                 addedAt = insert_addedAt op, renderResult = None, renderError = None,
                 renderedAt = None\<rparr>])"

text \<open>
  \<open>collection.bulkWrite(operations)\<close>, ordered: the operations are applied in order,
  and the first one that fails (\<open>op_fails i\<close> for the \<open>i\<close>-th) ends the call with the
  earlier ones applied.
\<close>

fun bulkWrite :: "(nat \<Rightarrow> thrown option) \<Rightarrow> nat \<Rightarrow> operation list \<Rightarrow> collection
    \<Rightarrow> thrown option \<times> collection" where
  "bulkWrite op_fails i [] c = (None, c)"
| "bulkWrite op_fails i (op # ops) c =
     (case op_fails i of
        Some e \<Rightarrow> (Some e, c)
      | None \<Rightarrow> bulkWrite op_fails (Suc i) ops (upsert op c))"

text \<open>
  What the \<open>import\<close> command reads from outside: the event identifier
  \<open>path.basename(args.file, '.urls.json')\<close>, the flag \<open>args.f\<close>, the parsed file (or
  the error of reading or parsing it), the clock, whether connecting to the store
  fails, whether the driver refuses the list of operations as a whole (as it does an
  empty list) and which write operations fail.
\<close>

record import_env =
  file_eventId :: jsstring
  apply_changes :: bool
  file_urls :: "thrown + jsstring list"
  import_clock :: "nat \<Rightarrow> nat"
  import_frames :: jsstring
  import_connect_fails :: "thrown option"
  import_refused :: "operation list \<Rightarrow> thrown option"
  import_op_fails :: "nat \<Rightarrow> thrown option"

text \<open>\<open>eventId.match(/^[a-z0-9]+$/)\<close> is truthy\<close>

definition valid_eventId :: "jsstring \<Rightarrow> bool" where
  "valid_eventId eid \<longleftrightarrow>
     eid \<noteq> [] \<and> list_all (\<lambda>c. (97 \<le> c \<and> c \<le> 122) \<or> (48 \<le> c \<and> c \<le> 57)) eid"

text \<open>
  The command returns the error it ends with, if any, and the collection it leaves.
  Without \<open>args.f\<close> it only logs the operations.
\<close>

definition import_command :: "import_env \<Rightarrow> collection \<Rightarrow> thrown option \<times> collection" where
  "import_command env c =
     (if \<not> valid_eventId (file_eventId env)
      then (Some (new_Error (import_frames env)
              (js ''Event ID must be an alphanumeric string; received: '' @ file_eventId env)), c)
      else case file_urls env of
        Inl e \<Rightarrow> (Some e, c)
      | Inr urls \<Rightarrow>
          (let operations = operations_from (file_eventId env) (import_clock env) 0 urls
           in if apply_changes env
              then (case import_connect_fails env of
                      Some e \<Rightarrow> (Some e, c)
                    | None \<Rightarrow>
                        (case import_refused env operations of
                           Some e \<Rightarrow> (Some e, c)
                         | None \<Rightarrow> bulkWrite (import_op_fails env) 0 operations c))
              else (None, c)))"

section \<open>The \<open>work\<close> command: one dispatch cycle\<close>

text \<open>The query of the cycle: \<open>find({ 'renderResult.uploadedAt': { $exists: false } })\<close>.\<close>

definition find_pending :: "collection \<Rightarrow> song list" where
  "find_pending c = filter (\<lambda>d. \<not> uploadedAt_exists d) c"

text \<open>
  \<open>axios.put\<close> resolves with the response when the status is 2xx (\<open>response.data\<close>
  is its body, as text) and rejects otherwise: no answer, a timeout, another status.
\<close>

datatype http_outcome = Resolved jsstring | Rejected thrown

text \<open>
  What a dispatch cycle reads from outside. \<open>find_fails\<close> is the error of
  connecting to the store or of the query, if any, \<open>uuidv4 n\<close> is the \<open>n\<close>-th identifier
  generated, \<open>put url body_url\<close> the outcome of the request to the render service,
  \<open>JSON_parse\<close> the platform's parser, \<open>new_Date i\<close> the time read when the record
  with \<open>_id\<close> \<open>i\<close> is written, and \<open>set_result_fails i\<close>, \<open>set_error_fails i\<close> say
  whether the two writes to that record fail.
\<close>

record work_env =
  find_fails :: "thrown option"
  WORKER_URL :: jsstring
  uuidv4 :: "nat \<Rightarrow> jsstring"
  put :: "jsstring \<Rightarrow> jsstring \<Rightarrow> http_outcome"
  JSON_parse :: "jsstring \<Rightarrow> thrown + json"
  new_Date :: "nat \<Rightarrow> nat"
  set_result_fails :: "nat \<Rightarrow> thrown option"
  set_error_fails :: "nat \<Rightarrow> thrown option"

text \<open>
  \<^verbatim>\<open>
  const result = JSON.parse(
    response.data
      .split('\n')
      .filter(r => r.trim())
      .pop()
  )
  \<close>
  \<open>last_line\<close> is the argument of \<open>JSON.parse\<close>; \<open>JSON.parse(undefined)\<close> parses the
  text \<open>undefined\<close>.
\<close>

definition non_blank :: "jsstring \<Rightarrow> bool" where
  "non_blank r \<longleftrightarrow> truthy_string (trim r)"

definition last_line :: "jsstring \<Rightarrow> jsstring option" where
  "last_line data = pop (filter non_blank (split_on 10 data))"

definition parse_response :: "(jsstring \<Rightarrow> thrown + json) \<Rightarrow> jsstring \<Rightarrow> thrown + json" where
  "parse_response parse data =
     (case last_line data of
        None \<Rightarrow> parse (js ''undefined'')
      | Some l \<Rightarrow> parse l)"

text \<open>
  The body of the \<open>try\<close> block for one song, the \<open>n\<close>-th of the cycle: the request,
  the parse, and the write of the result.
\<close>

definition attempt :: "work_env \<Rightarrow> nat \<Rightarrow> song \<Rightarrow> collection \<Rightarrow> thrown + collection" where
  "attempt env n s c =
     (let operationId = uuidv4 env n
      in case put env (WORKER_URL env @ js ''/renders/'' @ operationId) (url s) of
           Rejected e \<Rightarrow> Inl e
         | Resolved data \<Rightarrow>
             (case parse_response (JSON_parse env) data of
                Inl e \<Rightarrow> Inl e
              | Inr result \<Rightarrow>
                  (case set_result_fails env (song_id s) of
                     Some e \<Rightarrow> Inl e
                   | None \<Rightarrow>
                       Inr (updateOne (\<lambda>d. song_id d = song_id s)
                              (\<lambda>d. d\<lparr>renderResult := Some result,
                                      renderedAt := Some (new_Date env (song_id s))\<rparr>) c))))"

text \<open>
  \<^verbatim>\<open>
  String(error && error.stack) +
    (error.response ? `\nResponse: ${error.response.data}` : '')
  \<close>
\<close>

definition error_text :: "thrown \<Rightarrow> jsstring" where
  "error_text error =
     describe error @
     (case response error of
        Some data \<Rightarrow> 10 # js ''Response: '' @ data
      | None \<Rightarrow> [])"

text \<open>
  The function mapped over the songs found: the \<open>try\<close> block, and the \<open>catch\<close> block
  that writes the error. It rejects only when that last write fails.
\<close>

definition work_song :: "work_env \<Rightarrow> nat \<Rightarrow> song \<Rightarrow> collection \<Rightarrow> thrown option \<times> collection" where
  "work_song env n s c =
     (case attempt env n s c of
        Inr c' \<Rightarrow> (None, c')
      | Inl error \<Rightarrow>
          (case set_error_fails env (song_id s) of
             Some e \<Rightarrow> (Some e, c)
           | None \<Rightarrow>
               (None, updateOne (\<lambda>d. song_id d = song_id s)
                        (\<lambda>d. d\<lparr>renderError := Some (error_text error),
                                renderedAt := Some (new_Date env (song_id s))\<rparr>) c)))"

text \<open>
  \<open>Bluebird.map(found, ..., { concurrency: 128 })\<close>. Each call touches only the record
  of its own song, so the calls are run here one after the other, in the order of
  \<open>found\<close>; a call that rejects rejects the map and ends the cycle (what the calls
  still in flight write after that is left out).
\<close>

fun work_all :: "work_env \<Rightarrow> nat \<Rightarrow> song list \<Rightarrow> collection \<Rightarrow> thrown option \<times> collection" where
  "work_all env n [] c = (None, c)"
| "work_all env n (s # found) c =
     (case work_song env n s c of
        (Some e, c') \<Rightarrow> (Some e, c')
      | (None, c') \<Rightarrow> work_all env (Suc n) found c')"

definition work_command :: "work_env \<Rightarrow> collection \<Rightarrow> thrown option \<times> collection" where
  "work_command env c =
     (case find_fails env of
        Some e \<Rightarrow> (Some e, c)
      | None \<Rightarrow> work_all env 0 (find_pending c) c)"

section \<open>The render pipeline\<close>

subsection \<open>Diagnostics and the world around one invocation\<close>

text \<open>\<open>OutputDiagnostics\<close>: the object \<open>render\<close> fills in and returns.\<close>

record entry =
  time :: nat
  event :: jsstring

record diagnostics =
  operationId :: "jsstring option"
  workingDirectory :: "jsstring option"
  events :: "entry list"
  outFile :: "jsstring option"
  error :: "jsstring option"
  finishedAt :: "nat option"

text \<open>The manifest \<open>index.json\<close> that the indexer writes: songs, each with its charts.\<close>

record chart =
  chart_file :: jsstring
  noteCount :: int

record index_song =
  id' :: jsstring
  charts :: "chart list"

text \<open>
  What the pipeline does to the world outside: directories made, processes run
  (command, arguments, the \<open>timeout\<close> and \<open>cwd\<close> options), files removed and
  renamed, the progress line of \<open>prepareSounds\<close> (counter, number of sounds, sound,
  result text) and the upload of the service (bucket, file, destination).
\<close>

datatype action =
    Mkdirp jsstring
  | Exec jsstring "jsstring list" "nat option" "jsstring option"
  | Unlink jsstring
  | Rename jsstring jsstring
  | Progress nat nat jsstring jsstring
  | Upload jsstring jsstring jsstring

text \<open>
  What the pipeline reads from outside. \<open>generate\<close> is the identifier of
  \<open>ObjectID.default.generate()\<close>, \<open>Date_now n\<close> the \<open>n\<close>-th reading of the clock,
  \<open>fails a\<close> the error that action \<open>a\<close> ends with, if any (a process that exits
  with a code other than 0 or runs into its timeout, a file operation that throws),
  \<open>glob_sync pattern cwd\<close> the names that \<open>glob.sync\<close> lists, \<open>statSync_size\<close> the
  size of a file, \<open>read_index path\<close> the songs of the parsed manifest (or the error of
  reading it, of parsing it or of \<open>data.songs.find\<close>), \<open>frames\<close> the stack frames
  of an error made in \<open>render\<close>. Every action ends, with or without an error: a
  process that runs forever (the converter of \<open>prepareSounds\<close> and the final move
  have no timeout) is not modelled, and the properties are about invocations that
  complete.
\<close>

record render_env =
  generate :: jsstring
  Date_now :: "nat \<Rightarrow> nat"
  fails :: "action \<Rightarrow> thrown option"
  glob_sync :: "jsstring \<Rightarrow> jsstring \<Rightarrow> thrown + jsstring list"
  statSync_size :: "jsstring \<Rightarrow> thrown + nat"
  realpathSync :: "jsstring \<Rightarrow> thrown + jsstring"
  read_index :: "jsstring \<Rightarrow> thrown + index_song list"
  frames :: jsstring

text \<open>
  The state of one invocation: the diagnostics object, the actions attempted so far in
  order, the number of clock readings so far, and the local variable
  \<open>selectedChart\<close>.
\<close>

record world =
  diag :: diagnostics
  trace :: "action list"
  clock_reads :: nat
  selectedChart :: "chart option"

text \<open>A statement either completes or throws; both leave a world behind.\<close>

datatype outcome = Done world | Throw thrown world

definition perform :: "render_env \<Rightarrow> action \<Rightarrow> world \<Rightarrow> outcome" where
  "perform env a w =
     (let w' = w\<lparr>trace := trace w @ [a]\<rparr>
      in case fails env a of
           None \<Rightarrow> Done w'
         | Some e \<Rightarrow> Throw e w')"

text \<open>Statements one after the other: the first that throws ends the sequence.\<close>

fun in_order :: "(world \<Rightarrow> outcome) list \<Rightarrow> world \<Rightarrow> outcome" where
  "in_order [] w = Done w"
| "in_order (statement # rest) w =
     (case statement w of
        Done w' \<Rightarrow> in_order rest w'
      | Throw e w' \<Rightarrow> Throw e w')"

text \<open>
  \<^verbatim>\<open>
  function eventLog(outputDiagnostics, event) {
    outputDiagnostics.events.push({ time: Date.now(), event })
  }
  \<close>
\<close>

definition eventLog :: "render_env \<Rightarrow> jsstring \<Rightarrow> world \<Rightarrow> world" where
  "eventLog env name w =
     w\<lparr>diag := (diag w)\<lparr>events := events (diag w) @
                              [\<lparr>time = Date_now env (clock_reads w), event = name\<rparr>]\<rparr>,
       clock_reads := Suc (clock_reads w)\<rparr>"

text \<open>
  \<open>execLog(command, args, options)\<close> starts the process with execa and returns its
  promise; the lines it forwards to the log are not modelled.
\<close>

definition execLog :: "render_env \<Rightarrow> jsstring \<Rightarrow> jsstring list \<Rightarrow> nat option \<Rightarrow> jsstring option
    \<Rightarrow> world \<Rightarrow> outcome" where
  "execLog env command args timeout cwd = perform env (Exec command args timeout cwd)"

subsection \<open>Download and extract\<close>

definition download :: "render_env \<Rightarrow> jsstring \<Rightarrow> jsstring \<Rightarrow> world \<Rightarrow> outcome" where
  "download env u workDir =
     in_order
       [\<lambda>w. Done (w\<lparr>diag := (diag w)\<lparr>workingDirectory := Some workDir\<rparr>\<rparr>),
        perform env (Mkdirp (workDir @ js ''/downloads'')),
        execLog env (js ''wget'') [js ''-O'' @ workDir @ js ''/downloads/archive.zip'', u]
          (Some 120000) None]"

definition extract_archive :: "render_env \<Rightarrow> jsstring \<Rightarrow> world \<Rightarrow> outcome" where
  "extract_archive env workDir =
     in_order
       [perform env (Mkdirp (workDir @ js ''/extracted'')),
        execLog env (js ''7z'') [js ''x'', workDir @ js ''/downloads/archive.zip'']
          (Some 60000) (Some (workDir @ js ''/extracted''))]"

subsection \<open>Removing unrelated files\<close>

text \<open>
  \<open>/\.(?:bms|bme|bml|pms|bmson|ogg|wav|mp3)/i.test(filePath)\<close>: the pattern is not
  anchored, so it is tried at every position of the path.
\<close>

definition alternatives :: "jsstring list" where
  "alternatives =
     [js ''bms'', js ''bme'', js ''bml'', js ''pms'', js ''bmson'', js ''ogg'', js ''wav'',
      js ''mp3'']"

fun chart_or_audio :: "jsstring \<Rightarrow> bool" where
  "chart_or_audio [] = False"
| "chart_or_audio (c # cs) =
     ((c = 46 \<and> list_ex (\<lambda>word. starts_with_ci word cs) alternatives) \<or> chart_or_audio cs)"

text \<open>
  \<^verbatim>\<open>
  for (const filePath of allFiles) {
    if (!/\.(?:bms|bme|bml|pms|bmson|ogg|wav|mp3)/i.test(filePath)) {
      fs.unlinkSync(`${extractedDir}/${filePath}`)
    }
  }
  \<close>
\<close>

fun remove_each :: "render_env \<Rightarrow> jsstring \<Rightarrow> jsstring list \<Rightarrow> world \<Rightarrow> outcome" where
  "remove_each env extractedDir [] w = Done w"
| "remove_each env extractedDir (filePath # rest) w =
     (if \<not> chart_or_audio filePath
      then (case perform env (Unlink (extractedDir @ js ''/'' @ filePath)) w of
              Done w' \<Rightarrow> remove_each env extractedDir rest w'
            | Throw e w' \<Rightarrow> Throw e w')
      else remove_each env extractedDir rest w)"

definition remove_unrelated :: "render_env \<Rightarrow> jsstring \<Rightarrow> world \<Rightarrow> outcome" where
  "remove_unrelated env workDir w =
     (case glob_sync env (js ''**/*'') (workDir @ js ''/extracted'') of
        Inl e \<Rightarrow> Throw e w
      | Inr allFiles \<Rightarrow> remove_each env (workDir @ js ''/extracted'') allFiles w)"

subsection \<open>\<open>prepareSounds\<close>\<close>

text \<open>
  The function mapped over the sounds, for the sound that makes the counter
  \<open>soundsConverted\<close> reach \<open>k\<close>. The \<open>try\<close> block ends with the result text; the
  \<open>catch\<close> block takes both the error of \<open>statSync\<close> and the one of the converter; the
  \<open>finally\<close> block logs the progress line and removes the source file, and the error
  of that removal is the only one that leaves the function.
\<close>

definition sox_convert :: "jsstring \<Rightarrow> jsstring \<Rightarrow> jsstring \<Rightarrow> action" where
  "sox_convert src dest sound =
     Exec (js ''sox'')
       [path_join src sound, js ''-r'', js ''44.1k'', js ''-c'', js ''2'',
        path_join dest (path_basename sound (path_extname sound) @ js ''.wav'')]
       None None"

definition convert_sound :: "render_env \<Rightarrow> jsstring \<Rightarrow> jsstring \<Rightarrow> nat \<Rightarrow> nat \<Rightarrow> jsstring
    \<Rightarrow> world \<Rightarrow> outcome" where
  "convert_sound env src dest n_sounds k sound w =
     (let sourceFile = path_join src sound;
          (resultLogText, w1) =
            (case statSync_size env sourceFile of
               Inl e \<Rightarrow> (js ''error'', w)
             | Inr bytes \<Rightarrow>
                 if bytes = 0 then (js ''skip; blank file'', w)
                 else (case perform env (sox_convert src dest sound) w of
                         Done w' \<Rightarrow> (js ''ok'', w')
                       | Throw e w' \<Rightarrow> (js ''error'', w')))
      in perform env (Unlink sourceFile)
           (w1\<lparr>trace := trace w1 @ [Progress k n_sounds sound resultLogText]\<rparr>))"

text \<open>
  \<open>Bluebird.map(sounds, ..., { concurrency: cpus })\<close>. The calls are run here one after
  the other in the order of \<open>sounds\<close>, \<open>n\<close> being the value of \<open>soundsConverted\<close>
  before the call; a call that rejects rejects the whole map.
\<close>

fun convert_each :: "render_env \<Rightarrow> jsstring \<Rightarrow> jsstring \<Rightarrow> nat \<Rightarrow> nat \<Rightarrow> jsstring list
    \<Rightarrow> world \<Rightarrow> outcome" where
  "convert_each env src dest n_sounds n [] w = Done w"
| "convert_each env src dest n_sounds n (sound # rest) w =
     (case convert_sound env src dest n_sounds (Suc n) sound w of
        Done w' \<Rightarrow> convert_each env src dest n_sounds (Suc n) rest w'
      | Throw e w' \<Rightarrow> Throw e w')"

definition prepareSounds :: "render_env \<Rightarrow> jsstring \<Rightarrow> jsstring \<Rightarrow> world \<Rightarrow> outcome" where
  "prepareSounds env src dest w =
     (case perform env (Mkdirp dest) w of
        Throw e w' \<Rightarrow> Throw e w'
      | Done w' \<Rightarrow>
          (case glob_sync env (js ''*.{wav,mp3,ogg}'') src of
             Inl e \<Rightarrow> Throw e w'
           | Inr sounds \<Rightarrow> convert_each env src dest (length sounds) 0 sounds w'))"

subsection \<open>Moving the charts, indexing\<close>

text \<open>
  \<^verbatim>\<open>
  for (const file of chartFiles) {
    const extname = path.extname(file)
    const target = `${convertedDir}/${path.basename(file, extname)}.sjis${extname}`
    fs.renameSync(`${extractedDir}/${file}`, target)
  }
  \<close>
\<close>

definition move_chart :: "render_env \<Rightarrow> jsstring \<Rightarrow> jsstring \<Rightarrow> jsstring \<Rightarrow> world \<Rightarrow> outcome" where
  "move_chart env extractedDir convertedDir chartFile =
     (let extname = path_extname chartFile;
          target = convertedDir @ js ''/'' @ path_basename chartFile extname @ js ''.sjis'' @ extname
      in perform env (Rename (extractedDir @ js ''/'' @ chartFile) target))"

definition move_charts :: "render_env \<Rightarrow> jsstring \<Rightarrow> world \<Rightarrow> outcome" where
  "move_charts env workDir w =
     (case glob_sync env (js ''*.{bm[sel],pms,bmson}'') (workDir @ js ''/extracted'') of
        Inl e \<Rightarrow> Throw e w
      | Inr chartFiles \<Rightarrow>
          in_order
            (map (move_chart env (workDir @ js ''/extracted'') (workDir @ js ''/render/song''))
               chartFiles) w)"

definition index :: "render_env \<Rightarrow> jsstring \<Rightarrow> world \<Rightarrow> outcome" where
  "index env workDir w =
     (case realpathSync env (js ''./node_modules/.bin/bemuse-tools'') of
        Inl e \<Rightarrow> Throw e w
      | Inr tool \<Rightarrow>
          execLog env tool [js ''index''] (Some 30000) (Some (workDir @ js ''/render'')) w)"

subsection \<open>Selecting the chart\<close>

text \<open>
  \<open>charts.sort((a, b) => a.noteCount - b.noteCount)\<close>: \<open>Array.prototype.sort\<close> with
  a comparison function, a stable sort (ECMAScript 2019). An element goes before the
  first element of the sorted rest that the comparison function does not put before it.
\<close>

fun insert_by :: "('a \<Rightarrow> 'a \<Rightarrow> int) \<Rightarrow> 'a \<Rightarrow> 'a list \<Rightarrow> 'a list" where
  "insert_by compare x [] = [x]"
| "insert_by compare x (y # ys) =
     (if compare x y \<le> 0 then x # y # ys else y # insert_by compare x ys)"

fun sort_by :: "('a \<Rightarrow> 'a \<Rightarrow> int) \<Rightarrow> 'a list \<Rightarrow> 'a list" where
  "sort_by compare [] = []"
| "sort_by compare (x # xs) = insert_by compare x (sort_by compare xs)"

definition sorted_charts :: "chart list \<Rightarrow> chart list" where
  "sorted_charts cs = sort_by (\<lambda>a b. noteCount a - noteCount b) cs"

text \<open>
  \<^verbatim>\<open>
  charts.sort((a, b) => a.noteCount - b.noteCount)
  const selectedChart = charts[Math.floor((charts.length - 1) / 2)]
  \<close>
  for a list of charts that is not empty (the caller has thrown otherwise).
\<close>

definition median_chart :: "chart list \<Rightarrow> chart" where
  "median_chart cs = sorted_charts cs ! ((length cs - 1) div 2)"

definition select_chart :: "render_env \<Rightarrow> jsstring \<Rightarrow> world \<Rightarrow> outcome" where
  "select_chart env workDir w =
     (case read_index env (workDir @ js ''/render/index.json'') of
        Inl e \<Rightarrow> Throw e w
      | Inr songs \<Rightarrow>
          (case find (\<lambda>s. id' s = js ''song'') songs of
             None \<Rightarrow> Throw (new_Error (frames env) (js ''No song found'')) w
           | Some song \<Rightarrow>
               if length (charts song) = 0
               then Throw (new_Error (frames env) (js ''No usable chart found'')) w
               else Done (w\<lparr>selectedChart := Some (median_chart (charts song))\<rparr>)))"

subsection \<open>Rendering, normalising, trimming, encoding\<close>

text \<open>
  \<open>selectedChart\<close> is set when the pipeline gets here; the branch for \<open>None\<close> is the
  \<open>TypeError\<close> of reading \<open>selectedChart.file\<close>.
\<close>

definition render_chart :: "render_env \<Rightarrow> jsstring \<Rightarrow> world \<Rightarrow> outcome" where
  "render_chart env workDir w =
     (case selectedChart w of
        None \<Rightarrow> Throw (Error (js ''TypeError'' @ frames env) None) w
      | Some c \<Rightarrow>
          execLog env (js ''bms-renderer'')
            [workDir @ js ''/render/song/'' @ chart_file c, workDir @ js ''/render.wav'']
            (Some 300000) (Some workDir) w)"

definition normalize :: "render_env \<Rightarrow> jsstring \<Rightarrow> world \<Rightarrow> outcome" where
  "normalize env workDir =
     execLog env (js ''wavegain'') [js ''-y'', workDir @ js ''/render.wav'']
       (Some 15000) (Some workDir)"

definition trim_silence :: "render_env \<Rightarrow> jsstring \<Rightarrow> world \<Rightarrow> outcome" where
  "trim_silence env workDir =
     in_order
       [execLog env (js ''sox'')
          [workDir @ js ''/render.wav'', js ''-b'', js ''16'', workDir @ js ''/song.wav'',
           js ''silence'', js ''1'', js ''0'', js ''0.1%'', js ''reverse'',
           js ''silence'', js ''1'', js ''0'', js ''0.1%'', js ''reverse'']
          (Some 30000) (Some workDir),
        perform env (Unlink (workDir @ js ''/render.wav''))]"

definition encode :: "render_env \<Rightarrow> jsstring \<Rightarrow> world \<Rightarrow> outcome" where
  "encode env workDir =
     in_order
       [execLog env (js ''lame'') [js ''-b320'', workDir @ js ''/song.wav'', workDir @ js ''/song.mp3'']
          (Some 60000) None,
        perform env (Unlink (workDir @ js ''/song.wav''))]"

text \<open>
  \<^verbatim>\<open>
  outputDiagnostics.outFile = songMp3Path
  if (outputMp3Path) {
    await execLog('mv', [songMp3Path, outputMp3Path], {})
    outputDiagnostics.outFile = outputMp3Path
  }
  \<close>
\<close>

definition move_output :: "jsstring \<Rightarrow> jsstring \<Rightarrow> action" where
  "move_output workDir dest = Exec (js ''mv'') [workDir @ js ''/song.mp3'', dest] None None"

definition set_outFile :: "render_env \<Rightarrow> jsstring option \<Rightarrow> jsstring \<Rightarrow> world \<Rightarrow> outcome" where
  "set_outFile env outputMp3Path workDir w =
     (let w1 = w\<lparr>diag := (diag w)\<lparr>outFile := Some (workDir @ js ''/song.mp3'')\<rparr>\<rparr>
      in case outputMp3Path of
           None \<Rightarrow> Done w1
         | Some dest \<Rightarrow>
             if truthy_string dest
             then (case perform env (move_output workDir dest) w1 of
                     Throw e w2 \<Rightarrow> Throw e w2
                   | Done w2 \<Rightarrow> Done (w2\<lparr>diag := (diag w2)\<lparr>outFile := Some dest\<rparr>\<rparr>))
             else Done w1)"

subsection \<open>The pipeline\<close>

text \<open>
  Inside the \<open>try\<close> block every stage is some work followed by
  \<open>eventLog(outputDiagnostics, name)\<close>. \<open>stages\<close> lists the work and the event name
  of each in the order of the source; \<open>run_stages\<close> runs them so.
\<close>

fun run_stages :: "render_env \<Rightarrow> ((world \<Rightarrow> outcome) \<times> jsstring) list \<Rightarrow> world \<Rightarrow> outcome" where
  "run_stages env [] w = Done w"
| "run_stages env ((work, name) # rest) w =
     (case work w of
        Throw e w' \<Rightarrow> Throw e w'
      | Done w' \<Rightarrow> run_stages env rest (eventLog env name w'))"

definition stages :: "render_env \<Rightarrow> jsstring \<Rightarrow> jsstring \<Rightarrow> ((world \<Rightarrow> outcome) \<times> jsstring) list" where
  "stages env u workDir =
     [(download env u workDir, js ''render:downloaded''),
      (extract_archive env workDir, js ''render:extracted''),
      (remove_unrelated env workDir, js ''render:unrelatedFilesRemoved''),
      (prepareSounds env (workDir @ js ''/extracted'') (workDir @ js ''/render/song''),
         js ''render:converted''),
      (move_charts env workDir, js ''render:chartsMoved''),
      (index env workDir, js ''render:indexed''),
      (select_chart env workDir, js ''render:chartSelected''),
      (render_chart env workDir, js ''render:rendered''),
      (normalize env workDir, js ''render:normalized''),
      (trim_silence env workDir, js ''render:trimmed''),
      (encode env workDir, js ''render:encoded'')]"

definition try_block :: "render_env \<Rightarrow> jsstring \<Rightarrow> jsstring option \<Rightarrow> jsstring \<Rightarrow> world \<Rightarrow> outcome" where
  "try_block env u outputMp3Path workDir w =
     (case run_stages env (stages env u workDir) w of
        Throw e w' \<Rightarrow> Throw e w'
      | Done w' \<Rightarrow> set_outFile env outputMp3Path workDir w')"

text \<open>
  \<^verbatim>\<open>
  } catch (error) {
    outputDiagnostics.error = String(error && error.stack)
  } finally {
    outputDiagnostics.finishedAt = Date.now()
  }
  \<close>
\<close>

definition catch_block :: "outcome \<Rightarrow> world" where
  "catch_block r =
     (case r of
        Done w \<Rightarrow> w
      | Throw e w \<Rightarrow> w\<lparr>diag := (diag w)\<lparr>error := Some (describe e)\<rparr>\<rparr>)"

definition finally_block :: "render_env \<Rightarrow> world \<Rightarrow> world" where
  "finally_block env w =
     w\<lparr>diag := (diag w)\<lparr>finishedAt := Some (Date_now env (clock_reads w))\<rparr>,
       clock_reads := Suc (clock_reads w)\<rparr>"

text \<open>
  \<^verbatim>\<open>
  const workDir = `/tmp/bmsurge-renderer/${ObjectID.default.generate()}`
  eventLog(outputDiagnostics, 'render:start')
  \<close>
\<close>

definition new_workDir :: "render_env \<Rightarrow> jsstring" where
  "new_workDir env = js ''/tmp/bmsurge-renderer/'' @ generate env"

definition started :: "render_env \<Rightarrow> diagnostics \<Rightarrow> world" where
  "started env outputDiagnostics =
     eventLog env (js ''render:start'')
       \<lparr>diag = outputDiagnostics, trace = [], clock_reads = 0, selectedChart = None\<rparr>"

text \<open>\<open>render(url, outputMp3Path, outputDiagnostics)\<close>; it returns the world it leaves.\<close>

definition render :: "render_env \<Rightarrow> jsstring \<Rightarrow> jsstring option \<Rightarrow> diagnostics \<Rightarrow> world" where
  "render env u outputMp3Path outputDiagnostics =
     finally_block env
       (catch_block
          (try_block env u outputMp3Path (new_workDir env) (started env outputDiagnostics)))"

text \<open>The default of the third parameter: \<open>{ events: [] }\<close>.\<close>

definition no_diagnostics :: diagnostics where
  "no_diagnostics =
     \<lparr>operationId = None, workingDirectory = None, events = [], outFile = None, error = None,
      finishedAt = None\<rparr>"

section \<open>The render service\<close>

text \<open>
  What the handler of \<open>PUT /renders/:operationId\<close> ends with: \<open>res.status(code).send(text)\<close>,
  \<open>res.json(result)\<close> (status 200), or \<open>next(err)\<close>, which hands the error to the
  framework's error handler (status 500).
\<close>

datatype reply = Send nat jsstring | Json diagnostics | Next thrown

text \<open>
  \<open>u\<close> is the text of \<open>req.body.url\<close> (\<open>undefined\<close> for a body without the field),
  which is what \<open>/^http/.test(url)\<close> and the arguments of the downloader see.
\<close>

definition put_renders :: "render_env \<Rightarrow> jsstring \<Rightarrow> jsstring \<Rightarrow> jsstring \<Rightarrow> reply" where
  "put_renders env bucketName opId u =
     (if \<not> prefix (js ''http'') u then Send 400 (js ''URL must be valid'')
      else
        (let w = render env u None (no_diagnostics\<lparr>operationId := Some opId\<rparr>)
         in case outFile (diag w) of
              None \<Rightarrow> Json (diag w)
            | Some f \<Rightarrow>
                if truthy_string f
                then (case perform env (Upload bucketName f (opId @ js ''.mp3'')) w of
                        Throw e w' \<Rightarrow> Next e
                      | Done w' \<Rightarrow> Json (diag (eventLog env (js ''uploaded'') w')))
                else Json (diag w)))"

section \<open>Vocabulary for the properties of the pipeline\<close>

text \<open>The world an outcome leaves behind.\<close>

definition leaves :: "outcome \<Rightarrow> world" where
  "leaves r = (case r of Done w \<Rightarrow> w | Throw e w \<Rightarrow> w)"

text \<open>
  A statement is quiet when it neither logs an event nor reads the clock nor touches
  the outcome fields of the diagnostics, whether it completes or throws.
\<close>

definition quiet :: "(world \<Rightarrow> outcome) \<Rightarrow> bool" where
  "quiet f \<longleftrightarrow>
     (\<forall>w. events (diag (leaves (f w))) = events (diag w) \<and>
          operationId (diag (leaves (f w))) = operationId (diag w) \<and>
          outFile (diag (leaves (f w))) = outFile (diag w) \<and>
          error (diag (leaves (f w))) = error (diag w) \<and>
          finishedAt (diag (leaves (f w))) = finishedAt (diag w) \<and>
          clock_reads (leaves (f w)) = clock_reads w)"

text \<open>The names of the events recorded, in order.\<close>

definition event_names :: "diagnostics \<Rightarrow> jsstring list" where
  "event_names d = map event (events d)"

text \<open>
  The extension of a file name is on the allow-list: the name ends with a dot and
  one of the words, in either case of its letters. This is the reading of the
  specification; the source tests \<open>chart_or_audio\<close>.
\<close>

definition ends_with_ci :: "jsstring \<Rightarrow> jsstring \<Rightarrow> bool" where
  "ends_with_ci word name \<longleftrightarrow>
     length word \<le> length name \<and>
     map ascii_upper (drop (length name - length word) name) = map ascii_upper word"

definition allowed_extension :: "jsstring \<Rightarrow> bool" where
  "allowed_extension name \<longleftrightarrow> list_ex (\<lambda>word. ends_with_ci (46 # word) name) alternatives"

section \<open>Example inputs\<close>

text \<open>
  An import of three URLs, one of them twice, into an empty collection, and the
  collection it leaves.
\<close>

definition import_example :: import_env where
  "import_example =
     \<lparr>file_eventId = js ''bof2019'', apply_changes = True,
      file_urls = Inr [js ''http://a/1.zip'', js ''http://a/2.zip'', js ''http://a/1.zip''],
      import_clock = (\<lambda>i. 100 + i), import_frames = [], import_connect_fails = None,
      import_refused = (\<lambda>ops. None), import_op_fails = (\<lambda>i. None)\<rparr>"

definition imported_example :: collection where
  "imported_example =
     [\<lparr>song_id = 1, url = js ''http://a/1.zip'', eventId = js ''bof2019'', addedAt = 100,
       renderResult = None, renderError = None, renderedAt = None\<rparr>,
      \<lparr>song_id = 2, url = js ''http://a/2.zip'', eventId = js ''bof2019'', addedAt = 101,
       renderResult = None, renderError = None, renderedAt = None\<rparr>]"

text \<open>
  A dispatch cycle over these two songs. The render service answers the first with
  the diagnostics of a render that failed (an error description, no output file),
  followed by a newline; the request for the second runs into its timeout.
\<close>

definition failed_diagnostics :: json where
  "failed_diagnostics =
     JObj [(js ''operationId'', JStr (js ''op1'')), (js ''events'', JArr []),
           (js ''error'', JStr (js ''Error: No song found'')), (js ''finishedAt'', JNum 9)]"

definition failed_diagnostics_text :: jsstring where
  \<open>failed_diagnostics_text =
     js ''{"operationId":"op1","events":[],"error":"Error: No song found","finishedAt":9}''\<close>

definition example_parse :: "jsstring \<Rightarrow> thrown + json" where
  "example_parse t =
     (if t = failed_diagnostics_text then Inr failed_diagnostics
      else Inl (Error (js ''SyntaxError: Unexpected token'') None))"

definition work_example :: work_env where
  "work_example =
     \<lparr>find_fails = None, WORKER_URL = js ''http://worker'', uuidv4 = (\<lambda>n. js ''op1''),
      put = (\<lambda>u b. if b = js ''http://a/1.zip''
                     then Resolved (failed_diagnostics_text @ [10])
                     else Rejected (Error (js ''Error: timeout of 900000ms exceeded'') None)),
      JSON_parse = example_parse, new_Date = (\<lambda>i. 7),
      set_result_fails = (\<lambda>i. None), set_error_fails = (\<lambda>i. None)\<rparr>"

definition song1 :: song where
  "song1 = \<lparr>song_id = 1, url = js ''http://a/1.zip'', eventId = js ''bof2019'', addedAt = 100,
       renderResult = None, renderError = None, renderedAt = None\<rparr>"

definition song2 :: song where
  "song2 = \<lparr>song_id = 2, url = js ''http://a/2.zip'', eventId = js ''bof2019'', addedAt = 101,
       renderResult = None, renderError = None, renderedAt = None\<rparr>"

definition song1_attempted :: song where
  "song1_attempted = song1\<lparr>renderResult := Some failed_diagnostics, renderedAt := Some 7\<rparr>"

definition song2_attempted :: song where
  "song2_attempted =
     song2\<lparr>renderError := Some (js ''Error: timeout of 900000ms exceeded''), renderedAt := Some 7\<rparr>"

text \<open>
  An environment for the pipeline: the archive holds a chart, a text file and three
  sounds, one of them empty; the manifest has one song with four charts of 5, 2, 9 and
  2 notes. \<open>f\<close> says which actions fail.
\<close>

definition example_charts :: "chart list" where
  "example_charts =
     [\<lparr>chart_file = js ''a.sjis.bms'', noteCount = 5\<rparr>,
      \<lparr>chart_file = js ''b.sjis.bms'', noteCount = 2\<rparr>,
      \<lparr>chart_file = js ''c.sjis.bms'', noteCount = 9\<rparr>,
      \<lparr>chart_file = js ''d.sjis.bms'', noteCount = 2\<rparr>]"

definition example_glob :: "jsstring \<Rightarrow> jsstring \<Rightarrow> thrown + jsstring list" where
  "example_glob pattern cwd =
     (if pattern = js ''**/*''
      then Inr [js ''a.bms'', js ''b.txt'', js ''c.wav'', js ''e.ogg'', js ''z.mp3'']
      else if pattern = js ''*.{wav,mp3,ogg}'' then Inr [js ''c.wav'', js ''e.ogg'', js ''z.mp3'']
      else Inr [js ''a.bms''])"

definition example_size :: "jsstring \<Rightarrow> thrown + nat" where
  "example_size p =
     (if p = js ''/tmp/bmsurge-renderer/5d1f/extracted/e.ogg'' then Inr 0 else Inr 1024)"

definition example_env :: "(action \<Rightarrow> thrown option) \<Rightarrow> render_env" where
  "example_env f =
     \<lparr>generate = js ''5d1f'', Date_now = (\<lambda>n. 1000 + n), fails = f,
      glob_sync = example_glob, statSync_size = example_size,
      realpathSync = (\<lambda>p. Inr (js ''/app/node_modules/.bin/bemuse-tools'')),
      read_index = (\<lambda>p. Inr [\<lparr>id' = js ''song'', charts = example_charts\<rparr>]),
      frames = []\<rparr>"
text \<open>
  The same environment in which nothing fails and the manifest read back from
  \<open>index.json\<close> holds the songs given.
\<close>

definition index_env :: "index_song list \<Rightarrow> render_env" where
  "index_env songs = (example_env (\<lambda>a. None))\<lparr>read_index := \<lambda>p. Inr songs\<rparr>"

text \<open>
  Ways for actions to fail: every run of one command; the upload; the conversion of
  the sound \<open>z.mp3\<close>; and \<open>z.mp3\<close> being a directory, on which both the
  conversion and the removal fail.
\<close>

definition command_fails :: "jsstring \<Rightarrow> thrown \<Rightarrow> action \<Rightarrow> thrown option" where
  "command_fails c e a =
     (case a of Exec c' args t d \<Rightarrow> if c' = c then Some e else None | _ \<Rightarrow> None)"

definition upload_fails :: "thrown \<Rightarrow> action \<Rightarrow> thrown option" where
  "upload_fails e a = (case a of Upload b f d \<Rightarrow> Some e | _ \<Rightarrow> None)"

definition conversion_fails :: "thrown \<Rightarrow> action \<Rightarrow> thrown option" where
  "conversion_fails e a =
     (if a = sox_convert (js ''/tmp/bmsurge-renderer/5d1f/extracted'')
               (js ''/tmp/bmsurge-renderer/5d1f/render/song'') (js ''z.mp3'')
      then Some e else None)"

definition directory_fails :: "thrown \<Rightarrow> thrown \<Rightarrow> action \<Rightarrow> thrown option" where
  "directory_fails e1 e2 a =
     (if a = sox_convert (js ''/tmp/bmsurge-renderer/5d1f/extracted'')
               (js ''/tmp/bmsurge-renderer/5d1f/render/song'') (js ''z.mp3'')
      then Some e1
      else if a = Unlink (js ''/tmp/bmsurge-renderer/5d1f/extracted/z.mp3'') then Some e2
      else None)"

definition timeout_error :: thrown where
  "timeout_error =
     Error (js ''Error: Command timed out after 300000 milliseconds: bms-renderer'') None"

definition mv_error :: thrown where
  "mv_error = Error (js ''Error: Command failed with exit code 1: mv'') None"

definition wget_error :: thrown where
  "wget_error = Error (js ''Error: Command failed with exit code 8: wget'') None"

definition upload_error :: thrown where
  "upload_error = Error (js ''Error: Could not load the default credentials'') None"

definition sox_error :: thrown where
  "sox_error = Error (js ''Error: Command failed with exit code 2: sox'') None"

definition unlink_error :: thrown where
  "unlink_error = Error (js ''Error: EISDIR: illegal operation on a directory, unlink'') None"

section \<open>Facts about strings and lines\<close>

lemma js_eq_iff: "js a = js b \<longleftrightarrow> a = b"
  unfolding js_def by (simp add: inj_map_eq_map inj_on_def)

lemma js_Nil_iff: "js a = [] \<longleftrightarrow> a = []"
  by (simp add: js_def)

lemma js_append: "js a @ js b = js (a @ b)"
  by (simp add: js_def)

lemma dropWhile_rev_Nil:
  "dropWhile P (rev (dropWhile P s)) = [] \<longleftrightarrow> (\<forall>c\<in>set s. P c)"
proof (induction s)
  case Nil
  show ?case by simp
next
  case (Cons a s)
  show ?case
  proof (cases "P a")
    case True
    with Cons show ?thesis by simp
  next
    case False
    then show ?thesis by auto
  qed
qed

lemma non_blank_iff: "non_blank r \<longleftrightarrow> (\<exists>c\<in>set r. \<not> is_white_space c)"
proof -
  have "trim r = [] \<longleftrightarrow> (\<forall>c\<in>set r. is_white_space c)"
    unfolding trim_def rev_is_Nil_conv by (rule dropWhile_rev_Nil)
  then show ?thesis by (simp add: non_blank_def truthy_string_def)
qed

lemma split_on_not_Nil: "split_on c s \<noteq> []"
  by (induction s) (auto split: list.splits)

lemma join_lines_Cons: "ls \<noteq> [] \<Longrightarrow> join_lines (l # ls) = l @ 10 # join_lines ls"
  by (cases ls) auto

lemma join_split: "join_lines (split_on 10 s) = s"
proof (induction s)
  case Nil
  show ?case by simp
next
  case (Cons x s)
  show ?case
  proof (cases "x = 10")
    case True
    with Cons show ?thesis by (simp add: join_lines_Cons split_on_not_Nil)
  next
    case False
    obtain l ls where e: "split_on 10 s = l # ls"
      using split_on_not_Nil [of 10 s] by (cases "split_on 10 s") auto
    with Cons False show ?thesis by (cases ls) auto
  qed
qed

lemma filter_snoc_decomp:
  "filter P xs = ys @ [l] \<Longrightarrow>
     \<exists>pre post. xs = pre @ l # post \<and> P l \<and> (\<forall>x\<in>set post. \<not> P x)"
proof (induction xs arbitrary: ys)
  case Nil
  then show ?case by simp
next
  case (Cons x xs)
  show ?case
  proof (cases "filter P xs = []")
    case True
    with Cons.prems have "P x" "x = l" by (auto split: if_splits)
    moreover from True have "\<forall>x\<in>set xs. \<not> P x" by (simp add: filter_empty_conv)
    ultimately have "x # xs = [] @ l # xs \<and> P l \<and> (\<forall>x\<in>set xs. \<not> P x)" by simp
    then show ?thesis by blast
  next
    case False
    then obtain zs where "filter P xs = zs @ [l]"
      using Cons.prems by (cases "P x") (auto simp: Cons_eq_append_conv)
    from Cons.IH [OF this] obtain pre post where
      "xs = pre @ l # post" "P l" "\<forall>x\<in>set post. \<not> P x" by blast
    then have "x # xs = (x # pre) @ l # post \<and> P l \<and> (\<forall>x\<in>set post. \<not> P x)" by simp
    then show ?thesis by blast
  qed
qed

lemma pop_filter_Some:
  "pop (filter P xs) = Some l \<longleftrightarrow>
     (\<exists>pre post. xs = pre @ l # post \<and> P l \<and> (\<forall>x\<in>set post. \<not> P x))"
proof
  assume "pop (filter P xs) = Some l"
  then have ne: "filter P xs \<noteq> []" and l: "last (filter P xs) = l"
    by (auto simp: pop_def split: if_splits)
  then have "filter P xs = butlast (filter P xs) @ [l]"
    using append_butlast_last_id [of "filter P xs"] by simp
  then show "\<exists>pre post. xs = pre @ l # post \<and> P l \<and> (\<forall>x\<in>set post. \<not> P x)"
    by (rule filter_snoc_decomp)
next
  assume "\<exists>pre post. xs = pre @ l # post \<and> P l \<and> (\<forall>x\<in>set post. \<not> P x)"
  then obtain pre post where "xs = pre @ l # post" "P l" "\<forall>x\<in>set post. \<not> P x" by blast
  then have "filter P xs = filter P pre @ [l]" by (simp add: filter_empty_conv)
  then show "pop (filter P xs) = Some l" by (simp add: pop_def)
qed

lemma pop_filter_None: "pop (filter P xs) = None \<longleftrightarrow> (\<forall>x\<in>set xs. \<not> P x)"
  by (auto simp: pop_def filter_empty_conv)

text \<open>
  A body without any non-blank line: \<open>pop\<close> gives \<open>undefined\<close>, and what is parsed is
  the text \<open>undefined\<close>.
\<close>

lemma parse_response_all_blank:
  "\<forall>l\<in>set (split_on 10 data). \<not> non_blank l \<Longrightarrow>
     parse_response parse data = parse (js ''undefined'')"
  by (simp add: parse_response_def last_line_def pop_def)

section \<open>The response of the render service\<close>

text \<open>
  Claim C4. The lines of a response body are its pieces between newlines. Whenever
  some line is non-blank after trimming, the body splits into earlier lines, one
  non-blank line and blank lines after it, and the result is what \<open>JSON.parse\<close> makes
  of that line; and however the body splits so, the result is the parse of that last
  non-blank line: the earlier lines and the blank lines play no part.
\<close>

theorem response_last_non_blank_line:
  "((\<exists>l\<in>set (split_on 10 data). non_blank l) \<longrightarrow>
      (\<exists>pre l post. split_on 10 data = pre @ l # post \<and> non_blank l \<and>
          (\<forall>x\<in>set post. \<not> non_blank x) \<and> parse_response parse data = parse l)) \<and>
   (\<forall>pre l post. split_on 10 data = pre @ l # post \<and> non_blank l \<and>
          (\<forall>x\<in>set post. \<not> non_blank x) \<longrightarrow> parse_response parse data = parse l)"
proof -
  have b: "parse_response parse data = parse l"
    if "split_on 10 data = pre @ l # post" "non_blank l" "\<forall>x\<in>set post. \<not> non_blank x"
    for pre l post
  proof -
    have "last_line data = Some l"
      unfolding last_line_def using that by (subst pop_filter_Some) blast
    then show ?thesis by (simp add: parse_response_def)
  qed
  have a: "\<exists>pre l post. split_on 10 data = pre @ l # post \<and> non_blank l \<and>
          (\<forall>x\<in>set post. \<not> non_blank x) \<and> parse_response parse data = parse l"
    if "\<exists>l\<in>set (split_on 10 data). non_blank l"
  proof -
    from that have "pop (filter non_blank (split_on 10 data)) \<noteq> None"
      by (simp add: pop_filter_None)
    then obtain l where "pop (filter non_blank (split_on 10 data)) = Some l" by blast
    then obtain pre post where d: "split_on 10 data = pre @ l # post" "non_blank l"
      "\<forall>x\<in>set post. \<not> non_blank x"
      by (auto simp: pop_filter_Some)
    with b [OF d] show ?thesis by blast
  qed
  from a b show ?thesis by blast
qed

text \<open>
  The example of the claim: the lines \<open>{"a":1}\<close>, an empty line and \<open>{"a":2}\<close>. What
  is parsed is the text \<open>{"a":2}\<close>, whatever the parser.
\<close>

theorem response_last_non_blank_line_witness:
  \<open>\<forall>parse. parse_response parse (join_lines [js ''{"a":1}'', [], js ''{"a":2}''])
      = parse (js ''{"a":2}'')\<close>
proof
  fix parse :: "jsstring \<Rightarrow> thrown + json"
  let ?data = \<open>join_lines [js ''{"a":1}'', [], js ''{"a":2}'']\<close>
  have s: \<open>split_on 10 ?data = [js ''{"a":1}'', []] @ js ''{"a":2}'' # []\<close>
    by (simp add: js_def)
  have n: \<open>non_blank (js ''{"a":2}'')\<close>
    by (simp add: non_blank_iff js_def is_white_space_def)
  note h = response_last_non_blank_line [of ?data parse, THEN conjunct2, THEN spec, THEN spec,
      THEN spec, THEN mp]
  show \<open>parse_response parse ?data = parse (js ''{"a":2}'')\<close>
  proof (rule h)
    show \<open>split_on 10 ?data = [js ''{"a":1}'', []] @ js ''{"a":2}'' # [] \<and>
        non_blank (js ''{"a":2}'') \<and> (\<forall>x\<in>set []. \<not> non_blank x)\<close>
      using s n by simp
  qed
qed

section \<open>The import is idempotent\<close>

lemma updateOne_same: "updateOne m (\<lambda>d. d) c = c"
  by (induction c) auto

lemma updateOne_by_id:
  "distinct (map song_id c) \<Longrightarrow>
     updateOne (\<lambda>d. song_id d = i) f c = map (\<lambda>d. if song_id d = i then f d else d) c"
proof (induction c)
  case Nil
  show ?case by simp
next
  case (Cons a c)
  show ?case
  proof (cases "song_id a = i")
    case True
    with Cons.prems have "\<forall>d\<in>set c. song_id d \<noteq> i" by (auto simp: image_iff)
    then have "map (\<lambda>d. if song_id d = i then f d else d) c = c"
      by (induction c) auto
    with True show ?thesis by simp
  next
    case False
    with Cons show ?thesis by simp
  qed
qed

lemma upsert_present: "filter_url op \<in> url ` set c \<Longrightarrow> upsert op c = c"
proof -
  assume "filter_url op \<in> url ` set c"
  then have "list_ex (\<lambda>d. url d = filter_url op) c"
    by (auto simp: list_ex_iff)
  then show ?thesis by (simp add: upsert_def updateOne_same)
qed

lemma upsert_urls: "url ` set (upsert op c) = insert (filter_url op) (url ` set c)"
proof (cases "filter_url op \<in> url ` set c")
  case True
  then show ?thesis by (auto simp: upsert_present)
next
  case False
  then have "\<not> list_ex (\<lambda>d. url d = filter_url op) c"
    by (auto simp: list_ex_iff image_iff)
  then show ?thesis by (simp add: upsert_def)
qed

lemma bulkWrite_present:
  "filter_url ` set ops \<subseteq> url ` set c \<Longrightarrow> snd (bulkWrite f i ops c) = c"
proof (induction ops arbitrary: i)
  case Nil
  show ?case by simp
next
  case (Cons op ops)
  then have "upsert op c = c" by (simp add: upsert_present)
  with Cons show ?case by (simp split: option.splits)
qed

lemma bulkWrite_done:
  "bulkWrite f i ops c = (None, c1) \<Longrightarrow> filter_url ` set ops \<union> url ` set c \<subseteq> url ` set c1"
proof (induction ops arbitrary: i c)
  case Nil
  then show ?case by simp
next
  case (Cons op ops)
  from Cons.prems obtain "f i = None" and b: "bulkWrite f (Suc i) ops (upsert op c) = (None, c1)"
    by (auto split: option.splits)
  from Cons.IH [OF b] show ?case by (auto simp: upsert_urls)
qed

lemma operations_from_urls: "filter_url ` set (operations_from eid clock i us) = set us"
  by (induction us arbitrary: i) auto

text \<open>
  Claim C9. When an import that applies its changes has completed, importing the same
  list of URLs again leaves the collection as it is, whatever the event identifier, the
  clock and the flag of the second run: every URL of the list is present after the
  first run, and the operation for a URL that is present changes nothing (\<open>url\<close>,
  \<open>eventId\<close> and \<open>addedAt\<close> are set on insert only).
\<close>

theorem import_idempotent:
  assumes "import_command env c = (None, c1)" and "apply_changes env"
    and "file_urls env' = file_urls env"
  shows "snd (import_command env' c1) = c1 \<and>
         (\<forall>us. file_urls env = Inr us \<longrightarrow> set us \<subseteq> url ` set c1) \<and>
         (\<forall>op. filter_url op \<in> url ` set c1 \<longrightarrow> upsert op c1 = c1)"
proof -
  from assms(1) obtain us where us: "file_urls env = Inr us"
    by (cases "file_urls env") (auto simp: import_command_def split: if_splits)
  from assms(1,2) us have
    b: "bulkWrite (import_op_fails env) 0 (operations_from (file_eventId env) (import_clock env) 0 us) c
          = (None, c1)"
    by (auto simp: import_command_def Let_def split: if_splits option.splits)
  from bulkWrite_done [OF b] have p: "set us \<subseteq> url ` set c1"
    by (simp add: operations_from_urls)
  have "snd (bulkWrite f 0 (operations_from eid clock 0 us) c1) = c1" for f eid clock
    by (rule bulkWrite_present) (simp add: operations_from_urls p)
  then have "snd (import_command env' c1) = c1"
    using assms(3) us by (simp add: import_command_def Let_def split: option.splits)
  with p us show ?thesis by (simp add: upsert_present)
qed


lemma valid_bof: "valid_eventId (js ''bof2019'')"
  by (simp add: valid_eventId_def js_def)

text \<open>
  The example import: the second of the two equal URLs inserts nothing, and importing
  the list again at a later time leaves the two records as they are.
\<close>

theorem import_idempotent_witness:
  "import_command import_example [] = (None, imported_example) \<and>
   snd (import_command (import_example\<lparr>import_clock := (\<lambda>i. 500 + i)\<rparr>) imported_example)
     = imported_example"
proof -
  have h: "import_command import_example [] = (None, imported_example)"
    by (simp add: import_command_def import_example_def imported_example_def valid_bof
        upsert_def fresh_id_def js_eq_iff)
  have a: "apply_changes import_example" by (simp add: import_example_def)
  have f: "file_urls (import_example\<lparr>import_clock := (\<lambda>i. 500 + i)\<rparr>) = file_urls import_example"
    by simp
  from import_idempotent [OF h a f] h show ?thesis by simp
qed
section \<open>One dispatch cycle\<close>

lemma find_pending_iff:
  "d \<in> set (find_pending c) \<longleftrightarrow>
     d \<in> set c \<and> (case renderResult d of None \<Rightarrow> True
                   | Some r \<Rightarrow> \<not> field_exists (js ''uploadedAt'') r)"
  by (auto simp: find_pending_def uploadedAt_exists_def split: option.splits)

lemma updated_member:
  "s \<in> set c \<Longrightarrow> f s \<in> set (map (\<lambda>d. if song_id d = song_id s then f d else d) c)"
  by (auto simp: image_iff intro!: bexI [of _ s])

lemma imported_example_songs: "imported_example = [song1, song2]"
  by (simp add: imported_example_def song1_def song2_def)

lemma last_line_example: "last_line (failed_diagnostics_text @ [10]) = Some failed_diagnostics_text"
  by (simp add: last_line_def pop_def non_blank_iff failed_diagnostics_text_def js_def is_white_space_def)

lemma attempt1:
  "attempt work_example n song1 c =
     Inr (updateOne (\<lambda>d. song_id d = 1)
            (\<lambda>d. d\<lparr>renderResult := Some failed_diagnostics, renderedAt := Some 7\<rparr>) c)"
  by (simp add: attempt_def work_example_def song1_def parse_response_def last_line_example
      example_parse_def)

lemma attempt2:
  "attempt work_example n song2 c = Inl (Error (js ''Error: timeout of 900000ms exceeded'') None)"
  by (simp add: attempt_def work_example_def song2_def js_eq_iff)


lemma work_song1:
  "work_song work_example 0 song1 [song1, song2] = (None, [song1_attempted, song2])"
  unfolding work_song_def attempt1 by (simp add: song1_def song2_def song1_attempted_def)

lemma work_song2:
  "work_song work_example (Suc 0) song2 [song1_attempted, song2]
     = (None, [song1_attempted, song2_attempted])"
  unfolding work_song_def attempt2
  by (simp add: song1_def song2_def song1_attempted_def song2_attempted_def work_example_def
      error_text_def describe_def)

lemma pending_fresh: "find_pending [song1, song2] = [song1, song2]"
  by (simp add: find_pending_def uploadedAt_exists_def song1_def song2_def)

lemma work_example_cycle:
  "work_command work_example [song1, song2] = (None, [song1_attempted, song2_attempted])"
proof -
  have f: "find_fails work_example = None" by (simp add: work_example_def)
  show ?thesis
    unfolding work_command_def pending_fresh f by (simp add: work_song1 work_song2)
qed

lemma pending_attempted:
  "find_pending [song1_attempted, song2_attempted] = [song1_attempted, song2_attempted]"
  by (simp add: find_pending_def uploadedAt_exists_def song1_def song2_def song1_attempted_def
      song2_attempted_def failed_diagnostics_def js_eq_iff)

text \<open>
  Claim C10. When the request resolves (a 2xx status), \<open>l\<close> is the last non-blank
  line of the body, \<open>JSON.parse\<close> accepts it and the write succeeds, the record of
  the song gets the parsed document as its \<open>renderResult\<close> together with
  \<open>renderedAt\<close>, and nothing else changes: \<open>renderError\<close> is not written. This holds
  for every document, so also for diagnostics that carry an error and no output file.
\<close>

theorem result_stored:
  assumes "put env (WORKER_URL env @ js ''/renders/'' @ uuidv4 env n) (url s) = Resolved data"
    and "split_on 10 data = pre @ l # post" and "non_blank l" and "\<forall>x\<in>set post. \<not> non_blank x"
    and "JSON_parse env l = Inr result"
    and "set_result_fails env (song_id s) = None"
    and "distinct (map song_id c)"
  shows "work_song env n s c =
           (None, map (\<lambda>d. if song_id d = song_id s
                            then d\<lparr>renderResult := Some result,
                                   renderedAt := Some (new_Date env (song_id s))\<rparr>
                            else d) c)"
proof -
  have "last_line data = Some l"
    unfolding last_line_def using assms(2-4) by (subst pop_filter_Some) blast
  then have "parse_response (JSON_parse env) data = Inr result"
    using assms(5) by (simp add: parse_response_def)
  then have "attempt env n s c =
      Inr (updateOne (\<lambda>d. song_id d = song_id s)
             (\<lambda>d. d\<lparr>renderResult := Some result, renderedAt := Some (new_Date env (song_id s))\<rparr>) c)"
    using assms(1,6) by (simp add: attempt_def)
  then show ?thesis
    using assms(7) by (simp add: work_song_def updateOne_by_id)
qed

text \<open>
  The example: the service answers with the diagnostics of a failed render, and these
  diagnostics become the render result of the first song.
\<close>

theorem result_stored_witness:
  "has_key (js ''error'') failed_diagnostics \<and> \<not> has_key (js ''outFile'') failed_diagnostics \<and>
   work_song work_example 0 song1 [song1, song2] =
     (None, [song1\<lparr>renderResult := Some failed_diagnostics, renderedAt := Some 7\<rparr>, song2])"
proof -
  have k: "has_key (js ''error'') failed_diagnostics \<and> \<not> has_key (js ''outFile'') failed_diagnostics"
    by (simp add: failed_diagnostics_def js_eq_iff)
  have p: "put work_example (WORKER_URL work_example @ js ''/renders/'' @ uuidv4 work_example 0)
      (url song1) = Resolved (failed_diagnostics_text @ [10])"
    by (simp add: work_example_def song1_def)
  have s: "split_on 10 (failed_diagnostics_text @ [10]) = [] @ failed_diagnostics_text # [[]]"
    by (simp add: failed_diagnostics_text_def js_def)
  have n: "non_blank failed_diagnostics_text"
    by (simp add: non_blank_iff failed_diagnostics_text_def js_def is_white_space_def)
  have b: "\<forall>x\<in>set [[]]. \<not> non_blank x" by (simp add: non_blank_iff)
  have j: "JSON_parse work_example failed_diagnostics_text = Inr failed_diagnostics"
    by (simp add: work_example_def example_parse_def)
  have f: "set_result_fails work_example (song_id song1) = None" by (simp add: work_example_def)
  have d: "distinct (map song_id [song1, song2])" by (simp add: song1_def song2_def)
  from result_stored [OF p s n b j f d] k show ?thesis
    by (simp add: song1_def song2_def work_example_def)
qed

text \<open>
  Claim C1, as the specification states it, fails: after the example cycle the first
  song has a render result and the second an error, both with a render timestamp, and
  the query of the next cycle selects both again.
\<close>

theorem only_unrendered_selected_counterexample:
  "work_command work_example [song1, song2] = (None, [song1_attempted, song2_attempted]) \<and>
   renderResult song1_attempted = Some failed_diagnostics \<and>
   renderedAt song1_attempted = Some 7 \<and>
   renderError song2_attempted = Some (js ''Error: timeout of 900000ms exceeded'') \<and>
   renderedAt song2_attempted = Some 7 \<and>
   find_pending [song1_attempted, song2_attempted] = [song1_attempted, song2_attempted]"
  by (simp add: work_example_cycle pending_attempted)
     (simp add: song1_attempted_def song2_attempted_def)

text \<open>
  Claim C1, amended. A record of the collection is selected exactly when its render
  result is absent or has no \<open>uploadedAt\<close> field. A selected record whose attempt
  ends in an error gets the error text and a render timestamp and is selected again
  by the next query; a record whose attempt stores a result \<open>r\<close> is selected again
  exactly when \<open>r\<close> has no \<open>uploadedAt\<close> field.
\<close>

theorem dispatch_eligibility:
  assumes "distinct (map song_id c)" and "s \<in> set c"
  shows "(s \<in> set (find_pending c) \<longleftrightarrow>
            (case renderResult s of None \<Rightarrow> True
             | Some r \<Rightarrow> \<not> field_exists (js ''uploadedAt'') r)) \<and>
         (\<forall>e. attempt env n s c = Inl e \<and> set_error_fails env (song_id s) = None \<and>
               s \<in> set (find_pending c) \<longrightarrow>
            (\<exists>c'. work_song env n s c = (None, c') \<and>
               s\<lparr>renderError := Some (error_text e),
                 renderedAt := Some (new_Date env (song_id s))\<rparr> \<in> set (find_pending c'))) \<and>
         (\<forall>c'. attempt env n s c = Inr c' \<longrightarrow>
            (\<exists>r. work_song env n s c = (None, c') \<and>
               s\<lparr>renderResult := Some r,
                 renderedAt := Some (new_Date env (song_id s))\<rparr> \<in> set c' \<and>
               (s\<lparr>renderResult := Some r,
                  renderedAt := Some (new_Date env (song_id s))\<rparr> \<in> set (find_pending c')
                \<longleftrightarrow> \<not> field_exists (js ''uploadedAt'') r)))"
proof (intro conjI allI impI)
  show "s \<in> set (find_pending c) \<longleftrightarrow>
            (case renderResult s of None \<Rightarrow> True
             | Some r \<Rightarrow> \<not> field_exists (js ''uploadedAt'') r)"
    using assms(2) by (simp add: find_pending_iff)
next
  fix e
  assume h: "attempt env n s c = Inl e \<and> set_error_fails env (song_id s) = None \<and>
               s \<in> set (find_pending c)"
  let ?f = "\<lambda>d. d\<lparr>renderError := Some (error_text e),
                    renderedAt := Some (new_Date env (song_id s))\<rparr>"
  let ?c' = "map (\<lambda>d. if song_id d = song_id s then ?f d else d) c"
  from h assms(1) have w: "work_song env n s c = (None, ?c')"
    by (simp add: work_song_def updateOne_by_id)
  have m: "?f s \<in> set ?c'" using assms(2) by (rule updated_member)
  from h have "\<not> uploadedAt_exists s" by (simp add: find_pending_def)
  then have "\<not> uploadedAt_exists (?f s)" by (simp add: uploadedAt_exists_def)
  with m have "?f s \<in> set (find_pending ?c')" unfolding find_pending_def by simp
  with w show "\<exists>c'. work_song env n s c = (None, c') \<and> ?f s \<in> set (find_pending c')"
    by blast
next
  fix c'
  assume h: "attempt env n s c = Inr c'"
  then obtain data r where r: "parse_response (JSON_parse env) data = Inr r"
    and c': "c' = updateOne (\<lambda>d. song_id d = song_id s)
             (\<lambda>d. d\<lparr>renderResult := Some r, renderedAt := Some (new_Date env (song_id s))\<rparr>) c"
    by (auto simp: attempt_def split: http_outcome.splits sum.splits option.splits)
  let ?f = "\<lambda>d. d\<lparr>renderResult := Some r, renderedAt := Some (new_Date env (song_id s))\<rparr>"
  from c' assms(1) have c'': "c' = map (\<lambda>d. if song_id d = song_id s then ?f d else d) c"
    by (simp add: updateOne_by_id)
  have m: "?f s \<in> set c'" unfolding c'' using assms(2) by (rule updated_member)
  have "(?f s \<in> set (find_pending c')) \<longleftrightarrow> \<not> field_exists (js ''uploadedAt'') r"
    using m by (simp add: find_pending_iff)
  with m h show "\<exists>r. work_song env n s c = (None, c') \<and>
               s\<lparr>renderResult := Some r,
                 renderedAt := Some (new_Date env (song_id s))\<rparr> \<in> set c' \<and>
               (s\<lparr>renderResult := Some r,
                  renderedAt := Some (new_Date env (song_id s))\<rparr> \<in> set (find_pending c')
                \<longleftrightarrow> \<not> field_exists (js ''uploadedAt'') r)"
    by (auto simp: work_song_def)
qed

text \<open>
  The example cycle, song by song: the first gets a result without \<open>uploadedAt\<close>,
  the second an error, and each is selected again.
\<close>

theorem dispatch_eligibility_witness:
  "song1 \<in> set (find_pending [song1, song2]) \<and>
   work_song work_example 0 song1 [song1, song2] = (None, [song1_attempted, song2]) \<and>
   song1_attempted \<in> set (find_pending [song1_attempted, song2]) \<and>
   song2_attempted \<in> set (find_pending [song1_attempted, song2_attempted])"
proof -
  have d: "distinct (map song_id [song1, song2])" by (simp add: song1_def song2_def)
  have d': "distinct (map song_id [song1_attempted, song2])"
    by (simp add: song1_def song2_def song1_attempted_def)
  have m1: "song1 \<in> set [song1, song2]" by simp
  have m2: "song2 \<in> set [song1_attempted, song2]" by simp
  note e1 = dispatch_eligibility [OF d m1, of work_example 0]
  note e2 = dispatch_eligibility [OF d' m2, of work_example "Suc 0"]
  have p1: "song1 \<in> set (find_pending [song1, song2])" by (simp add: pending_fresh)
  have a1: "attempt work_example 0 song1 [song1, song2] = Inr [song1_attempted, song2]"
    unfolding attempt1 by (simp add: song1_def song2_def song1_attempted_def)
  from e1 a1 have
    "\<exists>r. work_song work_example 0 song1 [song1, song2] = (None, [song1_attempted, song2]) \<and>
       song1\<lparr>renderResult := Some r, renderedAt := Some (new_Date work_example (song_id song1))\<rparr>
         \<in> set [song1_attempted, song2] \<and>
       (song1\<lparr>renderResult := Some r, renderedAt := Some (new_Date work_example (song_id song1))\<rparr>
         \<in> set (find_pending [song1_attempted, song2])
         \<longleftrightarrow> \<not> field_exists (js ''uploadedAt'') r)"
    by blast
  then obtain r where r: "song1\<lparr>renderResult := Some r, renderedAt := Some (new_Date work_example (song_id song1))\<rparr>
         \<in> set [song1_attempted, song2]"
     and r': "(song1\<lparr>renderResult := Some r, renderedAt := Some (new_Date work_example (song_id song1))\<rparr>
         \<in> set (find_pending [song1_attempted, song2])
         \<longleftrightarrow> \<not> field_exists (js ''uploadedAt'') r)" by blast
  from r have "r = failed_diagnostics"
    by (simp add: song1_def song2_def song1_attempted_def)
  with r' have s1: "song1_attempted \<in> set (find_pending [song1_attempted, song2])"
    by (simp add: song1_attempted_def work_example_def failed_diagnostics_def js_eq_iff song1_def)
  have p2: "song2 \<in> set (find_pending [song1_attempted, song2])"
    by (simp add: find_pending_def uploadedAt_exists_def song2_def)
  have a2: "attempt work_example (Suc 0) song2 [song1_attempted, song2]
      = Inl (Error (js ''Error: timeout of 900000ms exceeded'') None)"
    by (rule attempt2)
  have f2: "set_error_fails work_example (song_id song2) = None" by (simp add: work_example_def)
  from e2 a2 f2 p2 have
    "\<exists>c'. work_song work_example (Suc 0) song2 [song1_attempted, song2] = (None, c') \<and>
       song2\<lparr>renderError := Some (error_text (Error (js ''Error: timeout of 900000ms exceeded'') None)),
             renderedAt := Some (new_Date work_example (song_id song2))\<rparr> \<in> set (find_pending c')"
    by blast
  then obtain c' where
    w: "work_song work_example (Suc 0) song2 [song1_attempted, song2] = (None, c')" and
    m: "song2\<lparr>renderError := Some (error_text (Error (js ''Error: timeout of 900000ms exceeded'') None)),
             renderedAt := Some (new_Date work_example (song_id song2))\<rparr> \<in> set (find_pending c')"
    by blast
  from w have c': "c' = [song1_attempted, song2_attempted]" by (simp add: work_song2)
  have eq: "song2\<lparr>renderError := Some (error_text (Error (js ''Error: timeout of 900000ms exceeded'') None)),
             renderedAt := Some (new_Date work_example (song_id song2))\<rparr> = song2_attempted"
    by (simp add: song2_attempted_def error_text_def describe_def work_example_def)
  from m have s2: "song2_attempted \<in> set (find_pending [song1_attempted, song2_attempted])"
    unfolding c' eq .
  from p1 s1 s2 show ?thesis by (simp add: work_song1)
qed

section \<open>Statements that leave the diagnostics alone\<close>

lemma quietI:
  "(\<And>w. events (diag (leaves (f w))) = events (diag w) \<and>
          operationId (diag (leaves (f w))) = operationId (diag w) \<and>
          outFile (diag (leaves (f w))) = outFile (diag w) \<and>
          error (diag (leaves (f w))) = error (diag w) \<and>
          finishedAt (diag (leaves (f w))) = finishedAt (diag w) \<and>
          clock_reads (leaves (f w)) = clock_reads w) \<Longrightarrow> quiet f"
  by (simp add: quiet_def)

lemma quiet_perform: "quiet (perform env a)"
  by (rule quietI) (simp add: perform_def leaves_def Let_def split: option.splits)

lemma quiet_execLog: "quiet (execLog env command args timeout cwd)"
  by (simp add: execLog_def quiet_perform)

lemma quiet_Throw: "quiet (Throw e)"
  by (rule quietI) (simp add: leaves_def)

lemma quiet_Done: "quiet Done"
  by (rule quietI) (simp add: leaves_def)

lemma quiet_then:
  assumes "quiet f" and "quiet g"
  shows "quiet (\<lambda>w. case f w of Done w' \<Rightarrow> g w' | Throw e w' \<Rightarrow> Throw e w')"
proof (rule quietI)
  fix w
  from assms(1) have f: "events (diag (leaves (f w))) = events (diag w) \<and>
          operationId (diag (leaves (f w))) = operationId (diag w) \<and>
          outFile (diag (leaves (f w))) = outFile (diag w) \<and>
          error (diag (leaves (f w))) = error (diag w) \<and>
          finishedAt (diag (leaves (f w))) = finishedAt (diag w) \<and>
          clock_reads (leaves (f w)) = clock_reads w"
    by (simp add: quiet_def)
  let ?h = "\<lambda>w. case f w of Done w' \<Rightarrow> g w' | Throw e w' \<Rightarrow> Throw e w'"
  show "events (diag (leaves (?h w))) = events (diag w) \<and>
          operationId (diag (leaves (?h w))) = operationId (diag w) \<and>
          outFile (diag (leaves (?h w))) = outFile (diag w) \<and>
          error (diag (leaves (?h w))) = error (diag w) \<and>
          finishedAt (diag (leaves (?h w))) = finishedAt (diag w) \<and>
          clock_reads (leaves (?h w)) = clock_reads w"
  proof (cases "f w")
    case (Done w')
    from assms(2) have "events (diag (leaves (g w'))) = events (diag w') \<and>
          operationId (diag (leaves (g w'))) = operationId (diag w') \<and>
          outFile (diag (leaves (g w'))) = outFile (diag w') \<and>
          error (diag (leaves (g w'))) = error (diag w') \<and>
          finishedAt (diag (leaves (g w'))) = finishedAt (diag w') \<and>
          clock_reads (leaves (g w')) = clock_reads w'"
      by (simp add: quiet_def)
    with f Done show ?thesis by (simp add: leaves_def)
  next
    case (Throw e w')
    with f show ?thesis by (simp add: leaves_def)
  qed
qed

lemma quiet_in_order: "list_all quiet fs \<Longrightarrow> quiet (in_order fs)"
proof (induction fs)
  case Nil
  have "in_order [] = Done" by (rule ext) simp
  then show ?case by (simp add: quiet_Done)
next
  case (Cons f fs)
  then have q: "quiet f" "quiet (in_order fs)" by simp_all
  have "in_order (f # fs) = (\<lambda>w. case f w of Done w' \<Rightarrow> in_order fs w' | Throw e w' \<Rightarrow> Throw e w')"
    by (rule ext) simp
  with quiet_then [OF q] show ?case by simp
qed

lemma quiet_cases_sum:
  "(\<And>e. quiet (f e)) \<Longrightarrow> (\<And>x. quiet (g x)) \<Longrightarrow>
     quiet (\<lambda>w. case v of Inl e \<Rightarrow> f e w | Inr x \<Rightarrow> g x w)"
  by (cases v) simp_all

lemma quiet_download: "quiet (download env u workDir)"
proof -
  have "quiet (\<lambda>w. Done (w\<lparr>diag := (diag w)\<lparr>workingDirectory := Some workDir\<rparr>\<rparr>))"
    by (rule quietI) (simp add: leaves_def)
  then show ?thesis
    unfolding download_def by (intro quiet_in_order) (simp add: quiet_perform quiet_execLog)
qed

lemma quiet_extract_archive: "quiet (extract_archive env workDir)"
  unfolding extract_archive_def by (intro quiet_in_order) (simp add: quiet_perform quiet_execLog)

lemma quiet_remove_each: "quiet (remove_each env dir files)"
proof (induction files)
  case Nil
  have "remove_each env dir [] = Done" by (rule ext) simp
  then show ?case by (simp add: quiet_Done)
next
  case (Cons f files)
  show ?case
  proof (cases "chart_or_audio f")
    case True
    then have "remove_each env dir (f # files) = remove_each env dir files"
      by (intro ext) simp
    with Cons show ?thesis by simp
  next
    case False
    then have "remove_each env dir (f # files) =
        (\<lambda>w. case perform env (Unlink (dir @ js ''/'' @ f)) w of
                Done w' \<Rightarrow> remove_each env dir files w' | Throw e w' \<Rightarrow> Throw e w')"
      by (intro ext) simp
    with quiet_then [OF quiet_perform Cons] show ?thesis by simp
  qed
qed

lemma quiet_remove_unrelated: "quiet (remove_unrelated env workDir)"
proof -
  have "remove_unrelated env workDir =
      (\<lambda>w. case glob_sync env (js ''**/*'') (workDir @ js ''/extracted'') of
             Inl e \<Rightarrow> Throw e w
           | Inr allFiles \<Rightarrow> remove_each env (workDir @ js ''/extracted'') allFiles w)"
    by (rule ext) (simp add: remove_unrelated_def)
  then show ?thesis by (simp add: quiet_cases_sum quiet_Throw quiet_remove_each)
qed

lemma quiet_convert_sound: "quiet (convert_sound env src dest len k sound)"
  by (rule quietI)
    (simp add: convert_sound_def perform_def leaves_def Let_def
      split: sum.splits option.splits)

lemma quiet_convert_each: "quiet (convert_each env src dest len n sounds)"
proof (induction sounds arbitrary: n)
  case Nil
  have "convert_each env src dest len n [] = Done" by (rule ext) simp
  then show ?case by (simp add: quiet_Done)
next
  case (Cons s sounds)
  have "convert_each env src dest len n (s # sounds) =
        (\<lambda>w. case convert_sound env src dest len (Suc n) s w of
                Done w' \<Rightarrow> convert_each env src dest len (Suc n) sounds w'
              | Throw e w' \<Rightarrow> Throw e w')"
    by (intro ext) simp
  with quiet_then [OF quiet_convert_sound Cons] show ?case by simp
qed

lemma quiet_prepareSounds: "quiet (prepareSounds env src dest)"
proof -
  have "prepareSounds env src dest =
      (\<lambda>w. case perform env (Mkdirp dest) w of
              Done w' \<Rightarrow>
                (case glob_sync env (js ''*.{wav,mp3,ogg}'') src of
                   Inl e \<Rightarrow> Throw e w'
                 | Inr sounds \<Rightarrow> convert_each env src dest (length sounds) 0 sounds w')
            | Throw e w' \<Rightarrow> Throw e w')"
    by (rule ext) (simp add: prepareSounds_def split: outcome.splits)
  moreover have "quiet (\<lambda>w'. case glob_sync env (js ''*.{wav,mp3,ogg}'') src of
                   Inl e \<Rightarrow> Throw e w'
                 | Inr sounds \<Rightarrow> convert_each env src dest (length sounds) 0 sounds w')"
    by (simp add: quiet_cases_sum quiet_Throw quiet_convert_each)
  ultimately show ?thesis using quiet_then [OF quiet_perform] by simp
qed

lemma quiet_move_charts: "quiet (move_charts env workDir)"
proof -
  have "move_charts env workDir =
      (\<lambda>w. case glob_sync env (js ''*.{bm[sel],pms,bmson}'') (workDir @ js ''/extracted'') of
              Inl e \<Rightarrow> Throw e w
            | Inr chartFiles \<Rightarrow>
                in_order (map (move_chart env (workDir @ js ''/extracted'')
                                 (workDir @ js ''/render/song'')) chartFiles) w)"
    by (rule ext) (simp add: move_charts_def)
  moreover have "quiet (in_order (map (move_chart env a b) fs))" for a b fs
    by (rule quiet_in_order) (simp add: list_all_iff move_chart_def Let_def quiet_perform)
  ultimately show ?thesis by (simp add: quiet_cases_sum quiet_Throw)
qed

lemma quiet_index: "quiet (index env workDir)"
proof -
  have "index env workDir =
      (\<lambda>w. case realpathSync env (js ''./node_modules/.bin/bemuse-tools'') of
              Inl e \<Rightarrow> Throw e w
            | Inr tool \<Rightarrow>
                execLog env tool [js ''index''] (Some 30000) (Some (workDir @ js ''/render'')) w)"
    by (rule ext) (simp add: index_def)
  then show ?thesis by (simp add: quiet_cases_sum quiet_Throw quiet_execLog)
qed

lemma quiet_select_chart: "quiet (select_chart env workDir)"
  by (rule quietI)
    (simp add: select_chart_def leaves_def split: sum.splits option.splits)

lemma quiet_render_chart: "quiet (render_chart env workDir)"
  by (rule quietI)
    (simp add: render_chart_def execLog_def perform_def leaves_def Let_def split: option.splits)

lemma quiet_normalize: "quiet (normalize env workDir)"
  by (simp add: normalize_def quiet_execLog)

lemma quiet_trim_silence: "quiet (trim_silence env workDir)"
  unfolding trim_silence_def by (intro quiet_in_order) (simp add: quiet_perform quiet_execLog)

lemma quiet_encode: "quiet (encode env workDir)"
  unfolding encode_def by (intro quiet_in_order) (simp add: quiet_perform quiet_execLog)

lemma quiet_stages: "list_all (\<lambda>st. quiet (fst st)) (stages env u workDir)"
  by (simp add: stages_def quiet_download quiet_extract_archive quiet_remove_unrelated
      quiet_prepareSounds quiet_move_charts quiet_index quiet_select_chart quiet_render_chart
      quiet_normalize quiet_trim_silence quiet_encode)

section \<open>Running the stages\<close>

lemma quietD:
  assumes "quiet f"
  shows "f w = Done w' \<or> f w = Throw e w' \<Longrightarrow>
     events (diag w') = events (diag w) \<and> operationId (diag w') = operationId (diag w) \<and>
     outFile (diag w') = outFile (diag w) \<and> error (diag w') = error (diag w) \<and>
     finishedAt (diag w') = finishedAt (diag w) \<and> clock_reads w' = clock_reads w"
  using assms [unfolded quiet_def, rule_format, of w] by (auto simp: leaves_def)

lemma eventLog_fields:
  "event_names (diag (eventLog env n w)) = event_names (diag w) @ [n] \<and>
   operationId (diag (eventLog env n w)) = operationId (diag w) \<and>
   outFile (diag (eventLog env n w)) = outFile (diag w) \<and>
   error (diag (eventLog env n w)) = error (diag w) \<and>
   finishedAt (diag (eventLog env n w)) = finishedAt (diag w)"
  by (simp add: eventLog_def event_names_def)

lemma run_stages_append:
  "run_stages env (a @ b) w =
     (case run_stages env a w of Done w' \<Rightarrow> run_stages env b w' | Throw e w' \<Rightarrow> Throw e w')"
  by (induction a arbitrary: w) (auto split: outcome.splits)

lemma run_stages_Done:
  "list_all (\<lambda>st. quiet (fst st)) sts \<Longrightarrow> run_stages env sts w = Done w' \<Longrightarrow>
     event_names (diag w') = event_names (diag w) @ map snd sts \<and>
     operationId (diag w') = operationId (diag w) \<and>
     outFile (diag w') = outFile (diag w) \<and> error (diag w') = error (diag w) \<and>
     finishedAt (diag w') = finishedAt (diag w)"
proof (induction sts arbitrary: w)
  case Nil
  then show ?case by simp
next
  case (Cons st sts)
  obtain work name where st: "st = (work, name)" by (cases st)
  from Cons.prems st obtain w1 where w1: "work w = Done w1"
    and r: "run_stages env sts (eventLog env name w1) = Done w'"
    by (auto split: outcome.splits)
  from Cons.prems st have q: "quiet work" and qs: "list_all (\<lambda>st. quiet (fst st)) sts" by simp_all
  from quietD [OF q, of w w1] w1 have
    k: "events (diag w1) = events (diag w) \<and> operationId (diag w1) = operationId (diag w) \<and>
     outFile (diag w1) = outFile (diag w) \<and> error (diag w1) = error (diag w) \<and>
     finishedAt (diag w1) = finishedAt (diag w)"
    by simp
  from Cons.IH [OF qs r] eventLog_fields [of env name w1] k st show ?case
    by (simp add: event_names_def)
qed

lemma run_stages_Throw:
  "run_stages env sts w = Throw e w' \<Longrightarrow>
     \<exists>pre work name post w1. sts = pre @ (work, name) # post \<and>
        run_stages env pre w = Done w1 \<and> work w1 = Throw e w'"
proof (induction sts arbitrary: w)
  case Nil
  then show ?case by simp
next
  case (Cons st sts)
  obtain work name where st: "st = (work, name)" by (cases st)
  show ?case
  proof (cases "work w")
    case (Throw e1 w1)
    with Cons.prems st have "e1 = e" "w1 = w'" by simp_all
    with Throw st have "st # sts = [] @ (work, name) # sts \<and> run_stages env [] w = Done w \<and>
        work w = Throw e w'" by simp
    then show ?thesis by blast
  next
    case (Done w1)
    with Cons.prems st have "run_stages env sts (eventLog env name w1) = Throw e w'" by simp
    from Cons.IH [OF this] obtain pre work' name' post w2 where
      d: "sts = pre @ (work', name') # post"
      "run_stages env pre (eventLog env name w1) = Done w2" "work' w2 = Throw e w'"
      by blast
    with Done st have "st # sts = (st # pre) @ (work', name') # post \<and>
        run_stages env (st # pre) w = Done w2 \<and> work' w2 = Throw e w'" by simp
    then show ?thesis by blast
  qed
qed

lemma run_stages_Throw_fields:
  assumes "list_all (\<lambda>st. quiet (fst st)) sts" and "run_stages env sts w = Throw e w'"
  shows "operationId (diag w') = operationId (diag w) \<and>
     outFile (diag w') = outFile (diag w) \<and> error (diag w') = error (diag w) \<and>
     finishedAt (diag w') = finishedAt (diag w)"
proof -
  from run_stages_Throw [OF assms(2)] obtain pre work name post w1 where
    d: "sts = pre @ (work, name) # post" "run_stages env pre w = Done w1" "work w1 = Throw e w'"
    by blast
  from assms(1) d(1) have qp: "list_all (\<lambda>st. quiet (fst st)) pre" and q: "quiet work" by simp_all
  from run_stages_Done [OF qp d(2)] quietD [OF q, of w1 w' e] d(3) show ?thesis by simp
qed

lemma stage_names:
  "map snd (stages env u workDir) =
     [js ''render:downloaded'', js ''render:extracted'', js ''render:unrelatedFilesRemoved'',
      js ''render:converted'', js ''render:chartsMoved'', js ''render:indexed'',
      js ''render:chartSelected'', js ''render:rendered'', js ''render:normalized'',
      js ''render:trimmed'', js ''render:encoded'']"
  by (simp add: stages_def)

lemma stage_names_distinct:
  "distinct (js ''render:start'' # map snd (stages env u workDir))"
  unfolding stage_names by (simp add: js_eq_iff)

lemma set_outFile_cases:
  "(\<exists>w'. set_outFile env out workDir w = Done w' \<and> error (diag w') = error (diag w) \<and>
       finishedAt (diag w') = finishedAt (diag w) \<and> events (diag w') = events (diag w) \<and>
       operationId (diag w') = operationId (diag w) \<and>
       outFile (diag w') = Some (if truthy out then the out else workDir @ js ''/song.mp3'')) \<or>
   (\<exists>e w' dest. set_outFile env out workDir w = Throw e w' \<and> error (diag w') = error (diag w) \<and>
       finishedAt (diag w') = finishedAt (diag w) \<and> events (diag w') = events (diag w) \<and>
       operationId (diag w') = operationId (diag w) \<and>
       out = Some dest \<and> truthy_string dest \<and> fails env (move_output workDir dest) = Some e \<and>
       outFile (diag w') = Some (workDir @ js ''/song.mp3''))"
  by (cases out)
    (auto simp: set_outFile_def Let_def perform_def truthy_def split: option.splits)

lemma started_fields:
  "event_names (diag (started env d0)) = event_names d0 @ [js ''render:start''] \<and>
   operationId (diag (started env d0)) = operationId d0 \<and>
   outFile (diag (started env d0)) = outFile d0 \<and>
   error (diag (started env d0)) = error d0 \<and>
   finishedAt (diag (started env d0)) = finishedAt d0"
  unfolding started_def using eventLog_fields [of env "js ''render:start''"] by simp

lemma finally_fields:
  "events (diag (finally_block env w)) = events (diag w) \<and>
   operationId (diag (finally_block env w)) = operationId (diag w) \<and>
   outFile (diag (finally_block env w)) = outFile (diag w) \<and>
   error (diag (finally_block env w)) = error (diag w) \<and>
   finishedAt (diag (finally_block env w)) = Some (Date_now env (clock_reads w))"
  by (simp add: finally_block_def)

lemma catch_Throw_fields:
  "events (diag (catch_block (Throw e w))) = events (diag w) \<and>
   operationId (diag (catch_block (Throw e w))) = operationId (diag w) \<and>
   outFile (diag (catch_block (Throw e w))) = outFile (diag w) \<and>
   error (diag (catch_block (Throw e w))) = Some (describe e) \<and>
   finishedAt (diag (catch_block (Throw e w))) = finishedAt (diag w)"
  by (simp add: catch_block_def)

lemma try_block_cases:
  "(\<exists>w'. try_block env u out workDir w = Done w' \<and> error (diag w') = error (diag w) \<and>
       operationId (diag w') = operationId (diag w) \<and>
       event_names (diag w') = event_names (diag w) @ map snd (stages env u workDir) \<and>
       outFile (diag w') = Some (if truthy out then the out else workDir @ js ''/song.mp3'')) \<or>
   (\<exists>e w' dest. try_block env u out workDir w = Throw e w' \<and> error (diag w') = error (diag w) \<and>
       operationId (diag w') = operationId (diag w) \<and>
       event_names (diag w') = event_names (diag w) @ map snd (stages env u workDir) \<and>
       out = Some dest \<and> truthy_string dest \<and> fails env (move_output workDir dest) = Some e \<and>
       outFile (diag w') = Some (workDir @ js ''/song.mp3'')) \<or>
   (\<exists>e w'. try_block env u out workDir w = Throw e w' \<and> error (diag w') = error (diag w) \<and>
       operationId (diag w') = operationId (diag w) \<and>
       run_stages env (stages env u workDir) w = Throw e w' \<and>
       outFile (diag w') = outFile (diag w))"
proof (cases "run_stages env (stages env u workDir) w")
  case (Throw e w')
  from run_stages_Throw_fields [OF quiet_stages Throw] Throw show ?thesis
    by (simp add: try_block_def)
next
  case (Done w1)
  note f = run_stages_Done [OF quiet_stages Done]
  from set_outFile_cases [of env out workDir w1] show ?thesis
  proof (elim disjE exE conjE)
    fix w'
    assume "set_outFile env out workDir w1 = Done w'" "error (diag w') = error (diag w1)"
      "events (diag w') = events (diag w1)" "operationId (diag w') = operationId (diag w1)"
      "outFile (diag w') = Some (if truthy out then the out else workDir @ js ''/song.mp3'')"
    with f Done show ?thesis by (simp add: try_block_def event_names_def)
  next
    fix e w' dest
    assume "set_outFile env out workDir w1 = Throw e w'" "error (diag w') = error (diag w1)"
      "events (diag w') = events (diag w1)" "operationId (diag w') = operationId (diag w1)"
      "out = Some dest" "truthy_string dest" "fails env (move_output workDir dest) = Some e"
      "outFile (diag w') = Some (workDir @ js ''/song.mp3'')"
    with f Done show ?thesis by (simp add: try_block_def event_names_def)
  qed
qed

lemma service_render_cases:
  assumes "outFile d0 = None" and "error d0 = None"
  shows "(error (diag (render env u None d0)) = None \<and>
          outFile (diag (render env u None d0)) = Some (new_workDir env @ js ''/song.mp3'')) \<or>
         (error (diag (render env u None d0)) \<noteq> None \<and>
          outFile (diag (render env u None d0)) = None)"
proof -
  let ?w0 = "started env d0"
  let ?t = "try_block env u None (new_workDir env) ?w0"
  have r: "render env u None d0 = finally_block env (catch_block ?t)" by (simp add: render_def)
  from assms started_fields [of env d0] have s: "outFile (diag ?w0) = None" "error (diag ?w0) = None"
    by simp_all
  from try_block_cases [of env u None "new_workDir env" ?w0] show ?thesis
  proof (elim disjE exE conjE)
    fix w'
    assume "?t = Done w'" "error (diag w') = error (diag ?w0)"
      "outFile (diag w') = Some (if truthy None then the None else new_workDir env @ js ''/song.mp3'')"
    with s show ?thesis unfolding r
      by (simp add: finally_fields catch_block_def truthy_def)
  next
    fix e w' dest
    assume "(None :: jsstring option) = Some dest"
    then show ?thesis by simp
  next
    fix e w'
    assume "?t = Throw e w'" "outFile (diag w') = outFile (diag ?w0)"
    with s show ?thesis unfolding r by (simp add: finally_fields catch_Throw_fields)
  qed
qed

section \<open>The stages one by one\<close>

lemma insert_by_noteCount:
  "insert_by (\<lambda>a b. noteCount a - noteCount b) x ys = insort_key noteCount x ys"
  by (induction ys) auto

lemma sorted_charts_sort_key: "sorted_charts cs = sort_key noteCount cs"
  unfolding sorted_charts_def by (induction cs) (auto simp: insert_by_noteCount)

lemma perform_ok:
  "fails env a = None \<Longrightarrow> perform env a w = Done (w\<lparr>trace := trace w @ [a]\<rparr>)"
  by (simp add: perform_def)

lemma remove_each_ok:
  "\<forall>f\<in>set files. fails env (Unlink (dir @ js ''/'' @ f)) = None \<Longrightarrow>
     remove_each env dir files w =
       Done (w\<lparr>trace := trace w @
                  map (\<lambda>f. Unlink (dir @ js ''/'' @ f)) (filter (\<lambda>f. \<not> chart_or_audio f) files)\<rparr>)"
proof (induction files arbitrary: w)
  case Nil
  show ?case by simp
next
  case (Cons f files)
  then show ?case by (simp add: perform_ok)
qed

lemma starts_with_ci_iff:
  "starts_with_ci word s \<longleftrightarrow>
     length word \<le> length s \<and> map ascii_upper (take (length word) s) = map ascii_upper word"
proof (induction word s rule: starts_with_ci.induct)
  case (1 s)
  show ?case by simp
next
  case (2 p ps)
  show ?case by simp
next
  case (3 p ps c cs)
  then show ?case by auto
qed

lemma chart_or_audio_iff:
  "chart_or_audio f \<longleftrightarrow>
     (\<exists>pre word rest. f = pre @ 46 # rest \<and> word \<in> set alternatives \<and> starts_with_ci word rest)"
proof (induction f)
  case Nil
  show ?case by simp
next
  case (Cons c cs)
  show ?case
  proof
    assume "chart_or_audio (c # cs)"
    then consider "c = 46" "list_ex (\<lambda>word. starts_with_ci word cs) alternatives"
      | "chart_or_audio cs" by auto
    then show "\<exists>pre word rest. c # cs = pre @ 46 # rest \<and> word \<in> set alternatives \<and>
        starts_with_ci word rest"
    proof cases
      case 1
      then obtain word where "word \<in> set alternatives" "starts_with_ci word cs"
        by (auto simp: list_ex_iff)
      with 1 have "c # cs = [] @ 46 # cs \<and> word \<in> set alternatives \<and> starts_with_ci word cs"
        by simp
      then show ?thesis by blast
    next
      case 2
      with Cons obtain pre word rest where
        "cs = pre @ 46 # rest" "word \<in> set alternatives" "starts_with_ci word rest" by blast
      then have "c # cs = (c # pre) @ 46 # rest \<and> word \<in> set alternatives \<and>
          starts_with_ci word rest" by simp
      then show ?thesis by blast
    qed
  next
    assume "\<exists>pre word rest. c # cs = pre @ 46 # rest \<and> word \<in> set alternatives \<and>
        starts_with_ci word rest"
    then obtain pre word rest where d: "c # cs = pre @ 46 # rest" "word \<in> set alternatives"
      "starts_with_ci word rest" by blast
    show "chart_or_audio (c # cs)"
    proof (cases pre)
      case Nil
      with d have "c = 46" "cs = rest" by simp_all
      with d(2,3) show ?thesis by (auto simp: list_ex_iff)
    next
      case (Cons p pre')
      with d have "cs = pre' @ 46 # rest" by simp
      with d(2,3) Cons.IH have "chart_or_audio cs" by blast
      then show ?thesis by simp
    qed
  qed
qed

lemma ascii_upper_dot: "ascii_upper c = 46 \<longleftrightarrow> c = 46"
  by (auto simp: ascii_upper_def)

lemma ascii_upper_46: "ascii_upper 46 = 46"
  by (simp add: ascii_upper_def)

lemma allowed_extension_kept: "allowed_extension name \<Longrightarrow> chart_or_audio name"
proof -
  assume "allowed_extension name"
  then obtain word where w: "word \<in> set alternatives" and e: "ends_with_ci (46 # word) name"
    by (auto simp: allowed_extension_def list_ex_iff)
  let ?k = "length name - length (46 # word)"
  from e have l: "length (46 # word) \<le> length name"
    and m: "map ascii_upper (drop ?k name) = map ascii_upper (46 # word)"
    by (simp_all add: ends_with_ci_def)
  from m obtain c rest where d: "drop ?k name = c # rest"
    by (cases "drop ?k name") auto
  with m have c: "c = 46" and r: "map ascii_upper rest = map ascii_upper word"
    by (simp_all add: ascii_upper_dot ascii_upper_46)
  from r have "length rest = length word" by (rule map_eq_imp_length_eq)
  with r have "starts_with_ci word rest" by (simp add: starts_with_ci_iff)
  moreover have "name = take ?k name @ 46 # rest"
    using d c append_take_drop_id [of ?k name] by simp
  ultimately show ?thesis using w unfolding chart_or_audio_iff by blast
qed

lemma sox_convert_inject: "sox_convert src dest a = sox_convert src dest b \<Longrightarrow> a = b"
  by (simp add: sox_convert_def path_join_def)

lemma convert_sound_ok:
  assumes "fails env (Unlink (path_join src s)) = None"
  shows "convert_sound env src dest len k s w =
     Done (w\<lparr>trace := trace w @
        (case statSync_size env (path_join src s) of
           Inl e \<Rightarrow> [Progress k len s (js ''error'')]
         | Inr bytes \<Rightarrow>
             if bytes = 0 then [Progress k len s (js ''skip; blank file'')]
             else [sox_convert src dest s,
                   Progress k len s (if fails env (sox_convert src dest s) = None
                                     then js ''ok'' else js ''error'')]) @
        [Unlink (path_join src s)]\<rparr>)"
  using assms
  by (simp add: convert_sound_def perform_def Let_def split: sum.splits option.splits)

lemma convert_each_ok:
  assumes "\<forall>s\<in>set sounds. fails env (Unlink (path_join src s)) = None"
  shows "\<exists>new. convert_each env src dest len n sounds w = Done (w\<lparr>trace := trace w @ new\<rparr>) \<and>
     (\<forall>s\<in>set sounds.
        Unlink (path_join src s) \<in> set new \<and>
        (\<exists>k. Progress k len s
               (case statSync_size env (path_join src s) of
                  Inl e \<Rightarrow> js ''error''
                | Inr bytes \<Rightarrow>
                    if bytes = 0 then js ''skip; blank file''
                    else if fails env (sox_convert src dest s) = None then js ''ok''
                    else js ''error'') \<in> set new)) \<and>
     (\<forall>s. sox_convert src dest s \<in> set new \<longleftrightarrow>
        s \<in> set sounds \<and> (\<exists>bytes. statSync_size env (path_join src s) = Inr bytes \<and> bytes \<noteq> 0))"
  using assms
proof (induction sounds arbitrary: n w)
  case Nil
  show ?case by (rule exI [of _ "[]"]) simp
next
  case (Cons a sounds)
  let ?one = "(case statSync_size env (path_join src a) of
           Inl e \<Rightarrow> [Progress (Suc n) len a (js ''error'')]
         | Inr bytes \<Rightarrow>
             if bytes = 0 then [Progress (Suc n) len a (js ''skip; blank file'')]
             else [sox_convert src dest a,
                   Progress (Suc n) len a (if fails env (sox_convert src dest a) = None
                                     then js ''ok'' else js ''error'')]) @
        [Unlink (path_join src a)]"
  let ?w1 = "w\<lparr>trace := trace w @ ?one\<rparr>"
  from Cons.prems have u: "fails env (Unlink (path_join src a)) = None"
    and us: "\<forall>s\<in>set sounds. fails env (Unlink (path_join src s)) = None" by simp_all
  have c: "convert_sound env src dest len (Suc n) a w = Done ?w1"
    by (rule convert_sound_ok [OF u])
  from Cons.IH [OF us, of "Suc n" ?w1] obtain new where
    r: "convert_each env src dest len (Suc n) sounds ?w1 = Done (?w1\<lparr>trace := trace ?w1 @ new\<rparr>)"
    and p: "\<forall>s\<in>set sounds.
        Unlink (path_join src s) \<in> set new \<and>
        (\<exists>k. Progress k len s
               (case statSync_size env (path_join src s) of
                  Inl e \<Rightarrow> js ''error''
                | Inr bytes \<Rightarrow>
                    if bytes = 0 then js ''skip; blank file''
                    else if fails env (sox_convert src dest s) = None then js ''ok''
                    else js ''error'') \<in> set new)"
    and q: "\<forall>s. sox_convert src dest s \<in> set new \<longleftrightarrow>
        s \<in> set sounds \<and> (\<exists>bytes. statSync_size env (path_join src s) = Inr bytes \<and> bytes \<noteq> 0)"
    by blast
  have one_unlink: "Unlink (path_join src a) \<in> set ?one" by simp
  have one_progress: "Progress (Suc n) len a
               (case statSync_size env (path_join src a) of
                  Inl e \<Rightarrow> js ''error''
                | Inr bytes \<Rightarrow>
                    if bytes = 0 then js ''skip; blank file''
                    else if fails env (sox_convert src dest a) = None then js ''ok''
                    else js ''error'') \<in> set ?one"
    by (simp split: sum.splits)
  have one_sox: "sox_convert src dest s \<in> set ?one \<longleftrightarrow>
      s = a \<and> (\<exists>bytes. statSync_size env (path_join src s) = Inr bytes \<and> bytes \<noteq> 0)" for s
    by (auto simp: sox_convert_def path_join_def split: sum.splits)
  have "convert_each env src dest len n (a # sounds) w = Done (w\<lparr>trace := trace w @ (?one @ new)\<rparr>)"
    using c r by simp
  moreover have "\<forall>s\<in>set (a # sounds).
        Unlink (path_join src s) \<in> set (?one @ new) \<and>
        (\<exists>k. Progress k len s
               (case statSync_size env (path_join src s) of
                  Inl e \<Rightarrow> js ''error''
                | Inr bytes \<Rightarrow>
                    if bytes = 0 then js ''skip; blank file''
                    else if fails env (sox_convert src dest s) = None then js ''ok''
                    else js ''error'') \<in> set (?one @ new))"
  proof
    fix s
    assume "s \<in> set (a # sounds)"
    then consider "s = a" | "s \<in> set sounds" by auto
    then show "Unlink (path_join src s) \<in> set (?one @ new) \<and>
        (\<exists>k. Progress k len s
               (case statSync_size env (path_join src s) of
                  Inl e \<Rightarrow> js ''error''
                | Inr bytes \<Rightarrow>
                    if bytes = 0 then js ''skip; blank file''
                    else if fails env (sox_convert src dest s) = None then js ''ok''
                    else js ''error'') \<in> set (?one @ new))"
    proof cases
      case 1
      with one_unlink one_progress show ?thesis
        unfolding set_append by blast
    next
      case 2
      with p show ?thesis unfolding set_append by blast
    qed
  qed
  moreover have "\<forall>s. sox_convert src dest s \<in> set (?one @ new) \<longleftrightarrow>
        s \<in> set (a # sounds) \<and>
        (\<exists>bytes. statSync_size env (path_join src s) = Inr bytes \<and> bytes \<noteq> 0)"
    using one_sox q unfolding set_append by (simp only: Un_iff set_simps insert_iff) blast
  ultimately show ?case by blast
qed

lemma in_order_perform_ok:
  "\<forall>a\<in>set as. fails env a = None \<Longrightarrow>
     in_order (map (perform env) as) w = Done (w\<lparr>trace := trace w @ as\<rparr>)"
  by (induction as arbitrary: w) (simp_all add: perform_ok)

lemma download_completes:
  assumes "\<And>p. fails env (Mkdirp p) = None" and "fails env (Exec (js ''wget'') args (Some 120000) None) = None"
    and "args = [js ''-O'' @ workDir @ js ''/downloads/archive.zip'', u]"
  shows "\<exists>w'. download env u workDir w = Done w'"
  using assms by (simp add: download_def execLog_def perform_ok)

lemma extract_completes:
  assumes "\<And>p. fails env (Mkdirp p) = None"
    and "\<And>args t d. fails env (Exec (js ''7z'') args t d) = None"
  shows "\<exists>w'. extract_archive env workDir w = Done w'"
  using assms by (simp add: extract_archive_def execLog_def perform_ok)

lemma remove_unrelated_completes:
  assumes "\<And>p. fails env (Unlink p) = None"
    and "glob_sync env (js ''**/*'') (workDir @ js ''/extracted'') = Inr allFiles"
  shows "\<exists>w'. remove_unrelated env workDir w = Done w'"
  using assms by (simp add: remove_unrelated_def remove_each_ok)

lemma prepareSounds_completes:
  assumes "\<And>p. fails env (Mkdirp p) = None" and "\<And>p. fails env (Unlink p) = None"
    and "glob_sync env (js ''*.{wav,mp3,ogg}'') src = Inr sounds"
  shows "\<exists>w'. prepareSounds env src dest w = Done w'"
proof -
  from assms(2) have "\<forall>s\<in>set sounds. fails env (Unlink (path_join src s)) = None" by simp
  from convert_each_ok [OF this, of dest "length sounds" 0 "w\<lparr>trace := trace w @ [Mkdirp dest]\<rparr>"]
  obtain new where "convert_each env src dest (length sounds) 0 sounds (w\<lparr>trace := trace w @ [Mkdirp dest]\<rparr>)
      = Done (w\<lparr>trace := trace w @ [Mkdirp dest]\<rparr>\<lparr>trace := trace (w\<lparr>trace := trace w @ [Mkdirp dest]\<rparr>) @ new\<rparr>)"
    by blast
  with assms(1,3) show ?thesis by (simp add: prepareSounds_def perform_ok)
qed

lemma move_charts_completes:
  assumes "\<And>a b. fails env (Rename a b) = None"
    and "glob_sync env (js ''*.{bm[sel],pms,bmson}'') (workDir @ js ''/extracted'') = Inr chartFiles"
  shows "\<exists>w'. move_charts env workDir w = Done w'"
proof -
  have "map (move_chart env a b) fs =
      map (perform env) (map (\<lambda>f. Rename (a @ js ''/'' @ f)
          (b @ js ''/'' @ path_basename f (path_extname f) @ js ''.sjis'' @ path_extname f)) fs)" for a b fs
    by (simp add: move_chart_def Let_def fun_eq_iff)
  with assms show ?thesis
    by (simp add: move_charts_def in_order_perform_ok del: map_map)
qed

lemma index_completes:
  assumes "realpathSync env (js ''./node_modules/.bin/bemuse-tools'') = Inr tool"
    and "\<And>args t d. fails env (Exec tool args t d) = None"
  shows "\<exists>w'. index env workDir w = Done w'"
  using assms by (simp add: index_def execLog_def perform_ok)

lemma select_chart_completes:
  assumes "read_index env (workDir @ js ''/render/index.json'') = Inr songs"
    and "find (\<lambda>s. id' s = js ''song'') songs = Some song"
    and "charts song \<noteq> []"
  shows "select_chart env workDir w = Done (w\<lparr>selectedChart := Some (median_chart (charts song))\<rparr>)"
  using assms by (simp add: select_chart_def)

lemma render_chart_completes:
  assumes "selectedChart w = Some c" and "\<And>args t d. fails env (Exec (js ''bms-renderer'') args t d) = None"
  shows "\<exists>w'. render_chart env workDir w = Done w' \<and> selectedChart w' = Some c"
  using assms by (simp add: render_chart_def execLog_def perform_ok)

lemma render_chart_throws:
  assumes "selectedChart w = Some c"
    and "\<And>args t d. fails env (Exec (js ''bms-renderer'') args t d) = Some e"
  shows "\<exists>w'. render_chart env workDir w = Throw e w'"
  using assms by (simp add: render_chart_def execLog_def perform_def)

lemma normalize_completes:
  assumes "\<And>args t d. fails env (Exec (js ''wavegain'') args t d) = None"
  shows "\<exists>w'. normalize env workDir w = Done w'"
  using assms by (simp add: normalize_def execLog_def perform_ok)

lemma trim_silence_completes:
  assumes "\<And>args t d. fails env (Exec (js ''sox'') args t d) = None"
    and "\<And>p. fails env (Unlink p) = None"
  shows "\<exists>w'. trim_silence env workDir w = Done w'"
  using assms by (simp add: trim_silence_def execLog_def perform_ok)

lemma encode_completes:
  assumes "\<And>args t d. fails env (Exec (js ''lame'') args t d) = None"
    and "\<And>p. fails env (Unlink p) = None"
  shows "\<exists>w'. encode env workDir w = Done w'"
  using assms by (simp add: encode_def execLog_def perform_ok)

lemma stages_split:
  "stages env u workDir =
     [(download env u workDir, js ''render:downloaded''),
      (extract_archive env workDir, js ''render:extracted''),
      (remove_unrelated env workDir, js ''render:unrelatedFilesRemoved''),
      (prepareSounds env (workDir @ js ''/extracted'') (workDir @ js ''/render/song''),
         js ''render:converted''),
      (move_charts env workDir, js ''render:chartsMoved''),
      (index env workDir, js ''render:indexed''),
      (select_chart env workDir, js ''render:chartSelected'')] @
     (render_chart env workDir, js ''render:rendered'') #
     [(normalize env workDir, js ''render:normalized''),
      (trim_silence env workDir, js ''render:trimmed''),
      (encode env workDir, js ''render:encoded'')]"
  by (simp add: stages_def)

lemma eventLog_selectedChart: "selectedChart (eventLog env n w) = selectedChart w"
  by (simp add: eventLog_def)

lemma first_stages_complete:
  assumes mk: "\<And>p. fails env (Mkdirp p) = None" and un: "\<And>p. fails env (Unlink p) = None"
    and rn: "\<And>a b. fails env (Rename a b) = None"
    and wget: "\<And>args t d. fails env (Exec (js ''wget'') args t d) = None"
    and sevenz: "\<And>args t d. fails env (Exec (js ''7z'') args t d) = None"
    and g1: "glob_sync env (js ''**/*'') (workDir @ js ''/extracted'') = Inr allFiles"
    and g2: "glob_sync env (js ''*.{wav,mp3,ogg}'') (workDir @ js ''/extracted'') = Inr sounds"
    and g3: "glob_sync env (js ''*.{bm[sel],pms,bmson}'') (workDir @ js ''/extracted'') = Inr chartFiles"
    and tool: "realpathSync env (js ''./node_modules/.bin/bemuse-tools'') = Inr tool"
      "\<And>args t d. fails env (Exec tool args t d) = None"
    and idx: "read_index env (workDir @ js ''/render/index.json'') = Inr songs"
      "find (\<lambda>s. id' s = js ''song'') songs = Some song" "charts song \<noteq> []"
  shows "\<exists>w'. run_stages env
     [(download env u workDir, js ''render:downloaded''),
      (extract_archive env workDir, js ''render:extracted''),
      (remove_unrelated env workDir, js ''render:unrelatedFilesRemoved''),
      (prepareSounds env (workDir @ js ''/extracted'') (workDir @ js ''/render/song''),
         js ''render:converted''),
      (move_charts env workDir, js ''render:chartsMoved''),
      (index env workDir, js ''render:indexed''),
      (select_chart env workDir, js ''render:chartSelected'')] w = Done w' \<and>
     selectedChart w' = Some (median_chart (charts song))"
proof -
  obtain w1 where 1: "download env u workDir w = Done w1"
    using download_completes [OF mk wget refl] by blast
  obtain w2 where 2: "extract_archive env workDir (eventLog env (js ''render:downloaded'') w1) = Done w2"
    using extract_completes [OF mk sevenz] by blast
  obtain w3 where 3: "remove_unrelated env workDir (eventLog env (js ''render:extracted'') w2) = Done w3"
    using remove_unrelated_completes [OF un g1] by blast
  obtain w4 where 4: "prepareSounds env (workDir @ js ''/extracted'') (workDir @ js ''/render/song'')
      (eventLog env (js ''render:unrelatedFilesRemoved'') w3) = Done w4"
    using prepareSounds_completes [OF mk un g2] by blast
  obtain w5 where 5: "move_charts env workDir (eventLog env (js ''render:converted'') w4) = Done w5"
    using move_charts_completes [OF rn g3] by blast
  obtain w6 where 6: "index env workDir (eventLog env (js ''render:chartsMoved'') w5) = Done w6"
    using index_completes [OF tool] by blast
  note 7 = select_chart_completes [OF idx, of "eventLog env (js ''render:indexed'') w6"]
  show ?thesis by (simp add: 1 2 3 4 5 6 7 eventLog_selectedChart)
qed

lemma last_stages_complete:
  assumes un: "\<And>p. fails env (Unlink p) = None"
    and wavegain: "\<And>args t d. fails env (Exec (js ''wavegain'') args t d) = None"
    and sox: "\<And>args t d. fails env (Exec (js ''sox'') args t d) = None"
    and lame: "\<And>args t d. fails env (Exec (js ''lame'') args t d) = None"
  shows "\<exists>w'. run_stages env
     [(normalize env workDir, js ''render:normalized''),
      (trim_silence env workDir, js ''render:trimmed''),
      (encode env workDir, js ''render:encoded'')] w = Done w'"
proof -
  obtain w1 where 1: "normalize env workDir w = Done w1"
    using normalize_completes [OF wavegain] by blast
  obtain w2 where 2: "trim_silence env workDir (eventLog env (js ''render:normalized'') w1) = Done w2"
    using trim_silence_completes [OF sox un] by blast
  obtain w3 where 3: "encode env workDir (eventLog env (js ''render:trimmed'') w2) = Done w3"
    using encode_completes [OF lame un] by blast
  show ?thesis by (simp add: 1 2 3)
qed

lemma six_stages_complete:
  assumes mk: "\<And>p. fails env (Mkdirp p) = None" and un: "\<And>p. fails env (Unlink p) = None"
    and rn: "\<And>a b. fails env (Rename a b) = None"
    and wget: "\<And>args t d. fails env (Exec (js ''wget'') args t d) = None"
    and sevenz: "\<And>args t d. fails env (Exec (js ''7z'') args t d) = None"
    and g1: "glob_sync env (js ''**/*'') (workDir @ js ''/extracted'') = Inr allFiles"
    and g2: "glob_sync env (js ''*.{wav,mp3,ogg}'') (workDir @ js ''/extracted'') = Inr sounds"
    and g3: "glob_sync env (js ''*.{bm[sel],pms,bmson}'') (workDir @ js ''/extracted'') = Inr chartFiles"
    and tool: "realpathSync env (js ''./node_modules/.bin/bemuse-tools'') = Inr tool"
      "\<And>args t d. fails env (Exec tool args t d) = None"
  shows "\<exists>w'. run_stages env (take 6 (stages env u workDir)) w = Done w'"
proof -
  obtain w1 where 1: "download env u workDir w = Done w1"
    using download_completes [OF mk wget refl] by blast
  obtain w2 where 2: "extract_archive env workDir (eventLog env (js ''render:downloaded'') w1) = Done w2"
    using extract_completes [OF mk sevenz] by blast
  obtain w3 where 3: "remove_unrelated env workDir (eventLog env (js ''render:extracted'') w2) = Done w3"
    using remove_unrelated_completes [OF un g1] by blast
  obtain w4 where 4: "prepareSounds env (workDir @ js ''/extracted'') (workDir @ js ''/render/song'')
      (eventLog env (js ''render:unrelatedFilesRemoved'') w3) = Done w4"
    using prepareSounds_completes [OF mk un g2] by blast
  obtain w5 where 5: "move_charts env workDir (eventLog env (js ''render:converted'') w4) = Done w5"
    using move_charts_completes [OF rn g3] by blast
  obtain w6 where 6: "index env workDir (eventLog env (js ''render:chartsMoved'') w5) = Done w6"
    using index_completes [OF tool] by blast
  show ?thesis by (simp add: stages_def 1 2 3 4 5 6)
qed

lemma stages_at_selection:
  "stages env u workDir =
     take 6 (stages env u workDir) @
     (select_chart env workDir, js ''render:chartSelected'') # drop 7 (stages env u workDir)"
  by (simp add: stages_def)

lemma selection_throws:
  assumes "\<And>w. select_chart env workDir w = Throw e0 w"
  shows "\<exists>e w'. run_stages env (stages env u workDir) w = Throw e w' \<and>
           (\<forall>w1. run_stages env (take 6 (stages env u workDir)) w = Done w1 \<longrightarrow>
              e = e0 \<and> w' = w1)"
proof (cases "run_stages env (take 6 (stages env u workDir)) w")
  case (Done w1)
  have "run_stages env (stages env u workDir) w = Throw e0 w1"
    by (subst stages_at_selection) (simp add: run_stages_append Done assms)
  with Done show ?thesis by simp
next
  case (Throw e w1)
  have "run_stages env (stages env u workDir) w = Throw e w1"
    by (subst stages_at_selection) (simp add: run_stages_append Throw)
  with Throw show ?thesis by simp
qed

lemma render_throws_fields:
  assumes "run_stages env (stages env u (new_workDir env)) (started env d0) = Throw e w'"
  shows "outFile (diag (render env u out d0)) = outFile d0 \<and>
         error (diag (render env u out d0)) = Some (stack e)"
proof -
  from assms have r: "render env u out d0 = finally_block env (catch_block (Throw e w'))"
    by (simp add: render_def try_block_def)
  from run_stages_Throw_fields [OF quiet_stages assms] started_fields [of env d0]
  have "outFile (diag w') = outFile d0" by simp
  then show ?thesis unfolding r by (simp add: finally_fields catch_Throw_fields describe_def)
qed

lemma render_no_chart:
  assumes "\<And>w. select_chart env (new_workDir env) w = Throw (new_Error (frames env) msg) w"
  shows "outFile (diag (render env u out d0)) = outFile d0 \<and>
         error (diag (render env u out d0)) \<noteq> None \<and>
         (run_stages env (take 6 (stages env u (new_workDir env))) (started env d0) = Done w1 \<longrightarrow>
            error (diag (render env u out d0)) = Some (js ''Error: '' @ msg @ frames env) \<and>
            event_names (diag (render env u out d0)) =
              event_names d0 @ js ''render:start'' # take 6 (map snd (stages env u (new_workDir env))))"
proof -
  let ?w0 = "started env d0"
  let ?wd = "new_workDir env"
  from selection_throws [of env ?wd "new_Error (frames env) msg" u ?w0, OF assms]
  obtain e w' where t: "run_stages env (stages env u ?wd) ?w0 = Throw e w'"
    and s: "\<forall>w1. run_stages env (take 6 (stages env u ?wd)) ?w0 = Done w1 \<longrightarrow>
              e = new_Error (frames env) msg \<and> w' = w1" by blast
  note f = render_throws_fields [OF t, of out]
  have "run_stages env (take 6 (stages env u ?wd)) ?w0 = Done w1 \<longrightarrow>
            error (diag (render env u out d0)) = Some (js ''Error: '' @ msg @ frames env) \<and>
            event_names (diag (render env u out d0)) =
              event_names d0 @ js ''render:start'' # take 6 (map snd (stages env u ?wd))"
  proof
    assume d: "run_stages env (take 6 (stages env u ?wd)) ?w0 = Done w1"
    with s have e: "e = new_Error (frames env) msg" and w: "w' = w1" by simp_all
    have q: "list_all (\<lambda>st. quiet (fst st)) (take 6 (stages env u ?wd))"
      using quiet_stages [of env u ?wd] by (simp add: list_all_iff) (meson in_set_takeD)
    from run_stages_Done [OF q d] started_fields [of env d0]
    have "event_names (diag w1) = event_names d0 @ js ''render:start'' # take 6 (map snd (stages env u ?wd))"
      by (simp add: take_map)
    moreover from t have "render env u out d0 = finally_block env (catch_block (Throw e w'))"
      by (simp add: render_def try_block_def)
    ultimately have "event_names (diag (render env u out d0)) =
        event_names d0 @ js ''render:start'' # take 6 (map snd (stages env u ?wd))"
      using w by (simp add: event_names_def finally_fields catch_Throw_fields)
    with f e show "error (diag (render env u out d0)) = Some (js ''Error: '' @ msg @ frames env) \<and>
            event_names (diag (render env u out d0)) =
              event_names d0 @ js ''render:start'' # take 6 (map snd (stages env u ?wd))"
      by (simp add: new_Error_def)
  qed
  with f show ?thesis by simp
qed

section \<open>The example environment\<close>

lemma example_fails: "fails (example_env f) = f"
  by (simp add: example_env_def)

lemma command_fails_simps:
  "command_fails c e (Mkdirp p) = None"
  "command_fails c e (Unlink p) = None"
  "command_fails c e (Rename a b) = None"
  "command_fails c e (Upload x y z) = None"
  "command_fails c e (Exec c' args t d) = (if c' = c then Some e else None)"
  by (simp_all add: command_fails_def)

lemma upload_fails_simps:
  "upload_fails e (Mkdirp p) = None"
  "upload_fails e (Unlink p) = None"
  "upload_fails e (Rename a b) = None"
  "upload_fails e (Exec c' args t d) = None"
  "upload_fails e (Upload x y z) = Some e"
  by (simp_all add: upload_fails_def)



lemma example_reads:
  "glob_sync (example_env f) (js ''**/*'') cwd =
     Inr [js ''a.bms'', js ''b.txt'', js ''c.wav'', js ''e.ogg'', js ''z.mp3'']"
  "glob_sync (example_env f) (js ''*.{wav,mp3,ogg}'') cwd = Inr [js ''c.wav'', js ''e.ogg'', js ''z.mp3'']"
  "glob_sync (example_env f) (js ''*.{bm[sel],pms,bmson}'') cwd = Inr [js ''a.bms'']"
  "realpathSync (example_env f) p = Inr (js ''/app/node_modules/.bin/bemuse-tools'')"
  "read_index (example_env f) p = Inr [\<lparr>id' = js ''song'', charts = example_charts\<rparr>]"
  "find (\<lambda>s. id' s = js ''song'') [\<lparr>id' = js ''song'', charts = example_charts\<rparr>]
     = Some \<lparr>id' = js ''song'', charts = example_charts\<rparr>"
  "example_charts \<noteq> []"
  "new_workDir (example_env f) = js ''/tmp/bmsurge-renderer/5d1f''"
  by (simp_all add: example_env_def example_glob_def js_eq_iff example_charts_def new_workDir_def
      js_append)

lemma index_env_reads:
  "read_index (index_env songs) p = Inr songs"
  "frames (index_env songs) = []"
  "new_workDir (index_env songs) = js ''/tmp/bmsurge-renderer/5d1f''"
  by (simp_all add: index_env_def example_env_def new_workDir_def js_append)

lemma index_env_six_stages:
  "\<exists>w'. run_stages (index_env songs) (take 6 (stages (index_env songs) u workDir)) w = Done w'"
  by (rule six_stages_complete [where tool = "js ''/app/node_modules/.bin/bemuse-tools''"
        and allFiles = "[js ''a.bms'', js ''b.txt'', js ''c.wav'', js ''e.ogg'', js ''z.mp3'']"
        and sounds = "[js ''c.wav'', js ''e.ogg'', js ''z.mp3'']"
        and chartFiles = "[js ''a.bms'']"])
     (simp_all add: index_env_def example_fails example_reads)

lemma first_stages_example:
  assumes "\<And>p. f (Mkdirp p) = None" and "\<And>p. f (Unlink p) = None"
    and "\<And>a b. f (Rename a b) = None"
    and "\<And>args t d. f (Exec (js ''wget'') args t d) = None"
    and "\<And>args t d. f (Exec (js ''7z'') args t d) = None"
    and "\<And>args t d. f (Exec (js ''sox'') args t d) = None"
    and "\<And>args t d. f (Exec (js ''/app/node_modules/.bin/bemuse-tools'') args t d) = None"
  shows "\<exists>w'. run_stages (example_env f)
     [(download (example_env f) u workDir, js ''render:downloaded''),
      (extract_archive (example_env f) workDir, js ''render:extracted''),
      (remove_unrelated (example_env f) workDir, js ''render:unrelatedFilesRemoved''),
      (prepareSounds (example_env f) (workDir @ js ''/extracted'') (workDir @ js ''/render/song''),
         js ''render:converted''),
      (move_charts (example_env f) workDir, js ''render:chartsMoved''),
      (index (example_env f) workDir, js ''render:indexed''),
      (select_chart (example_env f) workDir, js ''render:chartSelected'')] w = Done w' \<and>
     selectedChart w' = Some (median_chart example_charts)"
proof -
  have "\<exists>w'. run_stages (example_env f)
     [(download (example_env f) u workDir, js ''render:downloaded''),
      (extract_archive (example_env f) workDir, js ''render:extracted''),
      (remove_unrelated (example_env f) workDir, js ''render:unrelatedFilesRemoved''),
      (prepareSounds (example_env f) (workDir @ js ''/extracted'') (workDir @ js ''/render/song''),
         js ''render:converted''),
      (move_charts (example_env f) workDir, js ''render:chartsMoved''),
      (index (example_env f) workDir, js ''render:indexed''),
      (select_chart (example_env f) workDir, js ''render:chartSelected'')] w = Done w' \<and>
     selectedChart w' = Some (median_chart (charts \<lparr>id' = js ''song'', charts = example_charts\<rparr>))"
    by (rule first_stages_complete [where tool = "js ''/app/node_modules/.bin/bemuse-tools''"
          and songs = "[\<lparr>id' = js ''song'', charts = example_charts\<rparr>]"
          and allFiles = "[js ''a.bms'', js ''b.txt'', js ''c.wav'', js ''e.ogg'', js ''z.mp3'']"
          and sounds = "[js ''c.wav'', js ''e.ogg'', js ''z.mp3'']"
          and chartFiles = "[js ''a.bms'']"])
       (simp_all add: example_fails assms example_reads)
  then show ?thesis by simp
qed

lemma stages_example_complete:
  assumes "\<And>p. f (Mkdirp p) = None" and "\<And>p. f (Unlink p) = None"
    and "\<And>a b. f (Rename a b) = None"
    and "\<And>args t d. f (Exec (js ''wget'') args t d) = None"
    and "\<And>args t d. f (Exec (js ''7z'') args t d) = None"
    and "\<And>args t d. f (Exec (js ''sox'') args t d) = None"
    and "\<And>args t d. f (Exec (js ''/app/node_modules/.bin/bemuse-tools'') args t d) = None"
    and "\<And>args t d. f (Exec (js ''bms-renderer'') args t d) = None"
    and "\<And>args t d. f (Exec (js ''wavegain'') args t d) = None"
    and "\<And>args t d. f (Exec (js ''lame'') args t d) = None"
  shows "\<exists>w'. run_stages (example_env f) (stages (example_env f) u workDir) w = Done w'"
proof -
  let ?env = "example_env f"
  from first_stages_example [of f u workDir w, OF assms(1-7)] obtain w7 where
    1: "run_stages ?env
     [(download ?env u workDir, js ''render:downloaded''),
      (extract_archive ?env workDir, js ''render:extracted''),
      (remove_unrelated ?env workDir, js ''render:unrelatedFilesRemoved''),
      (prepareSounds ?env (workDir @ js ''/extracted'') (workDir @ js ''/render/song''),
         js ''render:converted''),
      (move_charts ?env workDir, js ''render:chartsMoved''),
      (index ?env workDir, js ''render:indexed''),
      (select_chart ?env workDir, js ''render:chartSelected'')] w = Done w7"
    and s: "selectedChart w7 = Some (median_chart example_charts)" by blast
  from render_chart_completes [OF s, of ?env workDir] obtain w8 where
    2: "render_chart ?env workDir w7 = Done w8"
    by (auto simp: example_fails assms)
  have "\<exists>w'. run_stages ?env
     [(normalize ?env workDir, js ''render:normalized''),
      (trim_silence ?env workDir, js ''render:trimmed''),
      (encode ?env workDir, js ''render:encoded'')] (eventLog ?env (js ''render:rendered'') w8) = Done w'"
    by (rule last_stages_complete) (simp_all add: example_fails assms)
  then obtain w11 where 3: "run_stages ?env
     [(normalize ?env workDir, js ''render:normalized''),
      (trim_silence ?env workDir, js ''render:trimmed''),
      (encode ?env workDir, js ''render:encoded'')] (eventLog ?env (js ''render:rendered'') w8) = Done w11"
    by blast
  have "run_stages ?env (stages ?env u workDir) w = Done w11"
    unfolding stages_split run_stages_append 1 using 2 3 by simp
  then show ?thesis by blast
qed

lemma render_move_fails:
  "outFile (diag (render (example_env (command_fails (js ''mv'') mv_error)) u
       (Some (js ''/out/song.mp3'')) no_diagnostics))
     = Some (js ''/tmp/bmsurge-renderer/5d1f/song.mp3'') \<and>
   error (diag (render (example_env (command_fails (js ''mv'') mv_error)) u
       (Some (js ''/out/song.mp3'')) no_diagnostics))
     = Some (js ''Error: Command failed with exit code 1: mv'')"
proof -
  let ?env = "example_env (command_fails (js ''mv'') mv_error)"
  let ?wd = "new_workDir ?env"
  have "\<exists>w'. run_stages ?env (stages ?env u ?wd) (started ?env no_diagnostics) = Done w'"
    by (rule stages_example_complete) (simp_all add: command_fails_simps js_eq_iff)
  then obtain w' where r: "run_stages ?env (stages ?env u ?wd) (started ?env no_diagnostics) = Done w'"
    by blast
  have t: "try_block ?env u (Some (js ''/out/song.mp3'')) ?wd (started ?env no_diagnostics)
      = Throw mv_error
          (w'\<lparr>diag := (diag w')\<lparr>outFile := Some (?wd @ js ''/song.mp3'')\<rparr>,
              trace := trace w' @ [move_output ?wd (js ''/out/song.mp3'')]\<rparr>)"
    by (simp add: try_block_def r set_outFile_def perform_def move_output_def example_fails
        command_fails_simps truthy_string_def js_Nil_iff)
  show ?thesis
    unfolding render_def t
    by (simp add: catch_block_def finally_block_def describe_def mv_error_def
        example_reads js_append)
qed

lemma render_example_succeeds:
  assumes "\<And>p. f (Mkdirp p) = None" and "\<And>p. f (Unlink p) = None"
    and "\<And>a b. f (Rename a b) = None"
    and "\<And>c args t d. f (Exec c args t d) = None"
  shows "outFile (diag (render (example_env f) u None d0))
           = Some (js ''/tmp/bmsurge-renderer/5d1f/song.mp3'') \<and>
         error (diag (render (example_env f) u None d0)) = error d0 \<and>
         operationId (diag (render (example_env f) u None d0)) = operationId d0"
proof -
  let ?env = "example_env f"
  let ?wd = "new_workDir ?env"
  have "\<exists>w'. run_stages ?env (stages ?env u ?wd) (started ?env d0) = Done w'"
    by (rule stages_example_complete) (simp_all add: assms)
  then obtain w' where r: "run_stages ?env (stages ?env u ?wd) (started ?env d0) = Done w'"
    by blast
  from run_stages_Done [OF quiet_stages r] started_fields [of ?env d0]
  have f: "error (diag w') = error d0" "operationId (diag w') = operationId d0" by simp_all
  have t: "try_block ?env u None ?wd (started ?env d0)
      = Done (w'\<lparr>diag := (diag w')\<lparr>outFile := Some (?wd @ js ''/song.mp3'')\<rparr>\<rparr>)"
    by (simp add: try_block_def r set_outFile_def)
  show ?thesis
    unfolding render_def t
    by (simp add: catch_block_def finally_block_def f example_reads js_append)
qed

lemma render_download_fails:
  "error (diag (render (example_env (command_fails (js ''wget'') wget_error)) u None d0))
     = Some (js ''Error: Command failed with exit code 8: wget'') \<and>
   outFile (diag (render (example_env (command_fails (js ''wget'') wget_error)) u None d0))
     = outFile d0"
proof -
  let ?env = "example_env (command_fails (js ''wget'') wget_error)"
  let ?wd = "new_workDir ?env"
  have "\<exists>w'. download ?env u ?wd (started ?env d0) = Throw wget_error w' \<and>
      outFile (diag w') = outFile d0"
    by (simp add: download_def execLog_def perform_def example_fails command_fails_simps
        started_def eventLog_def)
  then obtain w' where d: "download ?env u ?wd (started ?env d0) = Throw wget_error w'"
    and o: "outFile (diag w') = outFile d0" by blast
  have t: "try_block ?env u None ?wd (started ?env d0) = Throw wget_error w'"
    by (simp add: try_block_def stages_def d)
  show ?thesis
    unfolding render_def t
    by (simp add: catch_block_def finally_block_def describe_def wget_error_def o)
qed

lemma prefix_http: "prefix (js ''http'') (js ''http://a/1.zip'')"
  by (simp add: js_def)

lemma not_prefix_http: "\<not> prefix (js ''http'') (js ''ftp://a/1.zip'')"
  by (simp add: js_def)

lemma sublist_timed_out:
  "sublist (js ''timed out'') (js ''Error: Command timed out after 300000 milliseconds: bms-renderer'')"
proof -
  have "js ''Error: Command timed out after 300000 milliseconds: bms-renderer''
      = js ''Error: Command '' @ js ''timed out'' @ js '' after 300000 milliseconds: bms-renderer''"
    by (simp add: js_append)
  then show ?thesis unfolding sublist_def by blast
qed

lemma sorted_example_charts:
  "sorted_charts example_charts =
     [\<lparr>chart_file = js ''b.sjis.bms'', noteCount = 2\<rparr>,
      \<lparr>chart_file = js ''d.sjis.bms'', noteCount = 2\<rparr>,
      \<lparr>chart_file = js ''a.sjis.bms'', noteCount = 5\<rparr>,
      \<lparr>chart_file = js ''c.sjis.bms'', noteCount = 9\<rparr>]"
  by (simp add: sorted_charts_def example_charts_def)

lemma chart_or_audio_examples:
  "chart_or_audio (js ''a.bms'')" "\<not> chart_or_audio (js ''b.txt'')" "chart_or_audio (js ''c.wav'')"
  "chart_or_audio (js ''b.wav.txt'')" "\<not> chart_or_audio (js ''c.txt'')"
  "chart_or_audio (js ''SONG.BmS'')"
  by (simp_all add: js_def alternatives_def ascii_upper_def)

lemma not_allowed_example: "\<not> allowed_extension (js ''b.wav.txt'')"
  by (simp add: allowed_extension_def ends_with_ci_def js_def alternatives_def ascii_upper_def)

lemma example_sizes:
  "statSync_size (example_env f) (path_join (js ''/tmp/bmsurge-renderer/5d1f/extracted'') (js ''c.wav''))
     = Inr 1024"
  "statSync_size (example_env f) (path_join (js ''/tmp/bmsurge-renderer/5d1f/extracted'') (js ''e.ogg''))
     = Inr 0"
  "statSync_size (example_env f) (path_join (js ''/tmp/bmsurge-renderer/5d1f/extracted'') (js ''z.mp3''))
     = Inr 1024"
  by (simp_all add: example_env_def example_size_def path_join_def js_append js_eq_iff)

lemma sox_convert_eq_iff: "sox_convert src dest a = sox_convert src dest b \<longleftrightarrow> a = b"
  using sox_convert_inject by blast

lemma sox_convert_not_Unlink: "sox_convert src dest a \<noteq> Unlink p" "sox_convert src dest a \<noteq> Mkdirp p"
  by (simp_all add: sox_convert_def)

lemma conversion_fails_simps:
  "conversion_fails e (Mkdirp p) = None"
  "conversion_fails e (Unlink p) = None"
  "conversion_fails e (sox_convert (js ''/tmp/bmsurge-renderer/5d1f/extracted'')
               (js ''/tmp/bmsurge-renderer/5d1f/render/song'') s) = (if s = js ''z.mp3'' then Some e else None)"
  by (simp_all add: conversion_fails_def sox_convert_eq_iff sox_convert_not_Unlink [symmetric])

lemma directory_fails_simps:
  "directory_fails e1 e2 (Mkdirp p) = None"
  "directory_fails e1 e2 (Unlink p) =
     (if p = js ''/tmp/bmsurge-renderer/5d1f/extracted/z.mp3'' then Some e2 else None)"
  "directory_fails e1 e2 (sox_convert (js ''/tmp/bmsurge-renderer/5d1f/extracted'')
               (js ''/tmp/bmsurge-renderer/5d1f/render/song'') s) = (if s = js ''z.mp3'' then Some e1 else None)"
  by (simp_all add: directory_fails_def sox_convert_eq_iff sox_convert_not_Unlink [symmetric]
      sox_convert_not_Unlink)

section \<open>Properties of the pipeline and of the service\<close>

text \<open>
  Claim C2, as the specification states it, fails: when a destination path is given
  and the final move fails, the diagnostics carry both the path of the encoded file
  and the error description.
\<close>

theorem render_outcome_counterexample:
  "outFile (diag (render (example_env (command_fails (js ''mv'') mv_error)) (js ''http://a/1.zip'')
       (Some (js ''/out/song.mp3'')) no_diagnostics))
     = Some (js ''/tmp/bmsurge-renderer/5d1f/song.mp3'') \<and>
   error (diag (render (example_env (command_fails (js ''mv'') mv_error)) (js ''http://a/1.zip'')
       (Some (js ''/out/song.mp3'')) no_diagnostics))
     = Some (js ''Error: Command failed with exit code 1: mv'')"
  by (rule render_move_fails)

text \<open>
  Claim C2, amended. For diagnostics that start without an output path and without an
  error, \<open>render\<close> always sets the finish timestamp and at least one of the output
  path and the error description; without a destination path it sets exactly one of
  them; and it sets both only when a destination path was given and moving the encoded
  file there failed, the output path then being the encoded file in the working
  directory and the error the description of that failure. When the manifest has the
  song and the song has no chart, no output path is set and the error description is;
  when the six stages before the selection complete, it is
  \<open>Error: No usable chart found\<close> followed by the frames of the stack, and the last
  event recorded is \<open>render:indexed\<close>. The same holds, with \<open>Error: No song found\<close>,
  when the manifest does not have the song.
\<close>

theorem render_outcome:
  assumes "outFile d0 = None" and "error d0 = None"
  shows "finishedAt (diag (render env u out d0)) \<noteq> None \<and>
         (outFile (diag (render env u out d0)) \<noteq> None \<or> error (diag (render env u out d0)) \<noteq> None) \<and>
         (\<not> truthy out \<longrightarrow>
            (outFile (diag (render env u out d0)) = None) \<noteq> (error (diag (render env u out d0)) = None)) \<and>
         (outFile (diag (render env u out d0)) \<noteq> None \<and> error (diag (render env u out d0)) \<noteq> None \<longrightarrow>
            (\<exists>dest e. out = Some dest \<and> truthy_string dest \<and>
               fails env (move_output (new_workDir env) dest) = Some e \<and>
               error (diag (render env u out d0)) = Some (describe e) \<and>
               outFile (diag (render env u out d0)) = Some (new_workDir env @ js ''/song.mp3''))) \<and>
         (read_index env (new_workDir env @ js ''/render/index.json'') = Inr songs \<and>
          find (\<lambda>s. id' s = js ''song'') songs = Some song \<and> charts song = [] \<longrightarrow>
            outFile (diag (render env u out d0)) = None \<and>
            error (diag (render env u out d0)) \<noteq> None \<and>
            (run_stages env (take 6 (stages env u (new_workDir env))) (started env d0) = Done w1 \<longrightarrow>
               error (diag (render env u out d0)) =
                 Some (js ''Error: No usable chart found'' @ frames env) \<and>
               event_names (diag (render env u out d0)) =
                 event_names d0 @
                 [js ''render:start'', js ''render:downloaded'', js ''render:extracted'',
                  js ''render:unrelatedFilesRemoved'', js ''render:converted'',
                  js ''render:chartsMoved'', js ''render:indexed''])) \<and>
         (read_index env (new_workDir env @ js ''/render/index.json'') = Inr songs \<and>
          find (\<lambda>s. id' s = js ''song'') songs = None \<longrightarrow>
            outFile (diag (render env u out d0)) = None \<and>
            error (diag (render env u out d0)) \<noteq> None \<and>
            (run_stages env (take 6 (stages env u (new_workDir env))) (started env d0) = Done w1 \<longrightarrow>
               error (diag (render env u out d0)) =
                 Some (js ''Error: No song found'' @ frames env) \<and>
               event_names (diag (render env u out d0)) =
                 event_names d0 @
                 [js ''render:start'', js ''render:downloaded'', js ''render:extracted'',
                  js ''render:unrelatedFilesRemoved'', js ''render:converted'',
                  js ''render:chartsMoved'', js ''render:indexed'']))"
proof -
  let ?w0 = "started env d0"
  let ?t = "try_block env u out (new_workDir env) ?w0"
  let ?r = "diag (render env u out d0)"
  have r: "render env u out d0 = finally_block env (catch_block ?t)" by (simp add: render_def)
  from assms started_fields [of env d0] have s: "outFile (diag ?w0) = None" "error (diag ?w0) = None"
    by simp_all
  have fields: "finishedAt ?r \<noteq> None \<and>
         (outFile ?r \<noteq> None \<or> error ?r \<noteq> None) \<and>
         (\<not> truthy out \<longrightarrow> (outFile ?r = None) \<noteq> (error ?r = None)) \<and>
         (outFile ?r \<noteq> None \<and> error ?r \<noteq> None \<longrightarrow>
            (\<exists>dest e. out = Some dest \<and> truthy_string dest \<and>
               fails env (move_output (new_workDir env) dest) = Some e \<and>
               error ?r = Some (describe e) \<and>
               outFile ?r = Some (new_workDir env @ js ''/song.mp3'')))"
    using try_block_cases [of env u out "new_workDir env" ?w0]
  proof (elim disjE exE conjE)
    fix w'
    assume "?t = Done w'" "error (diag w') = error (diag ?w0)"
      "outFile (diag w') = Some (if truthy out then the out else new_workDir env @ js ''/song.mp3'')"
    with s show ?thesis unfolding r by (simp add: finally_fields catch_block_def)
  next
    fix e w' dest
    assume "?t = Throw e w'" "out = Some dest" "truthy_string dest"
      "fails env (move_output (new_workDir env) dest) = Some e"
      "outFile (diag w') = Some (new_workDir env @ js ''/song.mp3'')"
    then show ?thesis unfolding r by (simp add: finally_fields catch_Throw_fields truthy_def)
  next
    fix e w'
    assume "?t = Throw e w'" "outFile (diag w') = outFile (diag ?w0)"
    with s show ?thesis unfolding r by (simp add: finally_fields catch_Throw_fields)
  qed
  have names: "js ''render:start'' # take 6 (map snd (stages env u (new_workDir env))) =
      [js ''render:start'', js ''render:downloaded'', js ''render:extracted'',
       js ''render:unrelatedFilesRemoved'', js ''render:converted'',
       js ''render:chartsMoved'', js ''render:indexed'']"
    by (simp add: stage_names)
  have no_chart: "read_index env (new_workDir env @ js ''/render/index.json'') = Inr songs \<and>
          find (\<lambda>s. id' s = js ''song'') songs = Some song \<and> charts song = [] \<longrightarrow>
            outFile ?r = None \<and> error ?r \<noteq> None \<and>
            (run_stages env (take 6 (stages env u (new_workDir env))) (started env d0) = Done w1 \<longrightarrow>
               error ?r = Some (js ''Error: No usable chart found'' @ frames env) \<and>
               event_names ?r =
                 event_names d0 @
                 [js ''render:start'', js ''render:downloaded'', js ''render:extracted'',
                  js ''render:unrelatedFilesRemoved'', js ''render:converted'',
                  js ''render:chartsMoved'', js ''render:indexed''])"
  proof
    assume h: "read_index env (new_workDir env @ js ''/render/index.json'') = Inr songs \<and>
          find (\<lambda>s. id' s = js ''song'') songs = Some song \<and> charts song = []"
    then have "select_chart env (new_workDir env) w =
        Throw (new_Error (frames env) (js ''No usable chart found'')) w" for w
      by (simp add: select_chart_def)
    from render_no_chart [of env "js ''No usable chart found''" u out d0 w1, OF this] assms(1)
    show "outFile ?r = None \<and> error ?r \<noteq> None \<and>
            (run_stages env (take 6 (stages env u (new_workDir env))) (started env d0) = Done w1 \<longrightarrow>
               error ?r = Some (js ''Error: No usable chart found'' @ frames env) \<and>
               event_names ?r =
                 event_names d0 @
                 [js ''render:start'', js ''render:downloaded'', js ''render:extracted'',
                  js ''render:unrelatedFilesRemoved'', js ''render:converted'',
                  js ''render:chartsMoved'', js ''render:indexed''])"
      unfolding names by (simp add: js_append)
  qed
  have no_song: "read_index env (new_workDir env @ js ''/render/index.json'') = Inr songs \<and>
          find (\<lambda>s. id' s = js ''song'') songs = None \<longrightarrow>
            outFile ?r = None \<and> error ?r \<noteq> None \<and>
            (run_stages env (take 6 (stages env u (new_workDir env))) (started env d0) = Done w1 \<longrightarrow>
               error ?r = Some (js ''Error: No song found'' @ frames env) \<and>
               event_names ?r =
                 event_names d0 @
                 [js ''render:start'', js ''render:downloaded'', js ''render:extracted'',
                  js ''render:unrelatedFilesRemoved'', js ''render:converted'',
                  js ''render:chartsMoved'', js ''render:indexed''])"
  proof
    assume h: "read_index env (new_workDir env @ js ''/render/index.json'') = Inr songs \<and>
          find (\<lambda>s. id' s = js ''song'') songs = None"
    then have "select_chart env (new_workDir env) w =
        Throw (new_Error (frames env) (js ''No song found'')) w" for w
      by (simp add: select_chart_def)
    from render_no_chart [of env "js ''No song found''" u out d0 w1, OF this] assms(1)
    show "outFile ?r = None \<and> error ?r \<noteq> None \<and>
            (run_stages env (take 6 (stages env u (new_workDir env))) (started env d0) = Done w1 \<longrightarrow>
               error ?r = Some (js ''Error: No song found'' @ frames env) \<and>
               event_names ?r =
                 event_names d0 @
                 [js ''render:start'', js ''render:downloaded'', js ''render:extracted'',
                  js ''render:unrelatedFilesRemoved'', js ''render:converted'',
                  js ''render:chartsMoved'', js ''render:indexed''])"
      unfolding names by (simp add: js_append)
  qed
  from fields no_chart no_song show ?thesis by (intro conjI) simp_all
qed

text \<open>
  The example with a failing move, the same environment without a destination path,
  a manifest whose song has no chart, and a manifest without the song.
\<close>

theorem render_outcome_witness:
  "finishedAt (diag (render (example_env (command_fails (js ''mv'') mv_error)) (js ''http://a/1.zip'')
       (Some (js ''/out/song.mp3'')) no_diagnostics)) \<noteq> None \<and>
   fails (example_env (command_fails (js ''mv'') mv_error))
     (move_output (new_workDir (example_env (command_fails (js ''mv'') mv_error))) (js ''/out/song.mp3''))
     = Some mv_error \<and>
   error (diag (render (example_env (command_fails (js ''mv'') mv_error)) (js ''http://a/1.zip'')
       (Some (js ''/out/song.mp3'')) no_diagnostics)) = Some (describe mv_error) \<and>
   ((outFile (diag (render (example_env (command_fails (js ''mv'') mv_error)) (js ''http://a/1.zip'')
       None no_diagnostics)) = None) \<noteq>
    (error (diag (render (example_env (command_fails (js ''mv'') mv_error)) (js ''http://a/1.zip'')
       None no_diagnostics)) = None)) \<and>
   outFile (diag (render (index_env [\<lparr>id' = js ''song'', charts = []\<rparr>]) (js ''http://a/1.zip'')
       None no_diagnostics)) = None \<and>
   error (diag (render (index_env [\<lparr>id' = js ''song'', charts = []\<rparr>]) (js ''http://a/1.zip'')
       None no_diagnostics)) = Some (js ''Error: No usable chart found'') \<and>
   event_names (diag (render (index_env [\<lparr>id' = js ''song'', charts = []\<rparr>]) (js ''http://a/1.zip'')
       None no_diagnostics)) =
     [js ''render:start'', js ''render:downloaded'', js ''render:extracted'',
      js ''render:unrelatedFilesRemoved'', js ''render:converted'',
      js ''render:chartsMoved'', js ''render:indexed''] \<and>
   outFile (diag (render (index_env []) (js ''http://a/1.zip'') None no_diagnostics)) = None \<and>
   error (diag (render (index_env []) (js ''http://a/1.zip'') None no_diagnostics))
     = Some (js ''Error: No song found'')"
proof -
  let ?env = "example_env (command_fails (js ''mv'') mv_error)"
  let ?u = "js ''http://a/1.zip''"
  have n: "outFile no_diagnostics = None" "error no_diagnostics = None"
    by (simp_all add: no_diagnostics_def)
  note with_dest = render_outcome [OF n, of ?env ?u "Some (js ''/out/song.mp3'')"]
  note without = render_outcome [OF n, of ?env ?u None]
  have both: "outFile (diag (render ?env ?u (Some (js ''/out/song.mp3'')) no_diagnostics)) \<noteq> None \<and>
      error (diag (render ?env ?u (Some (js ''/out/song.mp3'')) no_diagnostics)) \<noteq> None"
    using render_move_fails [of ?u] by simp
  with with_dest obtain dest e where
    "Some (js ''/out/song.mp3'') = Some dest"
    "fails ?env (move_output (new_workDir ?env) dest) = Some e"
    "error (diag (render ?env ?u (Some (js ''/out/song.mp3'')) no_diagnostics)) = Some (describe e)"
    by blast
  moreover have "fails ?env (move_output (new_workDir ?env) (js ''/out/song.mp3'')) = Some mv_error"
    by (simp add: example_fails move_output_def command_fails_simps)
  ultimately have a: "fails ?env (move_output (new_workDir ?env) (js ''/out/song.mp3'')) = Some mv_error \<and>
      error (diag (render ?env ?u (Some (js ''/out/song.mp3'')) no_diagnostics)) = Some (describe mv_error)"
    by simp
  have "\<not> truthy None" by (simp add: truthy_def)
  with without have b: "(outFile (diag (render ?env ?u None no_diagnostics)) = None) \<noteq>
      (error (diag (render ?env ?u None no_diagnostics)) = None)"
    by blast
  from with_dest have f: "finishedAt (diag (render ?env ?u (Some (js ''/out/song.mp3'')) no_diagnostics)) \<noteq> None"
    by blast
  let ?song = "\<lparr>id' = js ''song'', charts = []\<rparr>"
  let ?e1 = "index_env [?song]"
  obtain w1 where s1: "run_stages ?e1 (take 6 (stages ?e1 ?u (new_workDir ?e1)))
      (started ?e1 no_diagnostics) = Done w1"
    using index_env_six_stages by blast
  have h1: "read_index ?e1 (new_workDir ?e1 @ js ''/render/index.json'') = Inr [?song] \<and>
      find (\<lambda>s. id' s = js ''song'') [?song] = Some ?song \<and> charts ?song = []"
    by (simp add: index_env_reads(1))
  from render_outcome [OF n, of ?e1 ?u None "[?song]" ?song w1] h1 s1
  have c: "outFile (diag (render ?e1 ?u None no_diagnostics)) = None \<and>
      error (diag (render ?e1 ?u None no_diagnostics)) = Some (js ''Error: No usable chart found'') \<and>
      event_names (diag (render ?e1 ?u None no_diagnostics)) =
        [js ''render:start'', js ''render:downloaded'', js ''render:extracted'',
         js ''render:unrelatedFilesRemoved'', js ''render:converted'',
         js ''render:chartsMoved'', js ''render:indexed'']"
    by (simp add: index_env_reads(2) event_names_def no_diagnostics_def)
  let ?e2 = "index_env []"
  obtain w2 where s2: "run_stages ?e2 (take 6 (stages ?e2 ?u (new_workDir ?e2)))
      (started ?e2 no_diagnostics) = Done w2"
    using index_env_six_stages by blast
  have h2: "read_index ?e2 (new_workDir ?e2 @ js ''/render/index.json'') = Inr [] \<and>
      find (\<lambda>s. id' s = js ''song'') [] = None"
    by (simp add: index_env_reads(1))
  from render_outcome [OF n, of ?e2 ?u None "[]" _ w2] h2 s2
  have d: "outFile (diag (render ?e2 ?u None no_diagnostics)) = None \<and>
      error (diag (render ?e2 ?u None no_diagnostics)) = Some (js ''Error: No song found'')"
    by (simp add: index_env_reads(2))
  from f a b c d show ?thesis by (intro conjI) simp_all
qed

text \<open>
  Claim C3. When the manifest has the song and its list of charts is not empty, the
  stage selects the chart at index \<open>(N - 1) div 2\<close> of the sorted list, where \<open>N\<close> is
  the number of charts; the sorted list is ascending in the note count and has the
  same charts as the manifest, and the index is within it.
\<close>

theorem select_median_chart:
  assumes "read_index env (workDir @ js ''/render/index.json'') = Inr songs"
    and "find (\<lambda>s. id' s = js ''song'') songs = Some song"
    and "charts song \<noteq> []"
  shows "select_chart env workDir w =
           Done (w\<lparr>selectedChart :=
                     Some (sorted_charts (charts song) ! ((length (charts song) - 1) div 2))\<rparr>) \<and>
         sorted (map noteCount (sorted_charts (charts song))) \<and>
         mset (sorted_charts (charts song)) = mset (charts song) \<and>
         (length (charts song) - 1) div 2 < length (sorted_charts (charts song)) \<and>
         sorted_charts (charts song) ! ((length (charts song) - 1) div 2) \<in> set (charts song)"
proof -
  let ?cs = "charts song"
  have s: "sorted (map noteCount (sorted_charts ?cs))"
    by (simp add: sorted_charts_sort_key)
  have m: "mset (sorted_charts ?cs) = mset ?cs"
    by (simp add: sorted_charts_sort_key)
  have l: "length (sorted_charts ?cs) = length ?cs"
    by (simp add: sorted_charts_sort_key)
  from assms(3) have i: "(length ?cs - 1) div 2 < length (sorted_charts ?cs)"
    unfolding l by (cases ?cs) auto
  then have "sorted_charts ?cs ! ((length ?cs - 1) div 2) \<in> set (sorted_charts ?cs)"
    by (rule nth_mem)
  then have e: "sorted_charts ?cs ! ((length ?cs - 1) div 2) \<in> set ?cs"
    by (simp add: sorted_charts_sort_key)
  from assms have "select_chart env workDir w =
           Done (w\<lparr>selectedChart := Some (sorted_charts ?cs ! ((length ?cs - 1) div 2))\<rparr>)"
    by (simp add: select_chart_def median_chart_def)
  with s m i e show ?thesis by simp
qed

text \<open>
  The example of the claim: note counts 5, 2, 9, 2 sort to 2, 2, 5, 9 and the chart
  at index 1 is selected; the sort being stable, it is the later of the two charts
  with 2 notes.
\<close>

theorem select_median_chart_witness:
  "map noteCount example_charts = [5, 2, 9, 2] \<and>
   map noteCount (sorted_charts example_charts) = [2, 2, 5, 9] \<and>
   select_chart (example_env (\<lambda>a. None)) (js ''/tmp/bmsurge-renderer/5d1f'')
       (started (example_env (\<lambda>a. None)) no_diagnostics) =
     Done ((started (example_env (\<lambda>a. None)) no_diagnostics)
             \<lparr>selectedChart := Some (sorted_charts example_charts ! 1)\<rparr>) \<and>
   sorted_charts example_charts ! 1 = \<lparr>chart_file = js ''d.sjis.bms'', noteCount = 2\<rparr>"
proof -
  let ?env = "example_env (\<lambda>a. None)"
  let ?song = "\<lparr>id' = js ''song'', charts = example_charts\<rparr>"
  have r: "read_index ?env (js ''/tmp/bmsurge-renderer/5d1f'' @ js ''/render/index.json'') = Inr [?song]"
    by (simp add: example_reads)
  have f: "find (\<lambda>s. id' s = js ''song'') [?song] = Some ?song" by simp
  have c: "charts ?song \<noteq> []" by (simp add: example_reads)
  have l: "(length (charts ?song) - 1) div 2 = 1" by (simp add: example_charts_def)
  from select_median_chart [OF r f c, of "started ?env no_diagnostics"]
  have "select_chart ?env (js ''/tmp/bmsurge-renderer/5d1f'') (started ?env no_diagnostics) =
     Done ((started ?env no_diagnostics)\<lparr>selectedChart := Some (sorted_charts example_charts ! 1)\<rparr>)"
    unfolding l by simp
  moreover have "map noteCount example_charts = [5, 2, 9, 2]" by (simp add: example_charts_def)
  ultimately show ?thesis by (simp add: sorted_example_charts)
qed

text \<open>
  Claim C5. The stage does not do what the claim says. Of the files \<open>a.bms\<close>,
  \<open>b.wav.txt\<close> and \<open>c.txt\<close> it removes only \<open>c.txt\<close>: the extension of
  \<open>b.wav.txt\<close> is \<open>txt\<close>, which is not on the allow-list, yet the file is kept,
  since the pattern has no anchor at the end and matches \<open>.wav\<close> inside the name. The
  patterns that list the sounds and the charts later in the same function,
  \<open>*.{wav,mp3,ogg}\<close> and \<open>*.{bm[sel],pms,bmson}\<close>, match the extension itself.
\<close>

theorem prune_keeps_other_extension:
  "\<not> allowed_extension (js ''b.wav.txt'') \<and>
   remove_unrelated
     ((example_env (\<lambda>a. None))\<lparr>glob_sync := \<lambda>pattern cwd. Inr [js ''a.bms'', js ''b.wav.txt'', js ''c.txt'']\<rparr>)
     (js ''/tmp/bmsurge-renderer/5d1f'')
     \<lparr>diag = no_diagnostics, trace = [], clock_reads = 0, selectedChart = None\<rparr> =
   Done \<lparr>diag = no_diagnostics,
         trace = [Unlink (js ''/tmp/bmsurge-renderer/5d1f/extracted/c.txt'')],
         clock_reads = 0, selectedChart = None\<rparr>"
  by (simp add: not_allowed_example remove_unrelated_def chart_or_audio_examples perform_def
      example_env_def js_append)

text \<open>
  What the loop of the stage computes: when no removal fails, it removes exactly the
  listed files whose path has no dot followed by one of the words of the allow-list,
  in either case of its letters, at any position. Every file whose extension is on the
  allow-list is therefore kept; a file is removed only if its extension is not on the
  list.
\<close>

lemma prune_removes_unmatched:
  assumes "glob_sync env (js ''**/*'') (workDir @ js ''/extracted'') = Inr allFiles"
    and "\<forall>f\<in>set allFiles. fails env (Unlink (workDir @ js ''/extracted'' @ js ''/'' @ f)) = None"
  shows "remove_unrelated env workDir w =
           Done (w\<lparr>trace := trace w @
                     map (\<lambda>f. Unlink (workDir @ js ''/extracted'' @ js ''/'' @ f))
                       (filter (\<lambda>f. \<not> chart_or_audio f) allFiles)\<rparr>) \<and>
         (\<forall>f. chart_or_audio f \<longleftrightarrow>
            (\<exists>pre word rest. f = pre @ 46 # rest \<and> word \<in> set alternatives \<and>
               starts_with_ci word rest)) \<and>
         (\<forall>f. allowed_extension f \<longrightarrow> chart_or_audio f)"
proof -
  from assms(2) have "\<forall>f\<in>set allFiles.
      fails env (Unlink ((workDir @ js ''/extracted'') @ js ''/'' @ f)) = None" by simp
  from remove_each_ok [OF this, of w] assms(1)
  have "remove_unrelated env workDir w =
           Done (w\<lparr>trace := trace w @
                     map (\<lambda>f. Unlink (workDir @ js ''/extracted'' @ js ''/'' @ f))
                       (filter (\<lambda>f. \<not> chart_or_audio f) allFiles)\<rparr>)"
    by (simp add: remove_unrelated_def)
  then show ?thesis using chart_or_audio_iff allowed_extension_kept by blast
qed

text \<open>
  The example of the specification: of \<open>a.bms\<close>, \<open>b.txt\<close> and \<open>c.wav\<close> only
  \<open>b.txt\<close> is removed.
\<close>

lemma prune_removes_unmatched_example:
  "remove_unrelated
     ((example_env (\<lambda>a. None))\<lparr>glob_sync := \<lambda>pattern cwd. Inr [js ''a.bms'', js ''b.txt'', js ''c.wav'']\<rparr>)
     (js ''/tmp/bmsurge-renderer/5d1f'')
     \<lparr>diag = no_diagnostics, trace = [], clock_reads = 0, selectedChart = None\<rparr> =
   Done \<lparr>diag = no_diagnostics,
         trace = [Unlink (js ''/tmp/bmsurge-renderer/5d1f/extracted/b.txt'')],
         clock_reads = 0, selectedChart = None\<rparr> \<and>
   allowed_extension (js ''SONG.BmS'') \<and> chart_or_audio (js ''SONG.BmS'')"
proof -
  let ?env = "(example_env (\<lambda>a. None))\<lparr>glob_sync := \<lambda>pattern cwd. Inr [js ''a.bms'', js ''b.txt'', js ''c.wav'']\<rparr>"
  let ?w = "\<lparr>diag = no_diagnostics, trace = [], clock_reads = 0, selectedChart = None\<rparr>"
  have g: "glob_sync ?env (js ''**/*'') (js ''/tmp/bmsurge-renderer/5d1f'' @ js ''/extracted'')
      = Inr [js ''a.bms'', js ''b.txt'', js ''c.wav'']" by simp
  have u: "\<forall>f\<in>set [js ''a.bms'', js ''b.txt'', js ''c.wav''].
      fails ?env (Unlink (js ''/tmp/bmsurge-renderer/5d1f'' @ js ''/extracted'' @ js ''/'' @ f)) = None"
    by (simp add: example_env_def)
  note h = prune_removes_unmatched [OF g u, of ?w]
  have a: "allowed_extension (js ''SONG.BmS'')"
    by (simp add: allowed_extension_def ends_with_ci_def js_def alternatives_def ascii_upper_def)
  with h have k: "chart_or_audio (js ''SONG.BmS'')" by blast
  from h have "remove_unrelated ?env (js ''/tmp/bmsurge-renderer/5d1f'') ?w =
      Done (?w\<lparr>trace := trace ?w @
                     map (\<lambda>f. Unlink (js ''/tmp/bmsurge-renderer/5d1f'' @ js ''/extracted'' @ js ''/'' @ f))
                       (filter (\<lambda>f. \<not> chart_or_audio f) [js ''a.bms'', js ''b.txt'', js ''c.wav''])\<rparr>)"
    by blast
  then have "remove_unrelated ?env (js ''/tmp/bmsurge-renderer/5d1f'') ?w =
      Done \<lparr>diag = no_diagnostics,
         trace = [Unlink (js ''/tmp/bmsurge-renderer/5d1f/extracted/b.txt'')],
         clock_reads = 0, selectedChart = None\<rparr>"
    by (simp add: chart_or_audio_examples js_append)
  with a k show ?thesis by blast
qed

text \<open>
  Claim C6. When the stages before some stage complete and the work of that stage
  throws \<open>e\<close> (a process that fails or runs into its timeout, or any other error),
  the events of the diagnostics are \<open>render:start\<close> and the events of the stages
  before it, in order; the event of the failing stage and of every later stage is not
  among them; the error description is the stack text of \<open>e\<close>; no output path is set,
  and the finish timestamp is. When all stages complete and the final move throws
  \<open>e\<close>, the events of all stages are recorded and the error description is again the
  stack text of \<open>e\<close>. The \<open>try\<close> block throws in no other way.
\<close>

theorem failure_short_circuits:
  "(stages env u (new_workDir env) = pre @ (work, name) # post \<and>
    run_stages env pre (started env d0) = Done w1 \<and> work w1 = Throw e w2 \<longrightarrow>
      event_names (diag (render env u out d0)) = event_names d0 @ js ''render:start'' # map snd pre \<and>
      (\<forall>n\<in>set (name # map snd post). n \<notin> set (js ''render:start'' # map snd pre)) \<and>
      error (diag (render env u out d0)) = Some (stack e) \<and>
      outFile (diag (render env u out d0)) = outFile d0 \<and>
      finishedAt (diag (render env u out d0)) \<noteq> None) \<and>
   (run_stages env (stages env u (new_workDir env)) (started env d0) = Done w1 \<and>
    set_outFile env out (new_workDir env) w1 = Throw e w2 \<longrightarrow>
      event_names (diag (render env u out d0)) =
        event_names d0 @ js ''render:start'' # map snd (stages env u (new_workDir env)) \<and>
      error (diag (render env u out d0)) = Some (stack e) \<and>
      finishedAt (diag (render env u out d0)) \<noteq> None) \<and>
   (try_block env u out (new_workDir env) (started env d0) = Throw e w2 \<longrightarrow>
      (\<exists>pre work name post w1. stages env u (new_workDir env) = pre @ (work, name) # post \<and>
          run_stages env pre (started env d0) = Done w1 \<and> work w1 = Throw e w2) \<or>
      (\<exists>w1. run_stages env (stages env u (new_workDir env)) (started env d0) = Done w1 \<and>
          set_outFile env out (new_workDir env) w1 = Throw e w2))"
proof -
  have stage: "stages env u (new_workDir env) = pre @ (work, name) # post \<and>
    run_stages env pre (started env d0) = Done w1 \<and> work w1 = Throw e w2 \<longrightarrow>
      event_names (diag (render env u out d0)) = event_names d0 @ js ''render:start'' # map snd pre \<and>
      (\<forall>n\<in>set (name # map snd post). n \<notin> set (js ''render:start'' # map snd pre)) \<and>
      error (diag (render env u out d0)) = Some (stack e) \<and>
      outFile (diag (render env u out d0)) = outFile d0 \<and>
      finishedAt (diag (render env u out d0)) \<noteq> None"
  proof (rule impI)
    assume h: "stages env u (new_workDir env) = pre @ (work, name) # post \<and>
      run_stages env pre (started env d0) = Done w1 \<and> work w1 = Throw e w2"
    let ?w0 = "started env d0"
    from h have t: "run_stages env (stages env u (new_workDir env)) ?w0 = Throw e w2"
      by (simp add: run_stages_append)
    then have r: "render env u out d0 = finally_block env (catch_block (Throw e w2))"
      by (simp add: render_def try_block_def)
    from quiet_stages [of env u "new_workDir env"] h
    have qp: "list_all (\<lambda>st. quiet (fst st)) pre" and q: "quiet work" by simp_all
    from h have p: "run_stages env pre ?w0 = Done w1" by simp
    note a = run_stages_Done [OF qp p]
    from quietD [OF q, of w1 w2 e] h have
      b: "events (diag w2) = events (diag w1)" "outFile (diag w2) = outFile (diag w1)" by simp_all
    from b(1) have b': "event_names (diag w2) = event_names (diag w1)" by (simp add: event_names_def)
    have ev: "event_names (diag (render env u out d0)) = event_names d0 @ js ''render:start'' # map snd pre"
      unfolding r using a b' started_fields [of env d0]
      by (simp add: event_names_def finally_fields catch_Throw_fields)
    from h have s: "stages env u (new_workDir env) = pre @ (work, name) # post" by simp
    have "distinct (js ''render:start'' # map snd pre @ name # map snd post)"
      using stage_names_distinct [of env u "new_workDir env"] unfolding s by simp
    then have d: "\<forall>n\<in>set (name # map snd post). n \<notin> set (js ''render:start'' # map snd pre)"
      by (simp only: distinct.simps distinct_append set_simps set_append) blast
    have "error (diag (render env u out d0)) = Some (stack e) \<and>
           outFile (diag (render env u out d0)) = outFile d0 \<and>
           finishedAt (diag (render env u out d0)) \<noteq> None"
      unfolding r using a b(2) started_fields [of env d0]
      by (simp add: finally_fields catch_Throw_fields describe_def)
    with ev d show "event_names (diag (render env u out d0)) = event_names d0 @ js ''render:start'' # map snd pre \<and>
        (\<forall>n\<in>set (name # map snd post). n \<notin> set (js ''render:start'' # map snd pre)) \<and>
        error (diag (render env u out d0)) = Some (stack e) \<and>
        outFile (diag (render env u out d0)) = outFile d0 \<and>
        finishedAt (diag (render env u out d0)) \<noteq> None" by simp
  qed
  have move: "run_stages env (stages env u (new_workDir env)) (started env d0) = Done w1 \<and>
    set_outFile env out (new_workDir env) w1 = Throw e w2 \<longrightarrow>
      event_names (diag (render env u out d0)) =
        event_names d0 @ js ''render:start'' # map snd (stages env u (new_workDir env)) \<and>
      error (diag (render env u out d0)) = Some (stack e) \<and>
      finishedAt (diag (render env u out d0)) \<noteq> None"
  proof (rule impI)
    assume h: "run_stages env (stages env u (new_workDir env)) (started env d0) = Done w1 \<and>
      set_outFile env out (new_workDir env) w1 = Throw e w2"
    then have r: "render env u out d0 = finally_block env (catch_block (Throw e w2))"
      by (simp add: render_def try_block_def)
    from h have p: "run_stages env (stages env u (new_workDir env)) (started env d0) = Done w1" by simp
    note a = run_stages_Done [OF quiet_stages p]
    from set_outFile_cases [of env out "new_workDir env" w1] h
    have b: "events (diag w2) = events (diag w1)" by auto
    show "event_names (diag (render env u out d0)) =
          event_names d0 @ js ''render:start'' # map snd (stages env u (new_workDir env)) \<and>
        error (diag (render env u out d0)) = Some (stack e) \<and>
        finishedAt (diag (render env u out d0)) \<noteq> None"
      unfolding r using a b started_fields [of env d0]
      by (simp add: event_names_def finally_fields catch_Throw_fields describe_def)
  qed
  have either: "try_block env u out (new_workDir env) (started env d0) = Throw e w2 \<longrightarrow>
      (\<exists>pre work name post w1. stages env u (new_workDir env) = pre @ (work, name) # post \<and>
          run_stages env pre (started env d0) = Done w1 \<and> work w1 = Throw e w2) \<or>
      (\<exists>w1. run_stages env (stages env u (new_workDir env)) (started env d0) = Done w1 \<and>
          set_outFile env out (new_workDir env) w1 = Throw e w2)"
  proof (rule impI)
    assume h: "try_block env u out (new_workDir env) (started env d0) = Throw e w2"
    show "(\<exists>pre work name post w1. stages env u (new_workDir env) = pre @ (work, name) # post \<and>
            run_stages env pre (started env d0) = Done w1 \<and> work w1 = Throw e w2) \<or>
        (\<exists>w1. run_stages env (stages env u (new_workDir env)) (started env d0) = Done w1 \<and>
            set_outFile env out (new_workDir env) w1 = Throw e w2)"
    proof (cases "run_stages env (stages env u (new_workDir env)) (started env d0)")
      case (Done w1)
      with h have "set_outFile env out (new_workDir env) w1 = Throw e w2"
        by (simp add: try_block_def)
      with Done show ?thesis by blast
    next
      case (Throw e1 w1)
      with h have "run_stages env (stages env u (new_workDir env)) (started env d0) = Throw e w2"
        by (simp add: try_block_def)
      from run_stages_Throw [OF this] show ?thesis by blast
    qed
  qed
  from stage move either show ?thesis by (intro conjI)
qed

text \<open>
  The example of the claim: the renderer runs into its timeout. The events end with
  \<open>render:chartSelected\<close>, \<open>render:normalized\<close> is not recorded, and the error
  description is the text of the timeout error. And the example with a failing move.
\<close>

theorem failure_short_circuits_witness:
  "event_names (diag (render (example_env (command_fails (js ''bms-renderer'') timeout_error))
      (js ''http://a/1.zip'') None no_diagnostics)) =
     [js ''render:start'', js ''render:downloaded'', js ''render:extracted'',
      js ''render:unrelatedFilesRemoved'', js ''render:converted'', js ''render:chartsMoved'',
      js ''render:indexed'', js ''render:chartSelected''] \<and>
   js ''render:normalized'' \<notin> set (event_names (diag (render
      (example_env (command_fails (js ''bms-renderer'') timeout_error))
      (js ''http://a/1.zip'') None no_diagnostics))) \<and>
   error (diag (render (example_env (command_fails (js ''bms-renderer'') timeout_error))
      (js ''http://a/1.zip'') None no_diagnostics)) =
     Some (js ''Error: Command timed out after 300000 milliseconds: bms-renderer'') \<and>
   sublist (js ''timed out'')
     (js ''Error: Command timed out after 300000 milliseconds: bms-renderer'') \<and>
   event_names (diag (render (example_env (command_fails (js ''mv'') mv_error))
      (js ''http://a/1.zip'') (Some (js ''/out/song.mp3'')) no_diagnostics)) =
     [js ''render:start'', js ''render:downloaded'', js ''render:extracted'',
      js ''render:unrelatedFilesRemoved'', js ''render:converted'', js ''render:chartsMoved'',
      js ''render:indexed'', js ''render:chartSelected'', js ''render:rendered'',
      js ''render:normalized'', js ''render:trimmed'', js ''render:encoded''] \<and>
   error (diag (render (example_env (command_fails (js ''mv'') mv_error))
      (js ''http://a/1.zip'') (Some (js ''/out/song.mp3'')) no_diagnostics)) =
     Some (js ''Error: Command failed with exit code 1: mv'')"
proof -
  let ?env = "example_env (command_fails (js ''bms-renderer'') timeout_error)"
  let ?u = "js ''http://a/1.zip''"
  let ?wd = "new_workDir ?env"
  let ?pre = "[(download ?env ?u ?wd, js ''render:downloaded''),
      (extract_archive ?env ?wd, js ''render:extracted''),
      (remove_unrelated ?env ?wd, js ''render:unrelatedFilesRemoved''),
      (prepareSounds ?env (?wd @ js ''/extracted'') (?wd @ js ''/render/song''),
         js ''render:converted''),
      (move_charts ?env ?wd, js ''render:chartsMoved''),
      (index ?env ?wd, js ''render:indexed''),
      (select_chart ?env ?wd, js ''render:chartSelected'')]"
  have "\<exists>w'. run_stages ?env ?pre (started ?env no_diagnostics) = Done w' \<and>
      selectedChart w' = Some (median_chart example_charts)"
    by (rule first_stages_example) (simp_all add: command_fails_simps js_eq_iff)
  then obtain w1 where p: "run_stages ?env ?pre (started ?env no_diagnostics) = Done w1"
    and s: "selectedChart w1 = Some (median_chart example_charts)" by blast
  from render_chart_throws [OF s, of ?env timeout_error ?wd] obtain w2 where
    t: "render_chart ?env ?wd w1 = Throw timeout_error w2"
    by (auto simp: example_fails command_fails_simps)
  note stage_case = failure_short_circuits [where out = None, THEN conjunct1, THEN mp,
      OF conjI [OF stages_split conjI [OF p t]]]
  from stage_case
  have h: "event_names (diag (render ?env ?u None no_diagnostics)) =
      event_names no_diagnostics @ js ''render:start'' # map snd ?pre \<and>
      js ''render:normalized'' \<notin> set (js ''render:start'' # map snd ?pre) \<and>
      error (diag (render ?env ?u None no_diagnostics)) = Some (stack timeout_error)"
    by simp
  then have ev': "event_names (diag (render ?env ?u None no_diagnostics)) =
     [js ''render:start'', js ''render:downloaded'', js ''render:extracted'',
      js ''render:unrelatedFilesRemoved'', js ''render:converted'', js ''render:chartsMoved'',
      js ''render:indexed'', js ''render:chartSelected'']"
    by (simp add: event_names_def no_diagnostics_def)
  from h have no: "js ''render:normalized'' \<notin> set (event_names (diag (render ?env ?u None no_diagnostics)))"
    by (simp add: event_names_def no_diagnostics_def)
  from h have er: "error (diag (render ?env ?u None no_diagnostics)) =
     Some (js ''Error: Command timed out after 300000 milliseconds: bms-renderer'')"
    by (simp add: timeout_error_def)
  let ?env2 = "example_env (command_fails (js ''mv'') mv_error)"
  let ?wd2 = "new_workDir ?env2"
  have "\<exists>w'. run_stages ?env2 (stages ?env2 ?u ?wd2) (started ?env2 no_diagnostics) = Done w'"
    by (rule stages_example_complete) (simp_all add: command_fails_simps js_eq_iff)
  then obtain v1 where r: "run_stages ?env2 (stages ?env2 ?u ?wd2) (started ?env2 no_diagnostics) = Done v1"
    by blast
  have m: "set_outFile ?env2 (Some (js ''/out/song.mp3'')) ?wd2 v1
      = Throw mv_error
          (v1\<lparr>diag := (diag v1)\<lparr>outFile := Some (?wd2 @ js ''/song.mp3'')\<rparr>,
              trace := trace v1 @ [move_output ?wd2 (js ''/out/song.mp3'')]\<rparr>)"
    by (simp add: set_outFile_def perform_def move_output_def example_fails
        command_fails_simps truthy_string_def js_Nil_iff)
  note move_case = failure_short_circuits [THEN conjunct2, THEN conjunct1, THEN mp,
      OF conjI [OF r m]]
  from move_case
  have h2: "event_names (diag (render ?env2 ?u (Some (js ''/out/song.mp3'')) no_diagnostics)) =
        event_names no_diagnostics @ js ''render:start'' # map snd (stages ?env2 ?u ?wd2) \<and>
      error (diag (render ?env2 ?u (Some (js ''/out/song.mp3'')) no_diagnostics)) = Some (stack mv_error)"
    by simp
  then have ev2: "event_names (diag (render ?env2 ?u (Some (js ''/out/song.mp3'')) no_diagnostics)) =
     [js ''render:start'', js ''render:downloaded'', js ''render:extracted'',
      js ''render:unrelatedFilesRemoved'', js ''render:converted'', js ''render:chartsMoved'',
      js ''render:indexed'', js ''render:chartSelected'', js ''render:rendered'',
      js ''render:normalized'', js ''render:trimmed'', js ''render:encoded'']"
    by (simp add: stage_names event_names_def no_diagnostics_def)
  from h2 have er2: "error (diag (render ?env2 ?u (Some (js ''/out/song.mp3'')) no_diagnostics)) =
     Some (js ''Error: Command failed with exit code 1: mv'')"
    by (simp add: mv_error_def)
  from ev' no er sublist_timed_out ev2 er2 show ?thesis by blast
qed

text \<open>
  Claim C7, as the specification states it, fails: when the removal of a source file
  throws, \<open>prepareSounds\<close> throws. Here the only entry listed, \<open>z.mp3\<close>, is a
  directory: the converter fails on it, which is logged, and its removal throws.
\<close>

theorem stage_never_fails_counterexample:
  "prepareSounds
     ((example_env (directory_fails sox_error unlink_error))
        \<lparr>glob_sync := \<lambda>pattern cwd. Inr [js ''z.mp3'']\<rparr>)
     (js ''/tmp/bmsurge-renderer/5d1f/extracted'') (js ''/tmp/bmsurge-renderer/5d1f/render/song'')
     \<lparr>diag = no_diagnostics, trace = [], clock_reads = 0, selectedChart = None\<rparr> =
   Throw unlink_error
     \<lparr>diag = no_diagnostics,
      trace =
        [Mkdirp (js ''/tmp/bmsurge-renderer/5d1f/render/song''),
         sox_convert (js ''/tmp/bmsurge-renderer/5d1f/extracted'')
           (js ''/tmp/bmsurge-renderer/5d1f/render/song'') (js ''z.mp3''),
         Progress 1 1 (js ''z.mp3'') (js ''error''),
         Unlink (js ''/tmp/bmsurge-renderer/5d1f/extracted/z.mp3'')],
      clock_reads = 0, selectedChart = None\<rparr>"
proof -
  have p: "path_join (js ''/tmp/bmsurge-renderer/5d1f/extracted'') (js ''z.mp3'')
             = js ''/tmp/bmsurge-renderer/5d1f/extracted/z.mp3''"
    by (simp add: path_join_def js_append)
  have z: "statSync_size (example_env (directory_fails sox_error unlink_error))
      (js ''/tmp/bmsurge-renderer/5d1f/extracted/z.mp3'') = Inr 1024"
    by (simp add: example_env_def example_size_def js_eq_iff)
  show ?thesis
    by (simp add: prepareSounds_def perform_def example_fails directory_fails_simps
        convert_sound_def p z)
qed

text \<open>
  Claim C7, amended. When making the destination directory, listing the sounds and
  removing each source file do not fail, \<open>prepareSounds\<close> completes, whatever the
  converter does, and for every sound listed: its source file is removed; if the file
  is empty the converter is not run for it and the progress line says
  \<open>skip; blank file\<close>; if the converter fails on it the progress line says \<open>error\<close>;
  if the converter succeeds the progress line says \<open>ok\<close>.
\<close>

theorem prepareSounds_policy:
  assumes "fails env (Mkdirp dest) = None"
    and "glob_sync env (js ''*.{wav,mp3,ogg}'') src = Inr sounds"
    and "\<forall>s\<in>set sounds. fails env (Unlink (path_join src s)) = None"
  shows "\<exists>new. prepareSounds env src dest w = Done (w\<lparr>trace := trace w @ Mkdirp dest # new\<rparr>) \<and>
     (\<forall>s\<in>set sounds.
        Unlink (path_join src s) \<in> set new \<and>
        (statSync_size env (path_join src s) = Inr 0 \<longrightarrow>
           sox_convert src dest s \<notin> set new \<and>
           (\<exists>k. Progress k (length sounds) s (js ''skip; blank file'') \<in> set new)) \<and>
        (\<forall>bytes e. statSync_size env (path_join src s) = Inr bytes \<and> bytes \<noteq> 0 \<and>
             fails env (sox_convert src dest s) = Some e \<longrightarrow>
           sox_convert src dest s \<in> set new \<and>
           (\<exists>k. Progress k (length sounds) s (js ''error'') \<in> set new)) \<and>
        (\<forall>bytes. statSync_size env (path_join src s) = Inr bytes \<and> bytes \<noteq> 0 \<and>
             fails env (sox_convert src dest s) = None \<longrightarrow>
           sox_convert src dest s \<in> set new \<and>
           (\<exists>k. Progress k (length sounds) s (js ''ok'') \<in> set new)))"
proof -
  let ?w1 = "w\<lparr>trace := trace w @ [Mkdirp dest]\<rparr>"
  from convert_each_ok [OF assms(3), of dest "length sounds" 0 ?w1] obtain new where
    r: "convert_each env src dest (length sounds) 0 sounds ?w1 = Done (?w1\<lparr>trace := trace ?w1 @ new\<rparr>)"
    and p: "\<forall>s\<in>set sounds.
        Unlink (path_join src s) \<in> set new \<and>
        (\<exists>k. Progress k (length sounds) s
               (case statSync_size env (path_join src s) of
                  Inl e \<Rightarrow> js ''error''
                | Inr bytes \<Rightarrow>
                    if bytes = 0 then js ''skip; blank file''
                    else if fails env (sox_convert src dest s) = None then js ''ok''
                    else js ''error'') \<in> set new)"
    and q: "\<forall>s. sox_convert src dest s \<in> set new \<longleftrightarrow>
        s \<in> set sounds \<and> (\<exists>bytes. statSync_size env (path_join src s) = Inr bytes \<and> bytes \<noteq> 0)"
    by blast
  have d: "prepareSounds env src dest w = Done (w\<lparr>trace := trace w @ Mkdirp dest # new\<rparr>)"
    using assms(1,2) r by (simp add: prepareSounds_def perform_ok)
  have "Unlink (path_join src s) \<in> set new \<and>
        (statSync_size env (path_join src s) = Inr 0 \<longrightarrow>
           sox_convert src dest s \<notin> set new \<and>
           (\<exists>k. Progress k (length sounds) s (js ''skip; blank file'') \<in> set new)) \<and>
        (\<forall>bytes e. statSync_size env (path_join src s) = Inr bytes \<and> bytes \<noteq> 0 \<and>
             fails env (sox_convert src dest s) = Some e \<longrightarrow>
           sox_convert src dest s \<in> set new \<and>
           (\<exists>k. Progress k (length sounds) s (js ''error'') \<in> set new)) \<and>
        (\<forall>bytes. statSync_size env (path_join src s) = Inr bytes \<and> bytes \<noteq> 0 \<and>
             fails env (sox_convert src dest s) = None \<longrightarrow>
           sox_convert src dest s \<in> set new \<and>
           (\<exists>k. Progress k (length sounds) s (js ''ok'') \<in> set new))"
    if s: "s \<in> set sounds" for s
  proof -
    from p s obtain k where u: "Unlink (path_join src s) \<in> set new"
      and g: "Progress k (length sounds) s
               (case statSync_size env (path_join src s) of
                  Inl e \<Rightarrow> js ''error''
                | Inr bytes \<Rightarrow>
                    if bytes = 0 then js ''skip; blank file''
                    else if fails env (sox_convert src dest s) = None then js ''ok''
                    else js ''error'') \<in> set new"
      by blast
    have z: "sox_convert src dest s \<notin> set new \<and>
           (\<exists>k. Progress k (length sounds) s (js ''skip; blank file'') \<in> set new)"
      if "statSync_size env (path_join src s) = Inr 0"
    proof -
      from q that have "sox_convert src dest s \<notin> set new" by simp
      moreover from g that have "Progress k (length sounds) s (js ''skip; blank file'') \<in> set new"
        by simp
      ultimately show ?thesis by blast
    qed
    have e: "sox_convert src dest s \<in> set new \<and>
           (\<exists>k. Progress k (length sounds) s (js ''error'') \<in> set new)"
      if "statSync_size env (path_join src s) = Inr bytes" "bytes \<noteq> 0"
         "fails env (sox_convert src dest s) = Some e" for bytes e
    proof -
      from q s that(1,2) have "sox_convert src dest s \<in> set new" by simp
      moreover from g that have "Progress k (length sounds) s (js ''error'') \<in> set new" by simp
      ultimately show ?thesis by blast
    qed
    have o: "sox_convert src dest s \<in> set new \<and>
           (\<exists>k. Progress k (length sounds) s (js ''ok'') \<in> set new)"
      if "statSync_size env (path_join src s) = Inr bytes" "bytes \<noteq> 0"
         "fails env (sox_convert src dest s) = None" for bytes
    proof -
      from q s that(1,2) have "sox_convert src dest s \<in> set new" by simp
      moreover from g that have "Progress k (length sounds) s (js ''ok'') \<in> set new" by simp
      ultimately show ?thesis by blast
    qed
    from u z e o show ?thesis by blast
  qed
  with d show ?thesis by blast
qed

text \<open>
  The example: \<open>e.ogg\<close> is empty and the converter fails on \<open>z.mp3\<close>; all three
  sounds are handled and removed.
\<close>

theorem prepareSounds_policy_witness:
  "\<exists>new. prepareSounds (example_env (conversion_fails sox_error))
       (js ''/tmp/bmsurge-renderer/5d1f/extracted'') (js ''/tmp/bmsurge-renderer/5d1f/render/song'')
       \<lparr>diag = no_diagnostics, trace = [], clock_reads = 0, selectedChart = None\<rparr> =
     Done \<lparr>diag = no_diagnostics,
           trace = Mkdirp (js ''/tmp/bmsurge-renderer/5d1f/render/song'') # new,
           clock_reads = 0, selectedChart = None\<rparr> \<and>
     Unlink (js ''/tmp/bmsurge-renderer/5d1f/extracted/e.ogg'') \<in> set new \<and>
     sox_convert (js ''/tmp/bmsurge-renderer/5d1f/extracted'')
       (js ''/tmp/bmsurge-renderer/5d1f/render/song'') (js ''e.ogg'') \<notin> set new \<and>
     (\<exists>k. Progress k 3 (js ''e.ogg'') (js ''skip; blank file'') \<in> set new) \<and>
     Unlink (js ''/tmp/bmsurge-renderer/5d1f/extracted/z.mp3'') \<in> set new \<and>
     sox_convert (js ''/tmp/bmsurge-renderer/5d1f/extracted'')
       (js ''/tmp/bmsurge-renderer/5d1f/render/song'') (js ''z.mp3'') \<in> set new \<and>
     (\<exists>k. Progress k 3 (js ''z.mp3'') (js ''error'') \<in> set new) \<and>
     Unlink (js ''/tmp/bmsurge-renderer/5d1f/extracted/c.wav'') \<in> set new \<and>
     (\<exists>k. Progress k 3 (js ''c.wav'') (js ''ok'') \<in> set new)"
proof -
  let ?env = "example_env (conversion_fails sox_error)"
  let ?src = "js ''/tmp/bmsurge-renderer/5d1f/extracted''"
  let ?dest = "js ''/tmp/bmsurge-renderer/5d1f/render/song''"
  let ?w = "\<lparr>diag = no_diagnostics, trace = [], clock_reads = 0, selectedChart = None\<rparr>"
  let ?sounds = "[js ''c.wav'', js ''e.ogg'', js ''z.mp3'']"
  have p: "path_join ?src (js ''c.wav'') = js ''/tmp/bmsurge-renderer/5d1f/extracted/c.wav''"
    "path_join ?src (js ''e.ogg'') = js ''/tmp/bmsurge-renderer/5d1f/extracted/e.ogg''"
    "path_join ?src (js ''z.mp3'') = js ''/tmp/bmsurge-renderer/5d1f/extracted/z.mp3''"
    by (simp_all add: path_join_def js_append)
  have m: "fails ?env (Mkdirp ?dest) = None" by (simp add: example_fails conversion_fails_simps)
  have g: "glob_sync ?env (js ''*.{wav,mp3,ogg}'') ?src = Inr ?sounds" by (simp add: example_reads)
  have u: "\<forall>s\<in>set ?sounds. fails ?env (Unlink (path_join ?src s)) = None"
    by (simp add: example_fails conversion_fails_simps)
  from prepareSounds_policy [OF m g u, of ?w] obtain new where
    d: "prepareSounds ?env ?src ?dest ?w = Done (?w\<lparr>trace := trace ?w @ Mkdirp ?dest # new\<rparr>)"
    and a: "\<forall>s\<in>set ?sounds.
        Unlink (path_join ?src s) \<in> set new \<and>
        (statSync_size ?env (path_join ?src s) = Inr 0 \<longrightarrow>
           sox_convert ?src ?dest s \<notin> set new \<and>
           (\<exists>k. Progress k (length ?sounds) s (js ''skip; blank file'') \<in> set new)) \<and>
        (\<forall>bytes e. statSync_size ?env (path_join ?src s) = Inr bytes \<and> bytes \<noteq> 0 \<and>
             fails ?env (sox_convert ?src ?dest s) = Some e \<longrightarrow>
           sox_convert ?src ?dest s \<in> set new \<and>
           (\<exists>k. Progress k (length ?sounds) s (js ''error'') \<in> set new)) \<and>
        (\<forall>bytes. statSync_size ?env (path_join ?src s) = Inr bytes \<and> bytes \<noteq> 0 \<and>
             fails ?env (sox_convert ?src ?dest s) = None \<longrightarrow>
           sox_convert ?src ?dest s \<in> set new \<and>
           (\<exists>k. Progress k (length ?sounds) s (js ''ok'') \<in> set new))"
    by blast
  from a have c: "Unlink (path_join ?src (js ''c.wav'')) \<in> set new \<and>
        (\<forall>bytes. statSync_size ?env (path_join ?src (js ''c.wav'')) = Inr bytes \<and> bytes \<noteq> 0 \<and>
             fails ?env (sox_convert ?src ?dest (js ''c.wav'')) = None \<longrightarrow>
           sox_convert ?src ?dest (js ''c.wav'') \<in> set new \<and>
           (\<exists>k. Progress k (length ?sounds) (js ''c.wav'') (js ''ok'') \<in> set new))"
    by simp
  from a have e: "Unlink (path_join ?src (js ''e.ogg'')) \<in> set new \<and>
        (statSync_size ?env (path_join ?src (js ''e.ogg'')) = Inr 0 \<longrightarrow>
           sox_convert ?src ?dest (js ''e.ogg'') \<notin> set new \<and>
           (\<exists>k. Progress k (length ?sounds) (js ''e.ogg'') (js ''skip; blank file'') \<in> set new))"
    by simp
  from a have z: "Unlink (path_join ?src (js ''z.mp3'')) \<in> set new \<and>
        (\<forall>bytes e. statSync_size ?env (path_join ?src (js ''z.mp3'')) = Inr bytes \<and> bytes \<noteq> 0 \<and>
             fails ?env (sox_convert ?src ?dest (js ''z.mp3'')) = Some e \<longrightarrow>
           sox_convert ?src ?dest (js ''z.mp3'') \<in> set new \<and>
           (\<exists>k. Progress k (length ?sounds) (js ''z.mp3'') (js ''error'') \<in> set new))"
    by simp
  have fc: "fails ?env (sox_convert ?src ?dest (js ''c.wav'')) = None"
    by (simp add: example_fails conversion_fails_simps js_eq_iff)
  have fz: "fails ?env (sox_convert ?src ?dest (js ''z.mp3'')) = Some sox_error"
    by (simp add: example_fails conversion_fails_simps)
  from c fc example_sizes(1) [of "conversion_fails sox_error"]
  have c': "Unlink (js ''/tmp/bmsurge-renderer/5d1f/extracted/c.wav'') \<in> set new \<and>
      (\<exists>k. Progress k 3 (js ''c.wav'') (js ''ok'') \<in> set new)"
    unfolding p by (simp add: numeral_3_eq_3)
  from e example_sizes(2) [of "conversion_fails sox_error"]
  have e': "Unlink (js ''/tmp/bmsurge-renderer/5d1f/extracted/e.ogg'') \<in> set new \<and>
      sox_convert ?src ?dest (js ''e.ogg'') \<notin> set new \<and>
      (\<exists>k. Progress k 3 (js ''e.ogg'') (js ''skip; blank file'') \<in> set new)"
    unfolding p by (simp add: numeral_3_eq_3)
  from z fz example_sizes(3) [of "conversion_fails sox_error"]
  have z': "Unlink (js ''/tmp/bmsurge-renderer/5d1f/extracted/z.mp3'') \<in> set new \<and>
      sox_convert ?src ?dest (js ''z.mp3'') \<in> set new \<and>
      (\<exists>k. Progress k 3 (js ''z.mp3'') (js ''error'') \<in> set new)"
    unfolding p by (simp add: numeral_3_eq_3)
  from d have "prepareSounds ?env ?src ?dest ?w =
      Done \<lparr>diag = no_diagnostics, trace = Mkdirp ?dest # new, clock_reads = 0, selectedChart = None\<rparr>"
    by simp
  with c' e' z' show ?thesis by blast
qed

text \<open>
  Claim C8, as the specification states it, fails: the request is accepted, the
  render succeeds, the upload fails, and the handler passes the error on instead of
  returning the diagnostics.
\<close>

theorem diagnostics_always_returned_counterexample:
  "put_renders (example_env (upload_fails upload_error)) (js ''renders'') (js ''op1'')
     (js ''http://a/1.zip'') = Next upload_error"
proof -
  let ?env = "example_env (upload_fails upload_error)"
  let ?w = "render ?env (js ''http://a/1.zip'') None (no_diagnostics\<lparr>operationId := Some (js ''op1'')\<rparr>)"
  have "outFile (diag ?w) = Some (js ''/tmp/bmsurge-renderer/5d1f/song.mp3'')"
    using render_example_succeeds [of "upload_fails upload_error"]
    by (simp add: upload_fails_simps)
  then show ?thesis
    by (simp add: put_renders_def Let_def prefix_http truthy_string_def js_Nil_iff perform_def
        example_fails upload_fails_simps)
qed

text \<open>
  Claim C8, amended. The handler answers with status 400 exactly when the text of the
  URL does not begin with \<open>http\<close>, and with no other status of its own. For an
  accepted request: when the render failed, the diagnostics, which carry the error, are
  the response body; when the render succeeded and the upload does not fail, the
  response body is the diagnostics with the event \<open>uploaded\<close> added; when the upload
  fails, the error is passed to the error handler of the framework.
\<close>

theorem service_reply:
  "((\<exists>code text. put_renders env bucketName opId u = Send code text) \<longleftrightarrow>
       \<not> prefix (js ''http'') u) \<and>
   (\<forall>code text. put_renders env bucketName opId u = Send code text \<longrightarrow> code = 400) \<and>
   (prefix (js ''http'') u \<longrightarrow>
      (error (diag (render env u None (no_diagnostics\<lparr>operationId := Some opId\<rparr>))) \<noteq> None \<longrightarrow>
         put_renders env bucketName opId u =
           Json (diag (render env u None (no_diagnostics\<lparr>operationId := Some opId\<rparr>)))) \<and>
      (error (diag (render env u None (no_diagnostics\<lparr>operationId := Some opId\<rparr>))) = None \<and>
       fails env (Upload bucketName (new_workDir env @ js ''/song.mp3'') (opId @ js ''.mp3'')) = None
         \<longrightarrow>
         (\<exists>d. put_renders env bucketName opId u = Json d \<and>
              event_names d =
                event_names (diag (render env u None (no_diagnostics\<lparr>operationId := Some opId\<rparr>)))
                  @ [js ''uploaded''] \<and>
              d\<lparr>events := []\<rparr> =
                (diag (render env u None (no_diagnostics\<lparr>operationId := Some opId\<rparr>)))
                  \<lparr>events := []\<rparr>)) \<and>
      (\<forall>e. error (diag (render env u None (no_diagnostics\<lparr>operationId := Some opId\<rparr>))) = None \<and>
           fails env (Upload bucketName (new_workDir env @ js ''/song.mp3'') (opId @ js ''.mp3''))
             = Some e
         \<longrightarrow> put_renders env bucketName opId u = Next e))"
proof -
  let ?d0 = "no_diagnostics\<lparr>operationId := Some opId\<rparr>"
  let ?w = "render env u None ?d0"
  let ?up = "Upload bucketName (new_workDir env @ js ''/song.mp3'') (opId @ js ''.mp3'')"
  have d0: "outFile ?d0 = None" "error ?d0 = None" by (simp_all add: no_diagnostics_def)
  have rej: "\<not> prefix (js ''http'') u \<Longrightarrow>
      put_renders env bucketName opId u = Send 400 (js ''URL must be valid'')"
    by (simp add: put_renders_def)
  have nonempty: "truthy_string (new_workDir env @ js ''/song.mp3'')"
    by (simp add: truthy_string_def js_def)
  have failed: "put_renders env bucketName opId u = Json (diag ?w)"
    if "prefix (js ''http'') u" "error (diag ?w) \<noteq> None"
  proof -
    from service_render_cases [OF d0, of env u] that(2) have "outFile (diag ?w) = None" by blast
    with that(1) show ?thesis by (simp add: put_renders_def Let_def)
  qed
  have produced: "outFile (diag ?w) = Some (new_workDir env @ js ''/song.mp3'')"
    if "error (diag ?w) = None"
    using service_render_cases [OF d0, of env u] that by blast
  have uploaded: "\<exists>d. put_renders env bucketName opId u = Json d \<and>
        event_names d = event_names (diag ?w) @ [js ''uploaded''] \<and>
        d\<lparr>events := []\<rparr> = (diag ?w)\<lparr>events := []\<rparr>"
    if "prefix (js ''http'') u" "error (diag ?w) = None" "fails env ?up = None"
  proof -
    have "put_renders env bucketName opId u =
        Json (diag (eventLog env (js ''uploaded'') (?w\<lparr>trace := trace ?w @ [?up]\<rparr>)))"
      using that produced [OF that(2)] nonempty
      by (simp add: put_renders_def Let_def perform_def)
    then show ?thesis
      by (simp add: eventLog_def event_names_def)
  qed
  have refused: "put_renders env bucketName opId u = Next e"
    if "prefix (js ''http'') u" "error (diag ?w) = None" "fails env ?up = Some e" for e
    using that produced [OF that(2)] nonempty
    by (simp add: put_renders_def Let_def perform_def)
  have acc: "prefix (js ''http'') u \<Longrightarrow> \<forall>code text. put_renders env bucketName opId u \<noteq> Send code text"
    by (auto simp: put_renders_def Let_def split: option.splits outcome.splits)
  have a: "(\<exists>code text. put_renders env bucketName opId u = Send code text) \<longleftrightarrow>
       \<not> prefix (js ''http'') u"
    using rej acc by blast
  have b: "\<forall>code text. put_renders env bucketName opId u = Send code text \<longrightarrow> code = 400"
    using rej acc by (cases "prefix (js ''http'') u") auto
  from a b failed uploaded refused show ?thesis by blast
qed

text \<open>
  Examples: a URL that is rejected, a download that fails, an upload that fails, and
  a run without failures.
\<close>

theorem service_reply_witness:
  "put_renders (example_env (command_fails (js ''wget'') wget_error)) (js ''renders'') (js ''op1'')
     (js ''ftp://a/1.zip'') = Send 400 (js ''URL must be valid'') \<and>
   put_renders (example_env (command_fails (js ''wget'') wget_error)) (js ''renders'') (js ''op1'')
     (js ''http://a/1.zip'') =
     Json (diag (render (example_env (command_fails (js ''wget'') wget_error)) (js ''http://a/1.zip'')
                   None (no_diagnostics\<lparr>operationId := Some (js ''op1'')\<rparr>))) \<and>
   error (diag (render (example_env (command_fails (js ''wget'') wget_error)) (js ''http://a/1.zip'')
                   None (no_diagnostics\<lparr>operationId := Some (js ''op1'')\<rparr>)))
     = Some (js ''Error: Command failed with exit code 8: wget'') \<and>
   put_renders (example_env (upload_fails upload_error)) (js ''renders'') (js ''op1'')
     (js ''http://a/1.zip'') = Next upload_error \<and>
   (\<exists>d. put_renders (example_env (\<lambda>a. None)) (js ''renders'') (js ''op1'') (js ''http://a/1.zip'')
          = Json d \<and>
        event_names d =
          event_names (diag (render (example_env (\<lambda>a. None)) (js ''http://a/1.zip'') None
                               (no_diagnostics\<lparr>operationId := Some (js ''op1'')\<rparr>)))
            @ [js ''uploaded''] \<and>
        outFile d = Some (js ''/tmp/bmsurge-renderer/5d1f/song.mp3''))"
proof -
  let ?d0 = "no_diagnostics\<lparr>operationId := Some (js ''op1'')\<rparr>"
  let ?e1 = "example_env (command_fails (js ''wget'') wget_error)"
  let ?e2 = "example_env (upload_fails upload_error)"
  let ?e3 = "example_env (\<lambda>a. None)"
  note s1 = service_reply [of ?e1 "js ''renders''" "js ''op1''" "js ''ftp://a/1.zip''"]
  note s2 = service_reply [of ?e1 "js ''renders''" "js ''op1''" "js ''http://a/1.zip''"]
  note s3 = service_reply [of ?e2 "js ''renders''" "js ''op1''" "js ''http://a/1.zip''"]
  note s4 = service_reply [of ?e3 "js ''renders''" "js ''op1''" "js ''http://a/1.zip''"]
  from s1 not_prefix_http obtain code body where
    "put_renders ?e1 (js ''renders'') (js ''op1'') (js ''ftp://a/1.zip'') = Send code body"
    "code = 400"
    by blast
  then have a: "put_renders ?e1 (js ''renders'') (js ''op1'') (js ''ftp://a/1.zip'')
      = Send 400 (js ''URL must be valid'')"
    by (simp add: put_renders_def not_prefix_http)
  have e: "error (diag (render ?e1 (js ''http://a/1.zip'') None ?d0))
      = Some (js ''Error: Command failed with exit code 8: wget'')"
    using render_download_fails by blast
  with s2 prefix_http have b: "put_renders ?e1 (js ''renders'') (js ''op1'') (js ''http://a/1.zip'')
      = Json (diag (render ?e1 (js ''http://a/1.zip'') None ?d0))"
    by simp
  have ok2: "error (diag (render ?e2 (js ''http://a/1.zip'') None ?d0)) = None"
    using render_example_succeeds [of "upload_fails upload_error" "js ''http://a/1.zip''" ?d0]
    by (simp add: upload_fails_simps no_diagnostics_def)
  have up2: "fails ?e2 (Upload (js ''renders'') (new_workDir ?e2 @ js ''/song.mp3'')
      (js ''op1'' @ js ''.mp3'')) = Some upload_error"
    by (simp add: example_fails upload_fails_simps)
  from s3 prefix_http ok2 up2 have c:
    "put_renders ?e2 (js ''renders'') (js ''op1'') (js ''http://a/1.zip'') = Next upload_error"
    by blast
  have r3: "error (diag (render ?e3 (js ''http://a/1.zip'') None ?d0)) = None \<and>
      outFile (diag (render ?e3 (js ''http://a/1.zip'') None ?d0))
        = Some (js ''/tmp/bmsurge-renderer/5d1f/song.mp3'')"
    using render_example_succeeds [of "\<lambda>a. None" "js ''http://a/1.zip''" ?d0]
    by (simp add: no_diagnostics_def)
  have up3: "fails ?e3 (Upload (js ''renders'') (new_workDir ?e3 @ js ''/song.mp3'')
      (js ''op1'' @ js ''.mp3'')) = None"
    by (simp add: example_fails)
  from s4 prefix_http r3 up3 obtain d where
    d: "put_renders ?e3 (js ''renders'') (js ''op1'') (js ''http://a/1.zip'') = Json d"
      "event_names d = event_names (diag (render ?e3 (js ''http://a/1.zip'') None ?d0)) @ [js ''uploaded'']"
      "d\<lparr>events := []\<rparr> = (diag (render ?e3 (js ''http://a/1.zip'') None ?d0))\<lparr>events := []\<rparr>"
    by blast
  from d(3) have "outFile (d\<lparr>events := []\<rparr>)
      = outFile ((diag (render ?e3 (js ''http://a/1.zip'') None ?d0))\<lparr>events := []\<rparr>)"
    by simp
  with r3 have "outFile d = Some (js ''/tmp/bmsurge-renderer/5d1f/song.mp3'')" by simp
  with d(1,2) have dd: "\<exists>d. put_renders ?e3 (js ''renders'') (js ''op1'') (js ''http://a/1.zip'')
          = Json d \<and>
        event_names d =
          event_names (diag (render ?e3 (js ''http://a/1.zip'') None ?d0)) @ [js ''uploaded''] \<and>
        outFile d = Some (js ''/tmp/bmsurge-renderer/5d1f/song.mp3'')"
    by blast
  from a b e c dd show ?thesis by blast
qed


end
